theory Spec2Isabelle
  imports Complex_Main "HOL-Library.AList" "HOL-Library.Sublist"
begin

section \<open>The JavaScript runtime, as far as extension.js uses it\<close>

text \<open>
  Strings are lists of code units. The embedding uses \<^typ>\<open>char\<close>, so a code unit is
  one byte (the Latin-1 range of JavaScript's UTF-16 code units); \<open>length\<close> is the
  source's \<open>.length\<close>.
\<close>

subsection \<open>Character classes\<close>

definition code :: "char \<Rightarrow> nat" where
  "code c = of_char c"

text \<open>\<open>\s\<close>, which is also what \<open>String.prototype.trim\<close> strips: tab, line feed,
  vertical tab, form feed, carriage return, space and the no-break space.\<close>

definition is_space :: "char \<Rightarrow> bool" where
  "is_space c = (let n = code c in (9 \<le> n \<and> n \<le> 13) \<or> n = 32 \<or> n = 160)"

definition is_digit :: "char \<Rightarrow> bool" where
  "is_digit c = (let n = code c in 48 \<le> n \<and> n \<le> 57)"

definition is_upper :: "char \<Rightarrow> bool" where
  "is_upper c = (let n = code c in 65 \<le> n \<and> n \<le> 90)"

definition is_lower :: "char \<Rightarrow> bool" where
  "is_lower c = (let n = code c in 97 \<le> n \<and> n \<le> 122)"

text \<open>\<open>\w\<close> is \<open>[A-Za-z0-9_]\<close>.\<close>

definition is_word :: "char \<Rightarrow> bool" where
  "is_word c = (is_digit c \<or> is_upper c \<or> is_lower c \<or> c = CHR ''_'')"

text \<open>Line terminators, which \<open>.\<close> does not match: line feed and carriage return
  (U+2028 and U+2029 are outside the one-byte range).\<close>

definition is_line_terminator :: "char \<Rightarrow> bool" where
  "is_line_terminator c = (c = CHR 0x0A \<or> c = CHR 0x0D)"

text \<open>Case folding of the \<open>i\<close> flag. Every pattern of the source that carries the flag
  spells its letters in ASCII, and a non-ASCII code unit never folds onto an ASCII one.\<close>

definition upcase :: "char \<Rightarrow> char" where
  "upcase c = (if is_lower c then char_of (code c - 32) else c)"

definition same_char :: "bool \<Rightarrow> char \<Rightarrow> char \<Rightarrow> bool" where
  "same_char ic x c = (if ic then upcase x = upcase c else x = c)"

subsection \<open>Regular expressions: a backtracking matcher\<close>

text \<open>
  The patterns of the source are written as terms of \<open>rx\<close>, one constructor per
  construct of the pattern language. Matching follows the ECMAScript algorithm: it is a
  backtracking search in continuation-passing style that takes the first alternative
  that lets the rest of the pattern match; \<open>Star\<close> is greedy and \<open>LStar\<close> is lazy.
\<close>

datatype citem = CChar char | CRange char char | CWord | CSpace | CDigit | CNotSpace

fun citem_has :: "citem \<Rightarrow> char \<Rightarrow> bool" where
  "citem_has (CChar c) x = (x = c)"
| "citem_has (CRange a b) x = (code a \<le> code x \<and> code x \<le> code b)"
| "citem_has CWord x = is_word x"
| "citem_has CSpace x = is_space x"
| "citem_has CDigit x = is_digit x"
| "citem_has CNotSpace x = (\<not> is_space x)"

datatype rx =
    Chr char
  | Dot
  | In "citem list"
  | NotIn "citem list"
  | Eps
  | Cat rx rx
  | Alt rx rx
  | Star rx
  | LStar rx
  | Grp nat rx
  | Back nat
  | Ahead rx
  | Bol
  | Eol

record mstate =
  pos :: nat
  rest :: string
  caps :: "(nat \<times> string) list"

type_synonym cont = "mstate \<Rightarrow> mstate option"

definition step1 :: "(char \<Rightarrow> bool) \<Rightarrow> cont \<Rightarrow> cont" where
  "step1 p k s = (case rest s of [] \<Rightarrow> None
     | x # xs \<Rightarrow> if p x then k (s\<lparr>pos := Suc (pos s), rest := xs\<rparr>) else None)"

text \<open>A quantifier's loop. An iteration that consumes nothing is rejected, as the
  ECMAScript algorithm does, so the number of iterations is at most the length of the
  remaining input: the counter is that length and never runs out early.\<close>

primrec star_greedy :: "nat \<Rightarrow> (cont \<Rightarrow> cont) \<Rightarrow> cont \<Rightarrow> cont" where
  "star_greedy 0 m k s = k s"
| "star_greedy (Suc n) m k s =
     (case m (\<lambda>s'. if pos s' = pos s then None else star_greedy n m k s') s of
        Some r \<Rightarrow> Some r
      | None \<Rightarrow> k s)"

primrec star_lazy :: "nat \<Rightarrow> (cont \<Rightarrow> cont) \<Rightarrow> cont \<Rightarrow> cont" where
  "star_lazy 0 m k s = k s"
| "star_lazy (Suc n) m k s =
     (case k s of
        Some r \<Rightarrow> Some r
      | None \<Rightarrow> m (\<lambda>s'. if pos s' = pos s then None else star_lazy n m k s') s)"

fun match_prefix :: "bool \<Rightarrow> string \<Rightarrow> string \<Rightarrow> string option" where
  "match_prefix ic [] ys = Some ys"
| "match_prefix ic (x # xs) [] = None"
| "match_prefix ic (x # xs) (y # ys) = (if same_char ic y x then match_prefix ic xs ys else None)"

primrec rmatch :: "bool \<Rightarrow> rx \<Rightarrow> cont \<Rightarrow> cont" where
  "rmatch ic (Chr c) k s = step1 (\<lambda>x. same_char ic x c) k s"
| "rmatch ic Dot k s = step1 (\<lambda>x. \<not> is_line_terminator x) k s"
| "rmatch ic (In cs) k s = step1 (\<lambda>x. \<exists>c \<in> set cs. citem_has c x) k s"
| "rmatch ic (NotIn cs) k s = step1 (\<lambda>x. \<not> (\<exists>c \<in> set cs. citem_has c x)) k s"
| "rmatch ic Eps k s = k s"
| "rmatch ic (Cat a b) k s = rmatch ic a (rmatch ic b k) s"
| "rmatch ic (Alt a b) k s =
     (case rmatch ic a k s of Some r \<Rightarrow> Some r | None \<Rightarrow> rmatch ic b k s)"
| "rmatch ic (Star a) k s = star_greedy (length (rest s)) (rmatch ic a) k s"
| "rmatch ic (LStar a) k s = star_lazy (length (rest s)) (rmatch ic a) k s"
| "rmatch ic (Grp i a) k s =
     rmatch ic a (\<lambda>s'. k (s'\<lparr>caps := (i, take (pos s' - pos s) (rest s)) # caps s'\<rparr>)) s"
| "rmatch ic (Back i) k s =
     (case map_of (caps s) i of
        None \<Rightarrow> k s
      | Some w \<Rightarrow> (case match_prefix ic w (rest s) of
           None \<Rightarrow> None
         | Some ys \<Rightarrow> k (s\<lparr>pos := pos s + length w, rest := ys\<rparr>)))"
| "rmatch ic (Ahead a) k s =
     (case rmatch ic a Some s of None \<Rightarrow> None | Some r \<Rightarrow> k (s\<lparr>caps := caps r\<rparr>))"
| "rmatch ic Bol k s = (if pos s = 0 then k s else None)"
| "rmatch ic Eol k s = (if rest s = [] then k s else None)"

text \<open>Pattern shorthands: \<open>a+\<close>, \<open>a+?\<close>, \<open>a?\<close>, a sequence, alternatives in order, a
  literal string,
  \<open>\s*\<close>, \<open>\s+\<close> and \<open>[\s\S]\<close>.\<close>

definition Plus :: "rx \<Rightarrow> rx" where
  "Plus a = Cat a (Star a)"

definition LPlus :: "rx \<Rightarrow> rx" where
  "LPlus a = Cat a (LStar a)"

definition Opt :: "rx \<Rightarrow> rx" where
  "Opt a = Alt a Eps"

fun seq :: "rx list \<Rightarrow> rx" where
  "seq [] = Eps"
| "seq [a] = a"
| "seq (a # b # bs) = Cat a (seq (b # bs))"

fun alts :: "rx list \<Rightarrow> rx" where
  "alts [] = Eps"
| "alts [a] = a"
| "alts (a # b # bs) = Alt a (alts (b # bs))"

definition lit :: "string \<Rightarrow> rx" where
  "lit w = seq (map Chr w)"

definition ws :: rx where
  "ws = Star (In [CSpace])"

definition ws1 :: rx where
  "ws1 = Plus (In [CSpace])"

definition Anything :: rx where
  "Anything = In [CSpace, CNotSpace]"

text \<open>The result of a match: where it starts, the matched text and the groups (the
  source's \<open>match.index\<close>, \<open>match[0]\<close> and \<open>match[i]\<close>; an absent group is
  \<open>undefined\<close>).\<close>

record rmatch_result =
  index :: nat
  matched :: string
  groups :: "(nat \<times> string) list"

definition grp :: "rmatch_result \<Rightarrow> nat \<Rightarrow> string option" where
  "grp m i = map_of (groups m) i"

definition grp' :: "rmatch_result \<Rightarrow> nat \<Rightarrow> string" where
  "grp' m i = (case grp m i of None \<Rightarrow> [] | Some w \<Rightarrow> w)"

definition match_end :: "rmatch_result \<Rightarrow> nat" where
  "match_end m = index m + length (matched m)"

definition match_at :: "bool \<Rightarrow> rx \<Rightarrow> nat \<Rightarrow> string \<Rightarrow> rmatch_result option" where
  "match_at ic r p xs =
     (case rmatch ic r Some \<lparr>pos = p, rest = xs, caps = []\<rparr> of
        None \<Rightarrow> None
      | Some s \<Rightarrow> Some \<lparr>index = p, matched = take (pos s - p) xs, groups = caps s\<rparr>)"

text \<open>\<open>re.exec(text)\<close> with \<open>lastIndex = p\<close>, and \<open>text.match(re)\<close> without the
  \<open>g\<close> flag: the leftmost position at which the pattern matches.\<close>

fun exec_from :: "bool \<Rightarrow> rx \<Rightarrow> nat \<Rightarrow> string \<Rightarrow> rmatch_result option" where
  "exec_from ic r p [] = match_at ic r p []"
| "exec_from ic r p (x # xs) =
     (case match_at ic r p (x # xs) of
        Some m \<Rightarrow> Some m
      | None \<Rightarrow> exec_from ic r (Suc p) xs)"

definition rx_match :: "bool \<Rightarrow> rx \<Rightarrow> string \<Rightarrow> rmatch_result option" where
  "rx_match ic r text = exec_from ic r 0 text"

definition rx_test :: "bool \<Rightarrow> rx \<Rightarrow> string \<Rightarrow> bool" where
  "rx_test ic r text = (rx_match ic r text \<noteq> None)"

text \<open>A scan with the \<open>g\<close> flag cuts the text into the matches and the code units
  between them. The scan resumes where the last match ended, and one code unit later
  after an empty match.\<close>

datatype seg = Keep char | Hit rmatch_result

fun scan :: "bool \<Rightarrow> rx \<Rightarrow> nat \<Rightarrow> nat \<Rightarrow> string \<Rightarrow> seg list" where
  "scan ic r p skip [] =
     (if skip = 0 then (case match_at ic r p [] of None \<Rightarrow> [] | Some m \<Rightarrow> [Hit m]) else [])"
| "scan ic r p skip (x # xs) =
     (if skip = 0 then
        (case match_at ic r p (x # xs) of
           None \<Rightarrow> Keep x # scan ic r (Suc p) 0 xs
         | Some m \<Rightarrow>
             (if matched m = [] then Hit m # Keep x # scan ic r (Suc p) 0 xs
              else Hit m # scan ic r (Suc p) (length (matched m) - 1) xs))
      else scan ic r (Suc p) (skip - 1) xs)"

fun hits :: "seg list \<Rightarrow> rmatch_result list" where
  "hits [] = []"
| "hits (Keep c # ss) = hits ss"
| "hits (Hit m # ss) = m # hits ss"

text \<open>The loop \<open>while ((m = re.exec(text)) !== null)\<close> over a \<open>g\<close> pattern, and
  \<open>text.match(re)\<close> with the flag.\<close>

definition exec_all :: "bool \<Rightarrow> rx \<Rightarrow> string \<Rightarrow> rmatch_result list" where
  "exec_all ic r text = hits (scan ic r 0 0 text)"

text \<open>\<open>text.replace(re, f)\<close> with the \<open>g\<close> flag.\<close>

fun splice :: "(rmatch_result \<Rightarrow> string) \<Rightarrow> seg list \<Rightarrow> string" where
  "splice f [] = []"
| "splice f (Keep c # ss) = c # splice f ss"
| "splice f (Hit m # ss) = f m @ splice f ss"

definition replace_all :: "bool \<Rightarrow> rx \<Rightarrow> (rmatch_result \<Rightarrow> string) \<Rightarrow> string \<Rightarrow> string" where
  "replace_all ic r f text = splice f (scan ic r 0 0 text)"

subsection \<open>Strings\<close>

definition trimStart :: "string \<Rightarrow> string" where
  "trimStart w = dropWhile is_space w"

definition trim :: "string \<Rightarrow> string" where
  "trim w = rev (dropWhile is_space (rev (dropWhile is_space w)))"

fun startsWith :: "string \<Rightarrow> string \<Rightarrow> bool" where
  "startsWith w [] = True"
| "startsWith [] (p # ps) = False"
| "startsWith (x # xs) (p # ps) = (x = p \<and> startsWith xs ps)"

definition endsWith :: "string \<Rightarrow> string \<Rightarrow> bool" where
  "endsWith w p = startsWith (rev w) (rev p)"

text \<open>\<open>text.indexOf(p)\<close>, counted from \<open>i\<close>; \<open>None\<close> is the source's \<open>-1\<close>.\<close>

fun indexOf_from :: "nat \<Rightarrow> string \<Rightarrow> string \<Rightarrow> nat option" where
  "indexOf_from i [] p = (if p = [] then Some i else None)"
| "indexOf_from i (x # xs) p =
     (if startsWith (x # xs) p then Some i else indexOf_from (Suc i) xs p)"

definition str_includes :: "string \<Rightarrow> string \<Rightarrow> bool" where
  "str_includes w p = (indexOf_from 0 w p \<noteq> None)"

text \<open>\<open>text.substring(a, b)\<close> for \<open>a \<le> b\<close>, and \<open>text.substring(a)\<close>.\<close>

definition substring :: "string \<Rightarrow> nat \<Rightarrow> nat \<Rightarrow> string" where
  "substring w a b = take (b - a) (drop a w)"

text \<open>\<open>text.split(sep)\<close> for a non-empty separator: \<open>cur\<close> is the piece being read,
  reversed. With the empty separator the text is cut into its code units.\<close>

fun split_at :: "string \<Rightarrow> string \<Rightarrow> string \<Rightarrow> nat \<Rightarrow> string list" where
  "split_at sep cur [] skip = [rev cur]"
| "split_at sep cur (x # xs) skip =
     (if skip > 0 then split_at sep cur xs (skip - 1)
      else if startsWith (x # xs) sep then rev cur # split_at sep [] xs (length sep - 1)
      else split_at sep (x # cur) xs 0)"

definition split :: "string \<Rightarrow> string \<Rightarrow> string list" where
  "split w sep = (if sep = [] then map (\<lambda>c. [c]) w else split_at sep [] w 0)"

fun join :: "string \<Rightarrow> string list \<Rightarrow> string" where
  "join sep [] = []"
| "join sep [w] = w"
| "join sep (w # v # vs) = w @ sep @ join sep (v # vs)"

subsection \<open>Numbers\<close>

text \<open>
  A JavaScript number is an IEEE 754 double: \<open>Fin x\<close> is the finite double whose exact
  value is the rational \<open>x\<close> (\<open>Fin 0\<close> is \<open>+0\<close>), and \<open>NegZero\<close> is \<open>-0\<close>. An
  arithmetic operation is the exact operation on the rationals followed by
  \<open>round_double\<close>, rounding to the nearest double, ties to the even significand.
\<close>

datatype number = NaN | PosInf | NegInf | NegZero | Fin rat

definition pow2 :: "int \<Rightarrow> rat" where
  "pow2 e = (if 0 \<le> e then of_int (2 ^ nat e) else 1 / of_int (2 ^ nat (- e)))"

definition pow10 :: "int \<Rightarrow> rat" where
  "pow10 e = (if 0 \<le> e then of_int (10 ^ nat e) else 1 / of_int (10 ^ nat (- e)))"

text \<open>The number of digits of a natural number in base \<open>b\<close> (none for 0).\<close>

fun ndigits :: "nat \<Rightarrow> nat \<Rightarrow> nat" where
  "ndigits b n = (if n = 0 \<or> b < 2 then 0 else Suc (ndigits b (n div b)))"

text \<open>\<open>ilog b a\<close> is the integer \<open>e\<close> with \<open>b ^ e \<le> a < b ^ (e + 1)\<close>, for \<open>0 < a\<close>.\<close>

definition ilog :: "nat \<Rightarrow> rat \<Rightarrow> int" where
  "ilog b a = (if 1 \<le> a then int (ndigits b (nat \<lfloor>a\<rfloor>)) - 1
               else - int (ndigits b (nat (\<lceil>1 / a\<rceil> - 1))))"

definition round_half_even :: "rat \<Rightarrow> int" where
  "round_half_even q = (let f = \<lfloor>q\<rfloor>; d = q - of_int f in
     if d < 1 / 2 then f else if 1 / 2 < d then f + 1 else if even f then f else f + 1)"

text \<open>
  \<open>round_double x\<close>: with \<open>e\<close> the exponent of \<open>\<bar>x\<bar>\<close> (at least -1022, where the
  subnormal numbers begin) the doubles around \<open>\<bar>x\<bar>\<close> are the multiples of
  \<open>2 ^ (e - 52)\<close>; \<open>m\<close> is the nearest multiple. The result overflows when it reaches
  \<open>2 ^ 1024\<close>, that is when \<open>e\<close> is 1024 or more, or \<open>e\<close> is 1023 and \<open>m\<close> has
  been rounded up to \<open>2 ^ 53\<close>.
\<close>

definition round_double :: "rat \<Rightarrow> number" where
  "round_double x =
     (if x = 0 then Fin 0
      else let a = \<bar>x\<bar>;
               e = max (ilog 2 a) (- 1022);
               u = pow2 (e - 52);
               m = round_half_even (a / u);
               r = of_int m * u
           in if 1024 \<le> e \<or> (e = 1023 \<and> m = 9007199254740992)
              then (if x < 0 then NegInf else PosInf)
              else if m = 0 then (if x < 0 then NegZero else Fin 0)
              else Fin (if x < 0 then - r else r))"

definition is_zero :: "number \<Rightarrow> bool" where
  "is_zero a = (a = NegZero \<or> a = Fin 0)"

definition is_inf :: "number \<Rightarrow> bool" where
  "is_inf a = (a = PosInf \<or> a = NegInf)"

fun negative :: "number \<Rightarrow> bool" where
  "negative NegInf = True"
| "negative NegZero = True"
| "negative (Fin x) = (x < 0)"
| "negative a = False"

fun num_val :: "number \<Rightarrow> rat" where
  "num_val (Fin x) = x"
| "num_val a = 0"

fun num_neg :: "number \<Rightarrow> number" where
  "num_neg NaN = NaN"
| "num_neg PosInf = NegInf"
| "num_neg NegInf = PosInf"
| "num_neg NegZero = Fin 0"
| "num_neg (Fin x) = (if x = 0 then NegZero else Fin (- x))"

definition isNaN :: "number \<Rightarrow> bool" where
  "isNaN a = (a = NaN)"

definition signed_inf :: "bool \<Rightarrow> number" where
  "signed_inf neg = (if neg then NegInf else PosInf)"

definition signed_zero :: "bool \<Rightarrow> number" where
  "signed_zero neg = (if neg then NegZero else Fin 0)"

definition num_mul :: "number \<Rightarrow> number \<Rightarrow> number" where
  "num_mul a b =
     (if a = NaN \<or> b = NaN then NaN
      else if (is_inf a \<and> is_zero b) \<or> (is_zero a \<and> is_inf b) then NaN
      else if is_inf a \<or> is_inf b then signed_inf (negative a \<noteq> negative b)
      else if is_zero a \<or> is_zero b then signed_zero (negative a \<noteq> negative b)
      else round_double (num_val a * num_val b))"

definition num_div :: "number \<Rightarrow> number \<Rightarrow> number" where
  "num_div a b =
     (if a = NaN \<or> b = NaN then NaN
      else if (is_inf a \<and> is_inf b) \<or> (is_zero a \<and> is_zero b) then NaN
      else if is_inf a \<or> is_zero b then signed_inf (negative a \<noteq> negative b)
      else if is_inf b \<or> is_zero a then signed_zero (negative a \<noteq> negative b)
      else round_double (num_val a / num_val b))"

definition num_add :: "number \<Rightarrow> number \<Rightarrow> number" where
  "num_add a b =
     (if a = NaN \<or> b = NaN then NaN
      else if is_inf a \<and> is_inf b then (if a = b then a else NaN)
      else if is_inf a then a
      else if is_inf b then b
      else if is_zero a \<and> is_zero b then signed_zero (a = NegZero \<and> b = NegZero)
      else round_double (num_val a + num_val b))"

definition num_sub :: "number \<Rightarrow> number \<Rightarrow> number" where
  "num_sub a b = num_add a (num_neg b)"

text \<open>\<open>===\<close> and the ordering operators on two numbers: every comparison with
  \<open>NaN\<close> is false, and the two zeros are equal.\<close>

fun num_less :: "number \<Rightarrow> number \<Rightarrow> bool" where
  "num_less NaN b = False"
| "num_less a NaN = False"
| "num_less PosInf b = False"
| "num_less a PosInf = True"
| "num_less a NegInf = False"
| "num_less NegInf b = True"
| "num_less a b = (num_val a < num_val b)"

fun num_eq :: "number \<Rightarrow> number \<Rightarrow> bool" where
  "num_eq NaN b = False"
| "num_eq a NaN = False"
| "num_eq PosInf b = (b = PosInf)"
| "num_eq NegInf b = (b = NegInf)"
| "num_eq a PosInf = False"
| "num_eq a NegInf = False"
| "num_eq a b = (num_val a = num_val b)"

definition num_le :: "number \<Rightarrow> number \<Rightarrow> bool" where
  "num_le a b = (num_less a b \<or> num_eq a b)"

text \<open>\<open>Math.round\<close>: the integer nearest to \<open>x\<close>, the larger one at a tie; a result
  zero keeps the sign of \<open>x\<close>.\<close>

fun math_round :: "number \<Rightarrow> number" where
  "math_round (Fin x) =
     (let n = \<lfloor>x + 1 / 2\<rfloor> in if n = 0 \<and> x < 0 then NegZero else Fin (of_int n))"
| "math_round a = a"

subsection \<open>Numbers and strings\<close>

definition digit_char :: "nat \<Rightarrow> char" where
  "digit_char d = char_of (48 + d)"

fun dec :: "nat \<Rightarrow> string" where
  "dec n = (if n < 10 then [digit_char n] else dec (n div 10) @ [digit_char (n mod 10)])"

text \<open>The value of a digit in a radix up to 36, if it is one.\<close>

definition digit_val :: "nat \<Rightarrow> char \<Rightarrow> nat option" where
  "digit_val radix c =
     (let v = (if is_digit c then code c - 48
               else if is_lower c then code c - 87
               else if is_upper c then code c - 55
               else 36)
      in if v < radix then Some v else None)"

fun digits_val :: "nat \<Rightarrow> nat \<Rightarrow> string \<Rightarrow> nat" where
  "digits_val radix acc [] = acc"
| "digits_val radix acc (c # cs) =
     digits_val radix (acc * radix + (case digit_val radix c of None \<Rightarrow> 0 | Some v \<Rightarrow> v)) cs"

definition is_radix_digit :: "nat \<Rightarrow> char \<Rightarrow> bool" where
  "is_radix_digit radix c = (digit_val radix c \<noteq> None)"

text \<open>
  \<open>Number.prototype.toFixed(f)\<close>: for \<open>\<bar>x\<bar> < 10 ^ 21\<close> the digits of the integer
  \<open>n\<close> for which \<open>n / 10 ^ f\<close> is nearest to \<open>x\<close> (the larger \<open>n\<close> at a tie), padded
  to \<open>f + 1\<close> digits, with the point before the last \<open>f\<close>; beyond, the number's
  \<open>ToString\<close>.
\<close>

definition pad_left :: "nat \<Rightarrow> string \<Rightarrow> string" where
  "pad_left n w = replicate (n - length w) CHR ''0'' @ w"

definition fixed_digits :: "nat \<Rightarrow> rat \<Rightarrow> string" where
  "fixed_digits f x =
     (let n = nat \<lfloor>x * 10 ^ f + 1 / 2\<rfloor>;
          ds = pad_left (Suc f) (dec n)
      in if f = 0 then ds
         else take (length ds - f) ds @ ''.'' @ drop (length ds - f) ds)"

text \<open>
  \<open>Number::toString\<close>: the shortest digit string \<open>s\<close> (of \<open>k\<close> digits) and the
  exponent \<open>n\<close> for which \<open>s * 10 ^ (n - k)\<close> rounds to the double, the nearest such
  \<open>s\<close> where several fit.
\<close>

definition shortest_try :: "rat \<Rightarrow> int \<Rightarrow> nat \<Rightarrow> (int \<times> nat) option" where
  "shortest_try x nx k =
     (let sc = pow10 (nx - int k);
          y = x / sc;
          lo = \<lfloor>y\<rfloor>;
          ok_lo = (round_double (of_int lo * sc) = Fin x);
          ok_hi = (round_double (of_int (lo + 1) * sc) = Fin x);
          d = y - of_int lo;
          s = (if ok_lo \<and> ok_hi then
                 (if d < 1 / 2 then lo else if 1 / 2 < d then lo + 1
                  else if even lo then lo else lo + 1)
               else if ok_lo then lo else lo + 1)
      in if ok_lo \<or> ok_hi then
           (if s = 10 ^ k then Some (nx + 1, 10 ^ (k - 1)) else Some (nx, nat s))
         else None)"

fun shortest_from :: "rat \<Rightarrow> int \<Rightarrow> nat \<Rightarrow> nat \<Rightarrow> (int \<times> nat)" where
  "shortest_from x nx k 0 = (nx, nat \<lfloor>x / pow10 (nx - int k)\<rfloor>)"
| "shortest_from x nx k (Suc fuel) =
     (case shortest_try x nx k of
        Some r \<Rightarrow> r
      | None \<Rightarrow> shortest_from x nx (Suc k) fuel)"

definition exp_part :: "int \<Rightarrow> string" where
  "exp_part e = ''e'' @ (if e < 0 then ''-'' else ''+'') @ dec (nat \<bar>e\<bar>)"

definition pos_to_string :: "rat \<Rightarrow> string" where
  "pos_to_string x =
     (let (n, s) = shortest_from x (ilog 10 x + 1) 1 17;
          ds = dec s;
          k = int (length ds)
      in if k \<le> n \<and> n \<le> 21 then ds @ replicate (nat (n - k)) CHR ''0''
         else if 0 < n \<and> n \<le> 21 then take (nat n) ds @ ''.'' @ drop (nat n) ds
         else if - 6 < n \<and> n \<le> 0 then ''0.'' @ replicate (nat (- n)) CHR ''0'' @ ds
         else if k = 1 then ds @ exp_part (n - 1)
         else take 1 ds @ ''.'' @ drop 1 ds @ exp_part (n - 1))"

fun num_to_string :: "number \<Rightarrow> string" where
  "num_to_string NaN = ''NaN''"
| "num_to_string PosInf = ''Infinity''"
| "num_to_string NegInf = ''-Infinity''"
| "num_to_string NegZero = ''0''"
| "num_to_string (Fin x) =
     (if x = 0 then ''0'' else if x < 0 then ''-'' @ pos_to_string (- x) else pos_to_string x)"

fun toFixed :: "number \<Rightarrow> nat \<Rightarrow> string" where
  "toFixed (Fin x) f =
     (if 1000000000000000000000 \<le> \<bar>x\<bar> then num_to_string (Fin x)
      else if x < 0 then ''-'' @ fixed_digits f (- x)
      else fixed_digits f x)"
| "toFixed NegZero f = fixed_digits f 0"
| "toFixed a f = num_to_string a"

text \<open>
  The decimal literal at the start of a string (\<open>StrDecimalLiteral\<close>): an optional sign,
  then \<open>Infinity\<close> or digits with an optional fraction and an optional exponent. The
  result is the number and what follows the literal; \<open>None\<close> when the string starts
  with no literal.
\<close>

definition apply_sign :: "bool \<Rightarrow> number \<Rightarrow> number" where
  "apply_sign neg a = (if neg then num_neg a else a)"

definition read_exponent :: "string \<Rightarrow> int \<times> string" where
  "read_exponent w =
     (case w of
        [] \<Rightarrow> (0, w)
      | c # cs \<Rightarrow>
          if c = CHR ''e'' \<or> c = CHR ''E'' then
            (let neg = (cs \<noteq> [] \<and> hd cs = CHR ''-'');
                 signed = (cs \<noteq> [] \<and> (hd cs = CHR ''-'' \<or> hd cs = CHR ''+''));
                 ds = (if signed then tl cs else cs);
                 es = takeWhile is_digit ds
             in if es = [] then (0, w)
                else ((if neg then - 1 else 1) * int (digits_val 10 0 es), dropWhile is_digit ds))
          else (0, w))"

definition read_decimal :: "string \<Rightarrow> (number \<times> string) option" where
  "read_decimal w =
     (let neg = (w \<noteq> [] \<and> hd w = CHR ''-'');
          signed = (w \<noteq> [] \<and> (hd w = CHR ''-'' \<or> hd w = CHR ''+''));
          u = (if signed then tl w else w)
      in if startsWith u ''Infinity'' then Some (signed_inf neg, drop 8 u)
         else
           (let ip = takeWhile is_digit u;
                r1 = dropWhile is_digit u;
                dotted = (r1 \<noteq> [] \<and> hd r1 = CHR ''.'');
                fp = (if dotted then takeWhile is_digit (tl r1) else []);
                r2 = (if dotted then dropWhile is_digit (tl r1) else r1)
            in if ip = [] \<and> fp = [] then None
               else
                 (let (e, r3) = read_exponent r2;
                      m = digits_val 10 0 (ip @ fp)
                  in Some (apply_sign neg
                        (round_double (of_int (int m) * pow10 (e - int (length fp)))), r3))))"

text \<open>\<open>parseFloat\<close> of a string: the literal after leading white space, whatever
  follows it.\<close>

definition parseFloat_str :: "string \<Rightarrow> number" where
  "parseFloat_str w = (case read_decimal (trimStart w) of None \<Rightarrow> NaN | Some (a, r) \<Rightarrow> a)"

text \<open>\<open>parseInt(w, radix)\<close> of a string; radix 0 stands for the absent radix (10, or
  16 after a \<open>0x\<close> prefix).\<close>

definition parseInt_str :: "string \<Rightarrow> nat \<Rightarrow> number" where
  "parseInt_str w radix =
     (let t = trimStart w;
          neg = (t \<noteq> [] \<and> hd t = CHR ''-'');
          signed = (t \<noteq> [] \<and> (hd t = CHR ''-'' \<or> hd t = CHR ''+''));
          u = (if signed then tl t else t);
          hex = ((radix = 0 \<or> radix = 16) \<and> (startsWith u ''0x'' \<or> startsWith u ''0X''));
          v = (if hex then drop 2 u else u);
          rd = (if hex then 16 else if radix = 0 then 10 else radix);
          ds = takeWhile (is_radix_digit rd) v
      in if rd < 2 \<or> 36 < rd \<or> ds = [] then NaN
         else apply_sign neg (round_double (of_int (int (digits_val rd 0 ds)))))"

text \<open>\<open>Number(w)\<close> of a string (\<open>StringToNumber\<close>): the whole trimmed string is a
  literal, decimal or with a \<open>0x\<close>, \<open>0o\<close> or \<open>0b\<close> prefix; the empty string is 0.\<close>

definition prefixed_int :: "string \<Rightarrow> number option" where
  "prefixed_int t =
     (let p = take 2 t; ds = drop 2 t;
          rd = (if p = ''0x'' \<or> p = ''0X'' then 16
                else if p = ''0o'' \<or> p = ''0O'' then 8
                else if p = ''0b'' \<or> p = ''0B'' then 2 else 0)
      in if rd = 0 then None
         else if ds \<noteq> [] \<and> list_all (is_radix_digit rd) ds
           then Some (round_double (of_int (int (digits_val rd 0 ds))))
         else Some NaN)"

definition stringToNumber :: "string \<Rightarrow> number" where
  "stringToNumber w =
     (let t = trim w in
      if t = [] then Fin 0
      else case prefixed_int t of
        Some a \<Rightarrow> a
      | None \<Rightarrow> (case read_decimal t of
           None \<Rightarrow> NaN
         | Some (a, r) \<Rightarrow> if r = [] then a else NaN))"

subsection \<open>Values\<close>

text \<open>
  The values the extension computes with: the primitives, arrays, and plain objects as
  lists of own properties in key order (JSON data, and the \<open>forloop\<close> object).
  Properties inherited from a prototype other than an array's \<open>length\<close> are not part
  of the embedding, and an object has no identity: where JavaScript compares two
  references (\<open>==\<close> on two arrays or objects, the elements of a \<open>Set\<close>), the
  embedding compares the contents.
\<close>

datatype jsval =
    Undefined
  | Null
  | JBool bool
  | Num number
  | Str string
  | Arr "jsval list"
  | Obj "(string \<times> jsval) list"

datatype js_error = TypeError | RangeError

fun is_object :: "jsval \<Rightarrow> bool" where
  "is_object (Arr xs) = True"
| "is_object (Obj kvs) = True"
| "is_object v = False"

fun is_array :: "jsval \<Rightarrow> bool" where
  "is_array (Arr xs) = True"
| "is_array v = False"

fun is_string :: "jsval \<Rightarrow> bool" where
  "is_string (Str w) = True"
| "is_string v = False"

text \<open>\<open>!!v\<close>.\<close>

fun truthy :: "jsval \<Rightarrow> bool" where
  "truthy Undefined = False"
| "truthy Null = False"
| "truthy (JBool b) = b"
| "truthy (Num a) = (\<not> isNaN a \<and> \<not> is_zero a)"
| "truthy (Str w) = (w \<noteq> [])"
| "truthy (Arr xs) = True"
| "truthy (Obj kvs) = True"

text \<open>\<open>String(v)\<close>, which is also how \<open>+\<close> and a template literal turn a value into
  text: an array joins its elements with commas, \<open>null\<close> and \<open>undefined\<close> elements
  as empty strings.\<close>

fun toStr :: "jsval \<Rightarrow> string" where
  "toStr Undefined = ''undefined''"
| "toStr Null = ''null''"
| "toStr (JBool b) = (if b then ''true'' else ''false'')"
| "toStr (Num a) = num_to_string a"
| "toStr (Str w) = w"
| "toStr (Arr xs) =
     join '','' (map (\<lambda>x. if x = Undefined \<or> x = Null then [] else toStr x) xs)"
| "toStr (Obj kvs) = ''[object Object]''"

fun toNumber :: "jsval \<Rightarrow> number" where
  "toNumber Undefined = NaN"
| "toNumber Null = Fin 0"
| "toNumber (JBool b) = (if b then Fin 1 else Fin 0)"
| "toNumber (Num a) = a"
| "toNumber (Str w) = stringToNumber w"
| "toNumber v = stringToNumber (toStr v)"

definition toPrimitive :: "jsval \<Rightarrow> jsval" where
  "toPrimitive v = (if is_object v then Str (toStr v) else v)"

definition parseFloat :: "jsval \<Rightarrow> number" where
  "parseFloat v = parseFloat_str (toStr v)"

definition parseInt :: "jsval \<Rightarrow> number" where
  "parseInt v = parseInt_str (toStr v) 0"

definition nullish :: "jsval \<Rightarrow> bool" where
  "nullish v = (v = Undefined \<or> v = Null)"

text \<open>\<open>x == y\<close>. Two objects are equal when they are the same object; the embedding
  has no identity of objects and takes two objects with the same content for the same
  object.\<close>

definition loose_eq :: "jsval \<Rightarrow> jsval \<Rightarrow> bool" where
  "loose_eq x y =
     (if nullish x \<or> nullish y then nullish x \<and> nullish y
      else if is_object x \<and> is_object y then x = y
      else let x' = toPrimitive x; y' = toPrimitive y in
        if is_string x' \<and> is_string y' then x' = y'
        else num_eq (toNumber x') (toNumber y'))"

text \<open>\<open>x === y\<close>.\<close>

fun strict_eq :: "jsval \<Rightarrow> jsval \<Rightarrow> bool" where
  "strict_eq (Num a) (Num b) = num_eq a b"
| "strict_eq x y = (x = y)"

text \<open>The order of two strings, code unit by code unit.\<close>

fun str_less :: "string \<Rightarrow> string \<Rightarrow> bool" where
  "str_less w [] = False"
| "str_less [] (y # ys) = True"
| "str_less (x # xs) (y # ys) = (code x < code y \<or> (x = y \<and> str_less xs ys))"

text \<open>The comparison behind \<open><\<close>, \<open>>\<close>, \<open><=\<close> and \<open>>=\<close>; \<open>None\<close> is the undefined
  outcome of a comparison with \<open>NaN\<close>.\<close>

definition js_less :: "jsval \<Rightarrow> jsval \<Rightarrow> bool option" where
  "js_less x y =
     (let x' = toPrimitive x; y' = toPrimitive y in
      if is_string x' \<and> is_string y' then Some (str_less (toStr x') (toStr y'))
      else let a = toNumber x'; b = toNumber y' in
        if isNaN a \<or> isNaN b then None else Some (num_less a b))"

definition js_lt :: "jsval \<Rightarrow> jsval \<Rightarrow> bool" where
  "js_lt x y = (js_less x y = Some True)"

definition js_gt :: "jsval \<Rightarrow> jsval \<Rightarrow> bool" where
  "js_gt x y = (js_less y x = Some True)"

definition js_le :: "jsval \<Rightarrow> jsval \<Rightarrow> bool" where
  "js_le x y = (js_less y x = Some False)"

definition js_ge :: "jsval \<Rightarrow> jsval \<Rightarrow> bool" where
  "js_ge x y = (js_less x y = Some False)"

text \<open>An array index written as a property name: the decimal digits of a number below
  the array's length.\<close>

definition array_index :: "string \<Rightarrow> nat \<Rightarrow> nat option" where
  "array_index p n =
     (if p \<noteq> [] \<and> list_all is_digit p \<and> dec (digits_val 10 0 p) = p \<and> digits_val 10 0 p < n
      then Some (digits_val 10 0 p) else None)"

text \<open>\<open>p in v\<close> and \<open>v[p]\<close> for an own property \<open>p\<close>.\<close>

fun has_prop :: "jsval \<Rightarrow> string \<Rightarrow> bool" where
  "has_prop (Obj kvs) p = (map_of kvs p \<noteq> None)"
| "has_prop (Arr xs) p = (p = ''length'' \<or> array_index p (length xs) \<noteq> None)"
| "has_prop v p = False"

fun get_prop :: "jsval \<Rightarrow> string \<Rightarrow> jsval" where
  "get_prop (Obj kvs) p = (case map_of kvs p of None \<Rightarrow> Undefined | Some v \<Rightarrow> v)"
| "get_prop (Arr xs) p =
     (if p = ''length'' then Num (Fin (of_int (int (length xs))))
      else case array_index p (length xs) of None \<Rightarrow> Undefined | Some i \<Rightarrow> xs ! i)"
| "get_prop (Str w) p =
     (if p = ''length'' then Num (Fin (of_int (int (length w))))
      else case array_index p (length w) of None \<Rightarrow> Undefined | Some i \<Rightarrow> Str [w ! i])"
| "get_prop v p = Undefined"

text \<open>\<open>xs[i]\<close> for a number \<open>i\<close>: the element when \<open>i\<close> is an index of the array,
  \<open>undefined\<close> otherwise.\<close>

definition array_at :: "jsval list \<Rightarrow> number \<Rightarrow> jsval" where
  "array_at xs i =
     (if is_zero i then (case xs of [] \<Rightarrow> Undefined | x # ys \<Rightarrow> x)
      else case i of
        Fin q \<Rightarrow> (if 0 \<le> q \<and> of_int \<lfloor>q\<rfloor> = q \<and> nat \<lfloor>q\<rfloor> < length xs
                   then xs ! nat \<lfloor>q\<rfloor> else Undefined)
      | _ \<Rightarrow> Undefined)"

text \<open>The replacement text of \<open>String.prototype.replace\<close> for a match without groups:
  \<open>$$\<close> is a dollar sign, \<open>$&\<close> the match, \<open>$`\<close> what precedes it and \<open>$'\<close> what
  follows it. With \<open>gs\<close>, \<open>$1\<close> to \<open>$9\<close> are the groups with those numbers.\<close>

fun substitution :: "string \<Rightarrow> string \<Rightarrow> string \<Rightarrow> (nat \<times> string option) list \<Rightarrow> string \<Rightarrow> string" where
  "substitution m pre post gs [] = []"
| "substitution m pre post gs [c] = [c]"
| "substitution m pre post gs (c # d # cs) =
     (if c \<noteq> CHR ''$'' then c # substitution m pre post gs (d # cs)
      else if d = CHR ''$'' then CHR ''$'' # substitution m pre post gs cs
      else if d = CHR ''&'' then m @ substitution m pre post gs cs
      else if d = CHR 0x60 then pre @ substitution m pre post gs cs
      else if d = CHR 0x27 then post @ substitution m pre post gs cs
      else case map_of gs (code d - 48) of
        Some g \<Rightarrow> (if is_digit d then (case g of None \<Rightarrow> [] | Some w \<Rightarrow> w) @ substitution m pre post gs cs
                   else c # substitution m pre post gs (d # cs))
      | None \<Rightarrow> c # substitution m pre post gs (d # cs))"

text \<open>\<open>text.replace(re, replacement)\<close> with the \<open>g\<close> flag and a replacement string;
  \<open>ngroups\<close> is the number of groups of the pattern.\<close>

definition group_table :: "nat \<Rightarrow> rmatch_result \<Rightarrow> (nat \<times> string option) list" where
  "group_table ngroups m = map (\<lambda>i. (i, grp m i)) [1 ..< Suc ngroups]"

definition replace_all_str :: "bool \<Rightarrow> rx \<Rightarrow> nat \<Rightarrow> string \<Rightarrow> string \<Rightarrow> string" where
  "replace_all_str ic r ngroups replacement text =
     replace_all ic r
       (\<lambda>m. substitution (matched m) (take (index m) text) (drop (match_end m) text)
               (group_table ngroups m) replacement) text"

text \<open>\<open>text.replace(p, replacement)\<close> with a string pattern: the first occurrence.\<close>

definition replace_first_str :: "string \<Rightarrow> string \<Rightarrow> string \<Rightarrow> string" where
  "replace_first_str p replacement text =
     (case indexOf_from 0 text p of
        None \<Rightarrow> text
      | Some i \<Rightarrow> take i text
          @ substitution p (take i text) (drop (i + length p) text) [] replacement
          @ drop (i + length p) text)"

text \<open>\<open>Array.prototype.sort\<close> with a comparator: a stable insertion sort, the
  \<open>undefined\<close> elements last.\<close>

fun insert_by :: "('a \<Rightarrow> 'a \<Rightarrow> int) \<Rightarrow> 'a \<Rightarrow> 'a list \<Rightarrow> 'a list" where
  "insert_by cmp x [] = [x]"
| "insert_by cmp x (y # ys) = (if cmp x y < 0 then x # y # ys else y # insert_by cmp x ys)"

definition sort_by :: "('a \<Rightarrow> 'a \<Rightarrow> int) \<Rightarrow> 'a list \<Rightarrow> 'a list" where
  "sort_by cmp xs = foldl (\<lambda>acc x. insert_by cmp x acc) [] xs"

definition array_sort :: "(jsval \<Rightarrow> jsval \<Rightarrow> int) \<Rightarrow> jsval list \<Rightarrow> jsval list" where
  "array_sort cmp xs =
     sort_by cmp (filter (\<lambda>x. x \<noteq> Undefined) xs) @ filter (\<lambda>x. x = Undefined) xs"

text \<open>The elements of \<open>new Set(xs)\<close> in insertion order: the first occurrence of each
  value, \<open>NaN\<close> equal to itself and the two zeros equal.\<close>

definition same_value_zero :: "jsval \<Rightarrow> jsval \<Rightarrow> bool" where
  "same_value_zero x y = (strict_eq x y \<or> (x = Num NaN \<and> y = Num NaN))"

fun uniq_values :: "jsval list \<Rightarrow> jsval list \<Rightarrow> jsval list" where
  "uniq_values seen [] = []"
| "uniq_values seen (x # xs) =
     (if list_ex (same_value_zero x) seen then uniq_values seen xs
      else x # uniq_values (x # seen) xs)"

text \<open>\<open>xs.indexOf(v)\<close> and \<open>xs.findIndex(p)\<close>; \<open>-1\<close> when nothing is found.\<close>

fun find_index_from :: "int \<Rightarrow> ('a \<Rightarrow> bool) \<Rightarrow> 'a list \<Rightarrow> int" where
  "find_index_from i p [] = - 1"
| "find_index_from i p (x # xs) = (if p x then i else find_index_from (i + 1) p xs)"

definition num_of_int :: "int \<Rightarrow> number" where
  "num_of_int i = Fin (of_int i)"

text \<open>\<open>path.basename\<close> (POSIX): the last component of a path.\<close>

definition basename :: "string \<Rightarrow> string" where
  "basename p = rev (takeWhile (\<lambda>c. c \<noteq> CHR ''/'') (dropWhile (\<lambda>c. c = CHR ''/'') (rev p)))"

section \<open>extension.js\<close>

subsection \<open>The module's state\<close>

text \<open>
  The module keeps its state in top-level variables: the registry \<open>cssVariables\<close> (a
  \<open>Map\<close>, here the list of its entries in insertion order), the two settings documents,
  the cached configuration, the two memoization caches, and \<open>lastIndex\<close> of the shared
  pattern \<open>REGEX.rootBlock\<close>, the one shared pattern an \<open>exec\<close> loop does not reset
  before it starts. What the host provides is part of the record too: the workspace
  configuration that \<open>getExtensionConfig\<close> reads, and the collation behind
  \<open>localeCompare\<close>.
\<close>

record mediaVariant =
  query :: string
  mvalue :: string

text \<open>An entry of the registry, \<open>{value, file, filePath, media}\<close>; \<open>media\<close> is
  \<open>None\<close> for an entry created without the property.\<close>

record cssVariableEntry =
  value' :: string
  file' :: string
  filePath :: string
  media :: "mediaVariant list option"

record extensionConfig =
  remToPxConversion :: bool
  baseFontSize :: number
  onlyRoot :: bool

record rgba =
  rgba_r :: number
  rgba_g :: number
  rgba_b :: number
  rgba_a :: number

record gstate =
  cssVariables :: "(string \<times> cssVariableEntry) list"
  shopifySettings :: jsval
  shopifySettingsSchema :: jsval
  cachedConfig :: "extensionConfig option"
  hexToRgbaCache :: "(string \<times> rgba) list"
  settingValueCache :: "(string \<times> jsval) list"
  rootBlockLastIndex :: nat
  workspaceConfig :: extensionConfig
  localeCompare :: "string \<Rightarrow> string \<Rightarrow> int"

text \<open>The outcome of a procedure that changes the state: it returns, or it throws. The
  changes made before a throw stay.\<close>

datatype 's outcome = Done 's | Threw js_error 's

fun state_of :: "'s outcome \<Rightarrow> 's" where
  "state_of (Done s) = s"
| "state_of (Threw e s) = s"

fun and_then :: "'s outcome \<Rightarrow> ('s \<Rightarrow> 's outcome) \<Rightarrow> 's outcome" where
  "and_then (Done s) f = f s"
| "and_then (Threw e s) f = Threw e s"

text \<open>A loop over a list that a throw leaves.\<close>

fun for_each :: "('a \<Rightarrow> 's \<Rightarrow> 's outcome) \<Rightarrow> 'a list \<Rightarrow> 's \<Rightarrow> 's outcome" where
  "for_each f [] s = Done s"
| "for_each f (x # xs) s = and_then (f x s) (for_each f xs)"

text \<open>
  A function of the source that returns a value, may throw, and reads and writes a part
  \<open>'s\<close> of the module's state on its way: from the state it starts in, it gives the
  value or the error, and the state it leaves. \<open>bindE\<close> runs a second computation on the
  value of a first, from the state the first has left; an error of the first is the
  error of both, with the state as the first left it.
\<close>

type_synonym ('a, 's) run = "'s \<Rightarrow> (js_error + 'a) \<times> 's"

definition returns :: "'a \<Rightarrow> ('a, 's) run" where
  "returns x s = (Inr x, s)"

definition throws :: "js_error \<Rightarrow> ('a, 's) run" where
  "throws e s = (Inl e, s)"

definition bindE :: "('a, 's) run \<Rightarrow> ('a \<Rightarrow> ('b, 's) run) \<Rightarrow> ('b, 's) run" where
  "bindE m f s = (case m s of (Inl e, s') \<Rightarrow> (Inl e, s') | (Inr x, s') \<Rightarrow> f x s')"

text \<open>A computation that only reads the state.\<close>

definition reading :: "('s \<Rightarrow> 'a) \<Rightarrow> ('a, 's) run" where
  "reading f s = (Inr (f s), s)"

subsection \<open>The patterns of \<open>REGEX\<close>\<close>

definition word_or_dash :: rx where
  "word_or_dash = In [CWord, CChar CHR ''-'']"

definition word_or_dot :: rx where
  "word_or_dot = In [CWord, CChar CHR ''.'']"

definition quote_char :: rx where
  "quote_char = In [CChar CHR 0x27, CChar CHR 0x22]"

definition not_quote :: rx where
  "not_quote = NotIn [CChar CHR 0x27, CChar CHR 0x22]"

text \<open>\<open>/{%-?\s*liquid\s+([\s\S]*?)%}/gi\<close>\<close>

definition REGEX_liquidBlock :: rx where
  "REGEX_liquidBlock =
     seq [lit ''{%'', Opt (Chr CHR ''-''), ws, lit ''liquid'', ws1, Grp 1 (LStar Anything), lit ''%}'']"

text \<open>\<open>/{%\s*for\s+(\w+)\s+in\s+settings\.color_schemes\s*-%}([\s\S]*?){%\s*endfor\s*%}/gi\<close>\<close>

definition REGEX_forScheme :: rx where
  "REGEX_forScheme =
     seq [lit ''{%'', ws, lit ''for'', ws1, Grp 1 (Plus (In [CWord])), ws1, lit ''in'', ws1,
          lit ''settings.color_schemes'', ws, lit ''-%}'', Grp 2 (LStar Anything),
          lit ''{%'', ws, lit ''endfor'', ws, lit ''%}'']"

text \<open>\<open>/{%\s*assign\s+[^%]+%}/g\<close>\<close>

definition REGEX_assign :: rx where
  "REGEX_assign =
     seq [lit ''{%'', ws, lit ''assign'', ws1, Plus (NotIn [CChar CHR ''%'']), lit ''%}'']"

text \<open>\<open>/{%\s*if\s+[\w.]+\s*[<>=!]+\s*\d+\s*%}([\s\S]*?)(?:{%\s*else\s*%}[\s\S]*?)?{%\s*endif\s*%}/gi\<close>\<close>

definition REGEX_ifBlock :: rx where
  "REGEX_ifBlock =
     seq [lit ''{%'', ws, lit ''if'', ws1, Plus word_or_dot, ws,
          Plus (In [CChar CHR ''<'', CChar CHR ''>'', CChar CHR ''='', CChar CHR ''!'']), ws,
          Plus (In [CDigit]), ws, lit ''%}'', Grp 1 (LStar Anything),
          Opt (seq [lit ''{%'', ws, lit ''else'', ws, lit ''%}'', LStar Anything]),
          lit ''{%'', ws, lit ''endif'', ws, lit ''%}'']"

text \<open>The optional \<open>| append: '...'\<close> of the two patterns below:
  \<open>(?:\s*\|\s*append:\s*['"]([^'"]+)['"])?\<close>\<close>

definition append_suffix :: rx where
  "append_suffix =
     Opt (seq [ws, Chr CHR ''|'', ws, lit ''append:'', ws, quote_char, Grp 2 (Plus not_quote),
               quote_char])"

text \<open>\<open>/\{\{\s*scheme\.settings\.([\w.]+)(?:\s*\|\s*append:\s*['"]([^'"]+)['"])?\s*\}\}/g\<close>\<close>

definition REGEX_schemeSettings :: rx where
  "REGEX_schemeSettings =
     seq [lit ''{{'', ws, lit ''scheme.settings.'', Grp 1 (Plus word_or_dot), append_suffix, ws,
          lit ''}}'']"

text \<open>\<open>/\{\{\s*settings\.([\w.]+)(?:\s*\|\s*append:\s*['"]([^'"]+)['"])?\s*\}\}/g\<close>\<close>

definition REGEX_settings :: rx where
  "REGEX_settings =
     seq [lit ''{{'', ws, lit ''settings.'', Grp 1 (Plus word_or_dot), append_suffix, ws, lit ''}}'']"

text \<open>\<open>/\{\{\s*([\w_]+)\s*\}\}/g\<close>\<close>

definition REGEX_variable :: rx where
  "REGEX_variable = seq [lit ''{{'', ws, Grp 1 (Plus (In [CWord])), ws, lit ''}}'']"

text \<open>\<open>/{%[^%]*%}/g\<close>\<close>

definition REGEX_liquidTags :: rx where
  "REGEX_liquidTags = seq [lit ''{%'', Star (NotIn [CChar CHR ''%'']), lit ''%}'']"

text \<open>\<open>/\{\{[^}]*\}\}/g\<close>\<close>

definition REGEX_liquidOutput :: rx where
  "REGEX_liquidOutput = seq [lit ''{{'', Star (NotIn [CChar CHR ''}'']), lit ''}}'']"

text \<open>\<open>/--([\w-]+)\s*:\s*([^;]+);/g\<close>\<close>

definition REGEX_cssVariable :: rx where
  "REGEX_cssVariable =
     seq [lit ''--'', Grp 1 (Plus word_or_dash), ws, Chr CHR '':'', ws,
          Grp 2 (Plus (NotIn [CChar CHR '';''])), Chr CHR '';'']"

text \<open>\<open>/:root\s*(?:,\s*[.#][\w-]+\s*)*\{/g\<close>\<close>

definition REGEX_rootBlock :: rx where
  "REGEX_rootBlock =
     seq [lit '':root'', ws,
          Star (seq [Chr CHR '','', ws, In [CChar CHR ''.'', CChar CHR ''#''], Plus word_or_dash, ws]),
          Chr CHR ''{'']"

text \<open>\<open>/@media\s*([^{]+)\{/g\<close>\<close>

definition REGEX_mediaQuery :: rx where
  "REGEX_mediaQuery =
     seq [lit ''@media'', ws, Grp 1 (Plus (NotIn [CChar CHR ''{''])), Chr CHR ''{'']"

text \<open>\<open>/^([\w_]+)\[([^\]]+)\]$/\<close>\<close>

definition REGEX_arrayAccess :: rx where
  "REGEX_arrayAccess =
     seq [Bol, Grp 1 (Plus (In [CWord])), Chr CHR ''['', Grp 2 (Plus (NotIn [CChar CHR '']''])),
          Chr CHR '']'', Eol]"

text \<open>\<open>/^([\w_]+)\.([\w_]+)$/\<close>\<close>

definition REGEX_propAccess :: rx where
  "REGEX_propAccess =
     seq [Bol, Grp 1 (Plus (In [CWord])), Chr CHR ''.'', Grp 2 (Plus (In [CWord])), Eol]"

text \<open>\<open>/^\d+(\.\d+)?$/\<close>\<close>

definition REGEX_numericLiteral :: rx where
  "REGEX_numericLiteral =
     seq [Bol, Plus (In [CDigit]), Opt (Grp 1 (seq [Chr CHR ''.'', Plus (In [CDigit])])), Eol]"

subsection \<open>Configuration and caches\<close>

text \<open>\<open>getExtensionConfig\<close>: the cached configuration, read from the host on the
  first call.\<close>

definition getExtensionConfig :: "gstate \<Rightarrow> extensionConfig \<times> gstate" where
  "getExtensionConfig st =
     (case cachedConfig st of
        Some c \<Rightarrow> (c, st)
      | None \<Rightarrow> (workspaceConfig st, st\<lparr>cachedConfig := Some (workspaceConfig st)\<rparr>))"

definition invalidateConfigCache :: "gstate \<Rightarrow> gstate" where
  "invalidateConfigCache st =
     st\<lparr>cachedConfig := None, hexToRgbaCache := [], settingValueCache := []\<rparr>"

subsection \<open>\<open>remToPx\<close> and \<open>pxToRem\<close>\<close>

text \<open>\<open>/\.?0+$/\<close>, which the two functions replace once (no \<open>g\<close> flag).\<close>

definition trailing_zeros :: rx where
  "trailing_zeros = seq [Opt (Chr CHR ''.''), Plus (Chr CHR ''0''), Eol]"

text \<open>\<open>text.replace(re, '')\<close> without the \<open>g\<close> flag: the first match is cut out.\<close>

definition remove_first :: "bool \<Rightarrow> rx \<Rightarrow> string \<Rightarrow> string" where
  "remove_first ic r text =
     (case rx_match ic r text of
        None \<Rightarrow> text
      | Some m \<Rightarrow> take (index m) text @ drop (match_end m) text)"

definition remToPx :: "jsval \<Rightarrow> number \<Rightarrow> string option" where
  "remToPx remValue baseFontSize' =
     (let numValue = parseFloat remValue in
      if isNaN numValue then None
      else Some (remove_first False trailing_zeros (toFixed (num_mul numValue baseFontSize') 2)))"

definition pxToRem :: "jsval \<Rightarrow> number \<Rightarrow> string option" where
  "pxToRem pxValue baseFontSize' =
     (let numValue = parseFloat pxValue in
      if isNaN numValue then None
      else Some (remove_first False trailing_zeros (toFixed (num_div numValue baseFontSize') 4)))"

subsection \<open>\<open>hexToRgba\<close>\<close>

text \<open>The template literal \<open>`${hex}-${alpha}`\<close>.\<close>

definition hex_cacheKey :: "string \<Rightarrow> number \<Rightarrow> string" where
  "hex_cacheKey hex alpha = hex @ ''-'' @ num_to_string alpha"

text \<open>The function's argument is any value; \<open>alpha\<close> is 1 where the caller gives none.
  The result is the record, or \<open>None\<close> for \<open>null\<close>, and the state with the cache as
  the call leaves it.\<close>

definition hexToRgba :: "jsval \<Rightarrow> number \<Rightarrow> gstate \<Rightarrow> rgba option \<times> gstate" where
  "hexToRgba hexv alpha st =
     (case hexv of
        Str hex0 \<Rightarrow>
          if hex0 = [] then (None, st)
          else (case map_of (hexToRgbaCache st) (hex_cacheKey hex0 alpha) of
            Some cached \<Rightarrow> (Some cached, st)
          | None \<Rightarrow>
              (let hex1 = replace_first_str ''#'' [] hex0;
                   hex = (if length hex1 = 3 then concat (map (\<lambda>c. [c, c]) hex1) else hex1)
               in if length hex \<noteq> 6 \<and> length hex \<noteq> 8 then (None, st)
                  else
                    (let result = \<lparr>
                           rgba_r = parseInt_str (substring hex 0 2) 16,
                           rgba_g = parseInt_str (substring hex 2 4) 16,
                           rgba_b = parseInt_str (substring hex 4 6) 16,
                           rgba_a = (if length hex = 8
                                     then num_div (parseInt_str (substring hex 6 8) 16) (Fin 255)
                                     else alpha)\<rparr>
                     in (Some result,
                         st\<lparr>hexToRgbaCache :=
                              AList.update (hex_cacheKey hex0 alpha) result (hexToRgbaCache st)\<rparr>))))
      | _ \<Rightarrow> (None, st))"

subsection \<open>Settings\<close>

text \<open>The loop of \<open>getSettingValue\<close> over the keys of a dotted path: it leaves with
  \<open>undefined\<close> as soon as the value at hand is not an object.\<close>

fun descend :: "jsval \<Rightarrow> string list \<Rightarrow> jsval" where
  "descend v [] = v"
| "descend v (k # ks) = (if truthy v \<and> is_object v then descend (get_prop v k) ks else Undefined)"

definition lookupSetting :: "gstate \<Rightarrow> string \<Rightarrow> jsval" where
  "lookupSetting st settingKey =
     (let direct = (if nullish (shopifySettings st) then Undefined
                    else get_prop (shopifySettings st) settingKey);
          settingValue = (if str_includes settingKey ''.''
                          then descend (shopifySettings st) (split settingKey ''.'')
                          else direct)
      in if settingValue = Undefined \<and> truthy (shopifySettingsSchema st)
         then get_prop (shopifySettingsSchema st) settingKey
         else settingValue)"

definition getSettingValue :: "string \<Rightarrow> gstate \<Rightarrow> jsval \<times> gstate" where
  "getSettingValue settingKey st =
     (case map_of (settingValueCache st) settingKey of
        Some cached \<Rightarrow> (cached, st)
      | None \<Rightarrow>
          (let settingValue = lookupSetting st settingKey
           in (settingValue,
               st\<lparr>settingValueCache := AList.update settingKey settingValue (settingValueCache st)\<rparr>)))"

text \<open>
  The interpreter and the static reducer below change nothing of the state but the cache
  of setting lookups, through their calls of \<open>getSettingValue\<close>. They take the state, for
  what they read of it, and pass the cache along: \<open>setting\<close> is \<open>getSettingValue\<close> on the
  state with the cache as it is at the call, and \<open>with_cache\<close> runs such a computation on
  the cache of a state and puts the cache it leaves back.
\<close>

type_synonym scache = "(string \<times> jsval) list"

definition setting :: "gstate \<Rightarrow> string \<Rightarrow> (jsval, scache) run" where
  "setting st settingKey c =
     (case getSettingValue settingKey (st\<lparr>settingValueCache := c\<rparr>) of
        (settingValue, st') \<Rightarrow> (Inr settingValue, settingValueCache st'))"

definition with_cache :: "(gstate \<Rightarrow> ('a, scache) run) \<Rightarrow> ('a, gstate) run" where
  "with_cache m st =
     (case m st (settingValueCache st) of (r, c) \<Rightarrow> (r, st\<lparr>settingValueCache := c\<rparr>))"

text \<open>\<open>Object.keys\<close>.\<close>

fun own_keys :: "jsval \<Rightarrow> string list" where
  "own_keys (Obj kvs) = map fst kvs"
| "own_keys (Arr xs) = map (\<lambda>i. dec i) [0 ..< length xs]"
| "own_keys (Str w) = map (\<lambda>i. dec i) [0 ..< length w]"
| "own_keys v = []"

definition firstSchemeKey :: "gstate \<Rightarrow> string option" where
  "firstSchemeKey st =
     (case own_keys (get_prop (shopifySettings st) ''color_schemes'') of
        [] \<Rightarrow> None
      | k # ks \<Rightarrow> Some k)"

text \<open>\<open>getFirstColorScheme\<close>; \<open>Null\<close> is the source's \<open>null\<close>.\<close>

definition getFirstColorScheme :: "gstate \<Rightarrow> jsval" where
  "getFirstColorScheme st =
     (if \<not> truthy (shopifySettings st)
         \<or> \<not> truthy (get_prop (shopifySettings st) ''color_schemes'') then Null
      else case firstSchemeKey st of
        None \<Rightarrow> Null
      | Some k \<Rightarrow> if k = [] then Null
                  else get_prop (get_prop (shopifySettings st) ''color_schemes'') k)"

definition formatSettingValue :: "jsval \<Rightarrow> string" where
  "formatSettingValue v =
     (case v of
        Num a \<Rightarrow> num_to_string a
      | JBool b \<Rightarrow> toStr (JBool b)
      | Str w \<Rightarrow> w
      | Undefined \<Rightarrow> toStr Undefined
      | _ \<Rightarrow> ''[object]'')"

text \<open>The loops of \<open>resolveLiquidVariable\<close> over a path: they stop, keeping the value
  at hand, when it is not an object.\<close>

fun navigate :: "jsval \<Rightarrow> string list \<Rightarrow> jsval" where
  "navigate v [] = v"
| "navigate v (k # ks) = (if truthy v \<and> is_object v then navigate (get_prop v k) ks else v)"

text \<open>\<open>/\{\{\s*scheme\.settings\.([\w.]+)\s*\}\}/\<close> and
  \<open>/\{\{\s*settings\.([\w.]+)\s*\}\}/\<close>\<close>

definition schemeVar_rx :: rx where
  "schemeVar_rx =
     seq [lit ''{{'', ws, lit ''scheme.settings.'', Grp 1 (Plus word_or_dot), ws, lit ''}}'']"

definition settingsVar_rx :: rx where
  "settingsVar_rx = seq [lit ''{{'', ws, lit ''settings.'', Grp 1 (Plus word_or_dot), ws, lit ''}}'']"

definition rgba_text :: "string \<Rightarrow> rgba \<Rightarrow> string" where
  "rgba_text sep c =
     num_to_string (rgba_r c) @ sep @ num_to_string (rgba_g c) @ sep @ num_to_string (rgba_b c)"

text \<open>The result is the text and the state as \<open>hexToRgba\<close> leaves it.\<close>

definition resolveLiquidVariable :: "string \<Rightarrow> gstate \<Rightarrow> string \<times> gstate" where
  "resolveLiquidVariable liquidVar st =
     (case rx_match False schemeVar_rx liquidVar of
        Some schemeMatch \<Rightarrow>
          (let firstScheme = getFirstColorScheme st in
           if \<not> truthy firstScheme \<or> \<not> truthy (get_prop firstScheme ''settings'')
           then (''[scheme.'' @ grp' schemeMatch 1 @ '']'', st)
           else
             (let varPath = split (grp' schemeMatch 1) ''.'';
                  v = navigate (get_prop firstScheme ''settings'') varPath
              in case v of
                   Str w \<Rightarrow>
                     if startsWith w ''#'' then
                       (case hexToRgba (Str w) (Fin 1) st of
                          (None, st') \<Rightarrow> (w, st')
                        | (Some c, st') \<Rightarrow>
                            (if last varPath = ''rgb'' then rgba_text '' '' c
                             else rgba_text '', '' c @ '', '' @ num_to_string (rgba_a c), st'))
                     else (formatSettingValue v, st)
                 | _ \<Rightarrow> (formatSettingValue v, st)))
      | None \<Rightarrow>
          (case rx_match False settingsVar_rx liquidVar of
             None \<Rightarrow> (liquidVar, st)
           | Some m \<Rightarrow>
               (let varPath = split (grp' m 1) ''.'';
                    varName = hd varPath
                in if truthy (shopifySettings st)
                      \<and> get_prop (shopifySettings st) varName \<noteq> Undefined
                   then (formatSettingValue
                          (navigate (get_prop (shopifySettings st) varName) (tl varPath)), st)
                   else if truthy (shopifySettingsSchema st)
                      \<and> get_prop (shopifySettingsSchema st) varName \<noteq> Undefined
                   then (formatSettingValue (get_prop (shopifySettingsSchema st) varName), st)
                   else (''['' @ join ''.'' varPath @ '']'', st))))"

subsection \<open>\<open>findMatchingBrace\<close>\<close>

text \<open>The loop, from index \<open>i\<close> with the text from there on; \<open>None\<close> is the source's
  \<open>-1\<close>.\<close>

fun brace_loop :: "nat \<Rightarrow> nat \<Rightarrow> string \<Rightarrow> nat option" where
  "brace_loop depth i [] = None"
| "brace_loop depth i (c # cs) =
     (if c = CHR ''{'' then brace_loop (Suc depth) (Suc i) cs
      else if c = CHR ''}'' then
        (if depth - 1 = 0 then Some (Suc i) else brace_loop (depth - 1) (Suc i) cs)
      else brace_loop depth (Suc i) cs)"

definition findMatchingBrace :: "string \<Rightarrow> nat \<Rightarrow> nat option" where
  "findMatchingBrace text startIndex = brace_loop 1 startIndex (drop startIndex text)"

subsection \<open>\<open>evaluateLiquidExpression\<close> and \<open>applyLiquidFilter\<close>\<close>

type_synonym variables = "string \<Rightarrow> jsval"

text \<open>The first loop of \<open>evaluateLiquidExpression\<close>: the expression is cut at the
  \<open>|\<close> outside quotes. \<open>prev\<close> is \<open>expr[i - 1]\<close>, and \<open>quoteChar\<close> is \<open>None\<close> for
  the empty string.\<close>

fun split_pipes ::
  "string \<Rightarrow> char option \<Rightarrow> string \<Rightarrow> bool \<Rightarrow> char option \<Rightarrow> string list \<Rightarrow> string list" where
  "split_pipes [] prev current inQuotes quoteChar parts =
     (if current \<noteq> [] then parts @ [trim current] else parts)"
| "split_pipes (c # cs) prev current inQuotes quoteChar parts =
     (if (c = CHR 0x22 \<or> c = CHR 0x27) \<and> prev \<noteq> Some CHR 0x5C then
        (if \<not> inQuotes then split_pipes cs (Some c) (current @ [c]) True (Some c) parts
         else if Some c = quoteChar then split_pipes cs (Some c) (current @ [c]) False None parts
         else split_pipes cs (Some c) (current @ [c]) inQuotes quoteChar parts)
      else if c = CHR ''|'' \<and> \<not> inQuotes then
        split_pipes cs (Some c) [] inQuotes quoteChar (parts @ [trim current])
      else split_pipes cs (Some c) (current @ [c]) inQuotes quoteChar parts)"

text \<open>\<open>/^[\w_]+$/\<close>, \<open>/'?\[([^\]]+)\]'?/g\<close> and \<open>/['"\[\]]/g\<close>\<close>

definition identifier_rx :: rx where
  "identifier_rx = seq [Bol, Plus (In [CWord]), Eol]"

definition placeholder_rx :: rx where
  "placeholder_rx =
     seq [Opt (Chr CHR 0x27), Chr CHR ''['', Grp 1 (Plus (NotIn [CChar CHR '']''])), Chr CHR '']'',
          Opt (Chr CHR 0x27)]"

definition quotes_brackets_rx :: rx where
  "quotes_brackets_rx = In [CChar CHR 0x27, CChar CHR 0x22, CChar CHR ''['', CChar CHR '']'']"

text \<open>\<open>value.slice(1, -1)\<close>\<close>

definition slice_inner :: "string \<Rightarrow> string" where
  "slice_inner w = take (length w - 2) (drop 1 w)"

definition variable_or_text :: "variables \<Rightarrow> string \<Rightarrow> jsval" where
  "variable_or_text vars name = (if vars name \<noteq> Undefined then vars name else Str name)"

text \<open>The last branch of the base value: every placeholder \<open>[name]\<close> of the text is
  replaced by the variable of that name.\<close>

definition substitute_placeholder :: "variables \<Rightarrow> string \<Rightarrow> string \<Rightarrow> string" where
  "substitute_placeholder vars v placeholder =
     (let varName = replace_all False quotes_brackets_rx (\<lambda>m. []) placeholder;
          varValue = (if vars varName \<noteq> Undefined then vars varName else Str [])
      in replace_first_str placeholder (toStr varValue) v)"

text \<open>The base value of an expression, from its first part. \<open>ev\<close> evaluates a nested
  expression.\<close>

definition base_value ::
  "(string \<Rightarrow> (jsval, scache) run) \<Rightarrow> gstate \<Rightarrow> variables \<Rightarrow> string \<Rightarrow> (jsval, scache) run" where
  "base_value ev st vars v =
     (if (startsWith v [CHR 0x27] \<and> endsWith v [CHR 0x27])
         \<or> (startsWith v [CHR 0x22] \<and> endsWith v [CHR 0x22])
      then returns (Str (slice_inner v))
      else if str_includes v ''['' then
        (case rx_match False REGEX_arrayAccess v of
           None \<Rightarrow> returns (Str v)
         | Some arrayMatch \<Rightarrow>
             (let objectName = grp' arrayMatch 1; indexExpr = grp' arrayMatch 2 in
              if objectName = ''settings'' then
                bindE (ev indexExpr) (\<lambda>settingKey.
                bindE (setting st (toStr settingKey)) (\<lambda>settingValue.
                  returns (if settingValue \<noteq> Undefined then settingValue else Str [])))
              else
                bindE (ev indexExpr) (\<lambda>idx.
                  returns (case vars objectName of
                         Arr xs \<Rightarrow> array_at xs (parseInt idx)
                       | _ \<Rightarrow> Str []))))
      else if str_includes v ''.'' then
        (case rx_match False REGEX_propAccess v of
           Some propMatch \<Rightarrow>
             (let objectName = grp' propMatch 1; propertyName = grp' propMatch 2 in
              if objectName = ''settings'' then
                bindE (setting st propertyName) (\<lambda>sv.
                  returns (if sv = Undefined then Str [] else sv))
              else
                (let obj = vars objectName
                 in if truthy obj \<and> is_object obj \<and> has_prop obj propertyName
                    then returns (get_prop obj propertyName)
                    else returns (Str v)))
         | None \<Rightarrow>
             if rx_test False identifier_rx v then returns (variable_or_text vars v)
             else returns (Str v))
      else if rx_test False identifier_rx v then returns (variable_or_text vars v)
      else if rx_test False REGEX_numericLiteral v then returns (Num (parseFloat_str v))
      else returns (Str (foldl (substitute_placeholder vars) v
                       (map matched (exec_all False placeholder_rx v)))))"

text \<open>\<open>/^([\w_]+)(?::\s*(.+))?$/\<close>, \<open>/^['"]|['"]$/g\<close>,
  \<open>/['"]([^'"]*)['"]\s*,\s*(.+)/\<close> and \<open>/^['"].*['"]$/\<close>\<close>

definition filter_rx :: rx where
  "filter_rx =
     seq [Bol, Grp 1 (Plus (In [CWord])), Opt (seq [Chr CHR '':'', ws, Grp 2 (Plus Dot)]), Eol]"

definition outer_quote_rx :: rx where
  "outer_quote_rx = Alt (Cat Bol quote_char) (Cat quote_char Eol)"

definition replaceArgs_rx :: rx where
  "replaceArgs_rx =
     seq [quote_char, Grp 1 (Star not_quote), quote_char, ws, Chr CHR '','', ws, Grp 2 (Plus Dot)]"

definition quoted_rx :: rx where
  "quoted_rx = seq [Bol, quote_char, Star Dot, quote_char, Eol]"

definition strip_outer_quotes :: "string \<Rightarrow> string" where
  "strip_outer_quotes w = replace_all False outer_quote_rx (\<lambda>m. []) w"

text \<open>An optional filter argument that is given: \<open>filterArg ? ... : ...\<close>.\<close>

definition given :: "string option \<Rightarrow> bool" where
  "given a = (case a of None \<Rightarrow> False | Some w \<Rightarrow> w \<noteq> [])"

text \<open>The numeric argument of \<open>times\<close>, \<open>divided_by\<close>, \<open>minus\<close> and \<open>plus\<close>.\<close>

definition number_arg ::
  "(string \<Rightarrow> (jsval, scache) run) \<Rightarrow> string option \<Rightarrow> number \<Rightarrow> (number, scache) run" where
  "number_arg ev filterArg dflt =
     (if given filterArg then bindE (ev (the filterArg)) (\<lambda>v. returns (parseFloat v)) else returns dflt)"

text \<open>\<open>Math.round(x * 100000) / 100000\<close>\<close>

definition round5 :: "number \<Rightarrow> number" where
  "round5 x = num_div (math_round (num_mul x (Fin 100000))) (Fin 100000)"

definition applyLiquidFilter ::
  "(string \<Rightarrow> (jsval, scache) run) \<Rightarrow> gstate \<Rightarrow> jsval \<Rightarrow> string \<Rightarrow> (jsval, scache) run" where
  "applyLiquidFilter ev st v fltr =
     (case rx_match False filter_rx fltr of
        None \<Rightarrow> returns v
      | Some filterMatch \<Rightarrow>
          (let filterName = grp' filterMatch 1; filterArg = grp filterMatch 2 in
           if filterName = ''split'' then
             (let splitBy = (if given filterArg then strip_outer_quotes (trim (the filterArg))
                             else '','')
              in returns (Arr (map Str (split (toStr v) splitBy))))
           else if filterName = ''replace'' then
             (case filterArg of
                None \<Rightarrow> throws TypeError
              | Some arg \<Rightarrow>
                  (case rx_match False replaceArgs_rx arg of
                     None \<Rightarrow> returns v
                   | Some replaceArgs \<Rightarrow>
                       (let search = grp' replaceArgs 1;
                            replaceValueExpr = trim (grp' replaceArgs 2)
                        in bindE (ev replaceValueExpr) (\<lambda>evaluated.
                             let replaceValue =
                                   (if evaluated = Str replaceValueExpr
                                       \<and> rx_test False quoted_rx replaceValueExpr
                                    then Str (strip_outer_quotes replaceValueExpr)
                                    else evaluated)
                             in returns (Str (replace_all_str False (lit search) 0
                                            (toStr replaceValue) (toStr v)))))))
           else if filterName = ''append'' then
             bindE (if given filterArg then ev (the filterArg) else returns (Str []))
               (\<lambda>appendValue. returns (Str (toStr v @ toStr appendValue)))
           else if filterName = ''times'' then
             bindE (number_arg ev filterArg (Fin 1)) (\<lambda>multiplier.
               let timesResult = num_mul (parseFloat v) multiplier
               in returns (Num (if isNaN timesResult then Fin 0 else round5 timesResult)))
           else if filterName = ''divided_by'' then
             bindE (number_arg ev filterArg (Fin 1)) (\<lambda>divisor.
               if is_zero divisor then returns (Num (Fin 0))
               else let divResult = num_div (parseFloat v) divisor
                    in returns (Num (if isNaN divResult then Fin 0 else round5 divResult)))
           else if filterName = ''minus'' then
             bindE (number_arg ev filterArg (Fin 0)) (\<lambda>subtrahend.
               let minusResult = num_sub (parseFloat v) subtrahend
               in returns (Num (if isNaN minusResult then Fin 0 else minusResult)))
           else if filterName = ''plus'' then
             bindE (number_arg ev filterArg (Fin 0)) (\<lambda>addend.
               let plusResult = num_add (parseFloat v) addend
               in returns (Num (if isNaN plusResult then Fin 0 else plusResult)))
           else if filterName = ''uniq'' then
             returns (case v of Arr xs \<Rightarrow> Arr (uniq_values [] xs) | _ \<Rightarrow> v)
           else if filterName = ''sort_natural'' then
             returns (case v of
                    Arr xs \<Rightarrow> Arr (array_sort (\<lambda>a b. localeCompare st (toStr a) (toStr b)) xs)
                  | _ \<Rightarrow> v)
           else if filterName = ''find_index'' then
             bindE (if given filterArg then ev (the filterArg) else returns (Str []))
               (\<lambda>searchValue.
                  case v of
                    Arr xs \<Rightarrow>
                      (let searchStr = toStr searchValue;
                           result = find_index_from 0 (\<lambda>x. x = Str searchStr) xs;
                           searchNum = parseFloat_str searchStr
                       in returns (Num (num_of_int
                            (if result = - 1 \<and> \<not> isNaN searchNum
                             then find_index_from 0 (\<lambda>x. num_eq (parseFloat x) searchNum) xs
                             else result))))
                  | _ \<Rightarrow> returns (Num (num_of_int (- 1))))
           else returns v))"

fun apply_filters ::
  "(string \<Rightarrow> (jsval, scache) run) \<Rightarrow> gstate \<Rightarrow> string list \<Rightarrow> jsval \<Rightarrow> (jsval, scache) run" where
  "apply_filters ev st [] v = returns v"
| "apply_filters ev st (f # fs) v = bindE (applyLiquidFilter ev st v f) (apply_filters ev st fs)"

text \<open>
  The function calls itself on the index of a bracket access and on the arguments of
  filters, each a proper part of the expression. The counter bounds the depth of these
  calls; \<open>evaluateLiquidExpression\<close> starts it above the length of the expression, so
  it never runs out. With no part at all, \<open>parts[0]\<close> is \<open>undefined\<close> and
  \<open>value.startsWith\<close> throws.
\<close>

primrec evalExpr :: "nat \<Rightarrow> gstate \<Rightarrow> string \<Rightarrow> variables \<Rightarrow> (jsval, scache) run" where
  "evalExpr 0 st expr vars = throws RangeError"
| "evalExpr (Suc n) st expr vars =
     (case split_pipes expr None [] False None [] of
        [] \<Rightarrow> throws TypeError
      | v # filters \<Rightarrow>
          bindE (base_value (\<lambda>e. evalExpr n st e vars) st vars v)
            (apply_filters (\<lambda>e. evalExpr n st e vars) st filters))"

definition evaluateLiquidExpression :: "gstate \<Rightarrow> string \<Rightarrow> variables \<Rightarrow> (jsval, scache) run" where
  "evaluateLiquidExpression st expr vars = evalExpr (Suc (length expr)) st expr vars"

subsection \<open>\<open>evaluateLiquidCondition\<close>\<close>

text \<open>\<open>/(.+?)\s*(>=|<=|>|<|==)\s*(.+)/\<close>\<close>

definition comparison_rx :: rx where
  "comparison_rx =
     seq [Grp 1 (LPlus Dot), ws,
          Grp 2 (alts [lit ''>='', lit ''<='', lit ''>'', lit ''<'', lit ''=='']),
          ws, Grp 3 (Plus Dot)]"

definition evaluateLiquidCondition :: "gstate \<Rightarrow> string \<Rightarrow> variables \<Rightarrow> (bool, scache) run" where
  "evaluateLiquidCondition st condition vars =
     (if str_includes condition '' contains '' then
        (let pieces = map trim (split condition '' contains '') in
         bindE (evaluateLiquidExpression st (pieces ! 0) vars) (\<lambda>leftVal.
         bindE (evaluateLiquidExpression st (pieces ! 1) vars) (\<lambda>rightVal.
           returns (str_includes (toStr leftVal) (toStr rightVal)))))
      else case rx_match False comparison_rx condition of
        Some comparisonMatch \<Rightarrow>
          (let operator = grp' comparisonMatch 2 in
           bindE (evaluateLiquidExpression st (trim (grp' comparisonMatch 1)) vars) (\<lambda>leftVal.
           bindE (evaluateLiquidExpression st (trim (grp' comparisonMatch 3)) vars) (\<lambda>rightVal.
             let leftNum = parseFloat leftVal; rightNum = parseFloat rightVal in
             returns (if operator = ''>='' then num_le rightNum leftNum
                  else if operator = ''<='' then num_le leftNum rightNum
                  else if operator = ''>'' then num_less rightNum leftNum
                  else if operator = ''<'' then num_less leftNum rightNum
                  else loose_eq leftVal rightVal))))
      | None \<Rightarrow>
          bindE (evaluateLiquidExpression st condition vars) (\<lambda>v. returns (truthy v)))"

subsection \<open>\<open>processIfBlockInLoop\<close> and \<open>executeLiquidBlock\<close>\<close>

text \<open>\<open>/assign\s+([\w_]+)\s*=\s*(.+)/\<close>, \<open>/if\s+(.+)/\<close>, \<open>/elsif\s+(.+)/\<close>,
  \<open>/for\s+([\w_]+)\s+in\s+([\w_]+)/\<close> and \<open>/unless\s+(.+)/\<close>\<close>

definition assign_rx :: rx where
  "assign_rx =
     seq [lit ''assign'', ws1, Grp 1 (Plus (In [CWord])), ws, Chr CHR ''='', ws, Grp 2 (Plus Dot)]"

definition if_rx :: rx where
  "if_rx = seq [lit ''if'', ws1, Grp 1 (Plus Dot)]"

definition elsif_rx :: rx where
  "elsif_rx = seq [lit ''elsif'', ws1, Grp 1 (Plus Dot)]"

definition for_rx :: rx where
  "for_rx =
     seq [lit ''for'', ws1, Grp 1 (Plus (In [CWord])), ws1, lit ''in'', ws1, Grp 2 (Plus (In [CWord]))]"

definition unless_rx :: rx where
  "unless_rx = seq [lit ''unless'', ws1, Grp 1 (Plus Dot)]"

text \<open>The interpreter's state: the variables and the output so far.\<close>

type_synonym istate = "variables \<times> string"

text \<open>An \<open>echo\<close> or \<open>assign\<close> line, as the bodies of branches, of \<open>unless\<close> and of
  loops run it; any other line does nothing.\<close>

definition run_assign :: "gstate \<Rightarrow> string \<Rightarrow> istate \<Rightarrow> (istate, scache) run" where
  "run_assign st line s =
     (case rx_match False assign_rx line of
        None \<Rightarrow> returns s
      | Some assignMatch \<Rightarrow>
          bindE (evaluateLiquidExpression st (trim (grp' assignMatch 2)) (fst s))
            (\<lambda>v. returns ((fst s)(grp' assignMatch 1 := v), snd s)))"

definition run_echo :: "gstate \<Rightarrow> string \<Rightarrow> istate \<Rightarrow> (istate, scache) run" where
  "run_echo st line s =
     bindE (evaluateLiquidExpression st (trim (drop 5 line)) (fst s))
       (\<lambda>v. returns (fst s, snd s @ toStr v))"

definition run_simple :: "gstate \<Rightarrow> string \<Rightarrow> istate \<Rightarrow> (istate, scache) run" where
  "run_simple st line s =
     (if startsWith line ''echo '' then run_echo st line s
      else if startsWith line ''assign '' then run_assign st line s
      else returns s)"

fun run_simple_lines :: "gstate \<Rightarrow> string list \<Rightarrow> istate \<Rightarrow> (istate, scache) run" where
  "run_simple_lines st [] s = returns s"
| "run_simple_lines st (line # lines) s = bindE (run_simple st line s) (run_simple_lines st lines)"

text \<open>A branch of an \<open>if\<close> block is \<open>{condition, met, lines}\<close>; the embedding keeps
  \<open>met\<close> and \<open>lines\<close>, which is all the source reads back.\<close>

type_synonym branch = "bool \<times> string list"

definition push_line :: "branch list \<Rightarrow> string \<Rightarrow> branch list" where
  "push_line branches line =
     butlast branches @ [(fst (last branches), snd (last branches) @ [line])]"

text \<open>The \<open>while\<close> loop of \<open>processIfBlockInLoop\<close> over the lines after the \<open>if\<close>
  line. It returns the branches and the number of lines it has read, the closing
  \<open>endif\<close> included.\<close>

fun collect_branches ::
  "gstate \<Rightarrow> variables \<Rightarrow> string list \<Rightarrow> nat \<Rightarrow> nat \<Rightarrow> bool \<Rightarrow> branch list
     \<Rightarrow> (branch list \<times> nat, scache) run" where
  "collect_branches st vars [] n depth conditionMet branches = returns (branches, n)"
| "collect_branches st vars (line # lines) n depth conditionMet branches =
     (if startsWith line ''if '' then
        collect_branches st vars lines (Suc n) (Suc depth) conditionMet (push_line branches line)
      else if startsWith line ''endif'' then
        (if depth - 1 = 0 then returns (branches, Suc n)
         else collect_branches st vars lines (Suc n) (depth - 1) conditionMet (push_line branches line))
      else if startsWith line ''elsif '' \<and> depth = 1 then
        (case rx_match False elsif_rx line of
           None \<Rightarrow> collect_branches st vars lines (Suc n) depth conditionMet branches
         | Some elsifMatch \<Rightarrow>
             bindE (if conditionMet then returns False
                    else evaluateLiquidCondition st (trim (grp' elsifMatch 1)) vars)
               (\<lambda>elsifMet.
                  collect_branches st vars lines (Suc n) depth (conditionMet \<or> elsifMet)
                    (branches @ [(elsifMet, [])])))
      else if startsWith line ''else'' \<and> depth = 1 then
        collect_branches st vars lines (Suc n) depth conditionMet (branches @ [(\<not> conditionMet, [])])
      else collect_branches st vars lines (Suc n) depth conditionMet (push_line branches line))"

text \<open>The first branch that is met runs.\<close>

definition run_branches :: "gstate \<Rightarrow> branch list \<Rightarrow> istate \<Rightarrow> (istate, scache) run" where
  "run_branches st branches s =
     (case filter fst branches of
        [] \<Rightarrow> returns s
      | b # bs \<Rightarrow> run_simple_lines st (snd b) s)"

text \<open>\<open>processIfBlockInLoop\<close>, from the \<open>if\<close> line \<open>ifLine\<close> and the lines after it.
  The result is the interpreter's state with the block's output appended, and the number
  of lines read after the \<open>if\<close> line (the source's \<open>nextIndex - startIndex - 1\<close>).\<close>

definition processIfBlockInLoop ::
  "gstate \<Rightarrow> string \<Rightarrow> string list \<Rightarrow> istate \<Rightarrow> (istate \<times> nat, scache) run" where
  "processIfBlockInLoop st ifLine lines s =
     (case rx_match False if_rx ifLine of
        None \<Rightarrow> returns (s, 0)
      | Some ifMatch \<Rightarrow>
          bindE (evaluateLiquidCondition st (trim (grp' ifMatch 1)) (fst s)) (\<lambda>conditionMet.
          bindE (collect_branches st (fst s) lines 0 1 conditionMet [(conditionMet, [])]) (\<lambda>r.
          bindE (run_branches st (fst r) s) (\<lambda>s'. returns (s', snd r)))))"

text \<open>The body of a \<open>for\<close> loop, once per element.\<close>

fun run_body :: "gstate \<Rightarrow> string list \<Rightarrow> istate \<Rightarrow> (istate, scache) run" where
  "run_body st [] s = returns s"
| "run_body st (bodyLine # lines) s =
     (if startsWith bodyLine ''echo '' then bindE (run_echo st bodyLine s) (run_body st lines)
      else if startsWith bodyLine ''assign '' then bindE (run_assign st bodyLine s) (run_body st lines)
      else if startsWith bodyLine ''if '' then
        bindE (processIfBlockInLoop st bodyLine lines s)
          (\<lambda>r. run_body st (drop (snd r) lines) (fst r))
      else run_body st lines s)"

text \<open>The loop over the array: \<open>j\<close> is the index of the first element of \<open>xs\<close>.\<close>

fun run_for :: "gstate \<Rightarrow> string \<Rightarrow> string list \<Rightarrow> nat \<Rightarrow> jsval list \<Rightarrow> istate \<Rightarrow> (istate, scache) run" where
  "run_for st itemVar forBody j [] s = returns s"
| "run_for st itemVar forBody j (x # xs) s =
     bindE (run_body st forBody
              ((fst s)(itemVar := x,
                       ''forloop'' := Obj [(''index'', Num (num_of_int (int j + 1)))]), snd s))
       (run_for st itemVar forBody (Suc j) xs)"

text \<open>The loops that gather the body of a \<open>for\<close> or an \<open>unless\<close>: the lines up to the
  closing tag of the same depth, or all of them when there is none.\<close>

fun collect_body :: "string \<Rightarrow> string \<Rightarrow> nat \<Rightarrow> string list \<Rightarrow> string list" where
  "collect_body opener closer depth [] = []"
| "collect_body opener closer depth (line # lines) =
     (let d = (if startsWith line opener then Suc depth else depth) in
      if startsWith line closer then
        (if d - 1 = 0 then [] else line # collect_body opener closer (d - 1) lines)
      else line # collect_body opener closer d lines)"

text \<open>The main loop of \<open>executeLiquidBlock\<close>. After a \<open>for\<close> or an \<open>unless\<close> it goes
  on behind the body and its closing line.\<close>

fun exec_lines :: "gstate \<Rightarrow> string list \<Rightarrow> bool \<Rightarrow> istate \<Rightarrow> (istate, scache) run" where
  "exec_lines st [] skipMode s = returns s"
| "exec_lines st (line # lines) skipMode s =
     (if line = ''comment'' \<or> startsWith line ''comment '' then exec_lines st lines True s
      else if line = ''endcomment'' then exec_lines st lines False s
      else if skipMode then exec_lines st lines skipMode s
      else if startsWith line ''assign '' then
        bindE (run_assign st line s) (exec_lines st lines skipMode)
      else if startsWith line ''for '' then
        (case rx_match False for_rx line of
           None \<Rightarrow> exec_lines st lines skipMode s
         | Some forMatch \<Rightarrow>
             (let itemVar = grp' forMatch 1;
                  array = (if truthy (fst s (grp' forMatch 2)) then fst s (grp' forMatch 2)
                           else Arr []);
                  forBody = collect_body ''for '' ''endfor'' 1 lines
              in bindE (case array of Arr xs \<Rightarrow> run_for st itemVar forBody 0 xs s | _ \<Rightarrow> returns s)
                   (exec_lines st (drop (Suc (length forBody)) lines) skipMode)))
      else if startsWith line ''unless '' then
        (case rx_match False unless_rx line of
           None \<Rightarrow> exec_lines st lines skipMode s
         | Some unlessMatch \<Rightarrow>
             bindE (evaluateLiquidCondition st (trim (grp' unlessMatch 1)) (fst s)) (\<lambda>c.
               let unlessBody = collect_body ''unless '' ''endunless'' 1 lines
               in bindE (if \<not> c then run_simple_lines st unlessBody s else returns s)
                    (exec_lines st (drop (Suc (length unlessBody)) lines) skipMode)))
      else if startsWith line ''echo '' then
        bindE (run_echo st line s) (exec_lines st lines skipMode)
      else exec_lines st lines skipMode s)"

definition executeLiquidBlock :: "gstate \<Rightarrow> string \<Rightarrow> (string, scache) run" where
  "executeLiquidBlock st liquidCode =
     bindE (exec_lines st (filter (\<lambda>l. l \<noteq> []) (map trim (split liquidCode [CHR 0x0A]))) False
              (\<lambda>name. Undefined, []))
       (\<lambda>s. returns (snd s))"

subsection \<open>\<open>evaluateCondition\<close> and \<open>processConditionalBlocks\<close>\<close>

text \<open>\<open>/settings\.([\w.]+)\s*(==|!=|<=|>=|<|>)\s*(['"]?)(.+?)\3/\<close> and
  \<open>/settings\.([\w.]+)/\<close>\<close>

definition settingComparison_rx :: rx where
  "settingComparison_rx =
     seq [lit ''settings.'', Grp 1 (Plus word_or_dot), ws,
          Grp 2 (alts [lit ''=='', lit ''!='', lit ''<='', lit ''>='', lit ''<'', lit ''>'']), ws,
          Grp 3 (Opt quote_char), Grp 4 (LPlus Dot), Back 3]"

definition settingName_rx :: rx where
  "settingName_rx = seq [lit ''settings.'', Grp 1 (Plus word_or_dot)]"

definition evaluateCondition :: "gstate \<Rightarrow> string \<Rightarrow> (bool, scache) run" where
  "evaluateCondition st condition0 =
     (let condition = trim condition0 in
      case rx_match False settingComparison_rx condition of
        Some comparisonMatch \<Rightarrow>
          bindE (setting st (grp' comparisonMatch 1)) (\<lambda>actualValue.
            let operator = grp' comparisonMatch 2;
                compareValue = grp' comparisonMatch 4;
                expectedValue =
                  (if grp' comparisonMatch 3 \<noteq> [] then Str compareValue
                   else if isNaN (stringToNumber compareValue) then Str compareValue
                   else Num (stringToNumber compareValue))
            in returns
                 (if operator = ''=='' then loose_eq actualValue expectedValue
                  else if operator = ''!='' then \<not> loose_eq actualValue expectedValue
                  else if operator = ''<'' then js_lt actualValue expectedValue
                  else if operator = ''>'' then js_gt actualValue expectedValue
                  else if operator = ''<='' then js_le actualValue expectedValue
                  else js_ge actualValue expectedValue))
      | None \<Rightarrow>
          (case rx_match False settingName_rx condition of
             Some simpleBoolMatch \<Rightarrow>
               bindE (setting st (grp' simpleBoolMatch 1)) (\<lambda>settingValue.
                 returns (settingValue \<noteq> JBool False \<and> settingValue \<noteq> Undefined
                          \<and> settingValue \<noteq> Null \<and> settingValue \<noteq> Str []))
           | None \<Rightarrow> returns False))"

text \<open>\<open>/{%\s*if\s+([\s\S]*?)%}([\s\S]*?){%\s*endif\s*%}/gi\<close>,
  \<open>/{%\s*elsif\s+([\s\S]*?)%}([\s\S]*?)(?={%\s*(?:elsif|else|endif))/gi\<close>,
  \<open>/{%\s*elsif/\<close>, \<open>/{%\s*else\s*%}/\<close> and \<open>/{%\s*else\s*%}([\s\S]*)$/\<close>\<close>

definition if_block_rx :: rx where
  "if_block_rx =
     seq [lit ''{%'', ws, lit ''if'', ws1, Grp 1 (LStar Anything), lit ''%}'', Grp 2 (LStar Anything),
          lit ''{%'', ws, lit ''endif'', ws, lit ''%}'']"

definition elsif_branch_rx :: rx where
  "elsif_branch_rx =
     seq [lit ''{%'', ws, lit ''elsif'', ws1, Grp 1 (LStar Anything), lit ''%}'',
          Grp 2 (LStar Anything),
          Ahead (seq [lit ''{%'', ws, alts [lit ''elsif'', lit ''else'', lit ''endif'']])]"

definition first_elsif_rx :: rx where
  "first_elsif_rx = seq [lit ''{%'', ws, lit ''elsif'']"

definition first_else_rx :: rx where
  "first_else_rx = seq [lit ''{%'', ws, lit ''else'', ws, lit ''%}'']"

definition else_rest_rx :: rx where
  "else_rest_rx = seq [lit ''{%'', ws, lit ''else'', ws, lit ''%}'', Grp 1 (Star Anything), Eol]"

text \<open>The parts of a block are \<open>{condition, content}\<close>; the condition of an \<open>else\<close>
  is \<open>null\<close>, here \<open>None\<close>.\<close>

definition block_parts :: "string \<Rightarrow> string \<Rightarrow> (string option \<times> string) list" where
  "block_parts condition blockContent =
     (let firstEnd =
            (case (rx_match False first_elsif_rx blockContent,
                   rx_match False first_else_rx blockContent) of
               (None, None) \<Rightarrow> length blockContent
             | (Some a, None) \<Rightarrow> index a
             | (None, Some b) \<Rightarrow> index b
             | (Some a, Some b) \<Rightarrow> min (index a) (index b))
      in [(Some condition, substring blockContent 0 firstEnd)]
         @ map (\<lambda>m. (Some (trim (grp' m 1)), grp' m 2)) (exec_all True elsif_branch_rx blockContent)
         @ (case rx_match False else_rest_rx blockContent of
              None \<Rightarrow> []
            | Some elseMatch \<Rightarrow> [(None, grp' elseMatch 1)]))"

text \<open>\<open>text.replace(re, f)\<close> with the \<open>g\<close> flag and a function that reads and writes the
  state and may throw: the function is called on the matches in their order.\<close>

fun spliceE :: "(rmatch_result \<Rightarrow> (string, 's) run) \<Rightarrow> seg list \<Rightarrow> (string, 's) run" where
  "spliceE f [] = returns []"
| "spliceE f (Keep c # ss) = bindE (spliceE f ss) (\<lambda>w. returns (c # w))"
| "spliceE f (Hit m # ss) = bindE (f m) (\<lambda>v. bindE (spliceE f ss) (\<lambda>w. returns (v @ w)))"

definition replace_allE ::
  "bool \<Rightarrow> rx \<Rightarrow> (rmatch_result \<Rightarrow> (string, 's) run) \<Rightarrow> string \<Rightarrow> (string, 's) run" where
  "replace_allE ic r f text = spliceE f (scan ic r 0 0 text)"

fun first_true_part :: "gstate \<Rightarrow> (string option \<times> string) list \<Rightarrow> (string, scache) run" where
  "first_true_part st [] = returns []"
| "first_true_part st ((None, content) # ps) = returns content"
| "first_true_part st ((Some condition, content) # ps) =
     bindE (evaluateCondition st condition)
       (\<lambda>met. if met then returns content else first_true_part st ps)"

definition processConditionalBlocks :: "gstate \<Rightarrow> string \<Rightarrow> (string, scache) run" where
  "processConditionalBlocks st text =
     replace_allE True if_block_rx
       (\<lambda>m. first_true_part st (block_parts (grp' m 1) (grp' m 2))) text"

subsection \<open>\<open>liquidToCSS\<close>\<close>

text \<open>The patterns of the scheme loop: the one built from the loop variable,
  \<open>\{\{\s*VAR\.id\s*\}\}\<close>, then \<open>/\{\{\s*forloop\.index\s*\}\}/g\<close>,
  \<open>/{%\s*if\s+forloop\.index\s*==\s*1\s*%}([\s\S]*?){%\s*endif\s*%}/gi\<close> and
  \<open>/{%\s*if\s+forloop\.index\s*[^%]+%}[\s\S]*?{%\s*endif\s*%}/gi\<close>\<close>

definition scheme_id_rx :: "string \<Rightarrow> rx" where
  "scheme_id_rx schemeVar = seq [lit ''{{'', ws, lit schemeVar, lit ''.id'', ws, lit ''}}'']"

definition forloop_index_rx :: rx where
  "forloop_index_rx = seq [lit ''{{'', ws, lit ''forloop.index'', ws, lit ''}}'']"

definition first_iteration_rx :: rx where
  "first_iteration_rx =
     seq [lit ''{%'', ws, lit ''if'', ws1, lit ''forloop.index'', ws, lit ''=='', ws, Chr CHR ''1'', ws,
          lit ''%}'', Grp 1 (LStar Anything), lit ''{%'', ws, lit ''endif'', ws, lit ''%}'']"

definition other_iteration_rx :: rx where
  "other_iteration_rx =
     seq [lit ''{%'', ws, lit ''if'', ws1, lit ''forloop.index'', ws, Plus (NotIn [CChar CHR ''%'']),
          lit ''%}'', LStar Anything, lit ''{%'', ws, lit ''endif'', ws, lit ''%}'']"

definition firstIteration :: "gstate \<Rightarrow> rmatch_result \<Rightarrow> string" where
  "firstIteration st m =
     (let schemeVar = grp' m 1;
          loopContent = grp' m 2;
          schemeId = (if truthy (getFirstColorScheme st) then the (firstSchemeKey st)
                      else ''scheme-1'');
          t1 = replace_all_str False (scheme_id_rx schemeVar) 0 schemeId loopContent;
          t2 = replace_all_str False forloop_index_rx 0 ''1'' t1;
          t3 = replace_all_str True first_iteration_rx 1 ''$1'' t2
      in replace_all_str True other_iteration_rx 0 [] t3)"

definition with_append :: "string \<Rightarrow> rmatch_result \<Rightarrow> (string, gstate) run" where
  "with_append reference m st =
     (case resolveLiquidVariable reference st of
        (resolved, st') \<Rightarrow>
          (Inr (if given (grp m 2) \<and> resolved \<noteq> reference then resolved @ grp' m 2
                else resolved), st'))"

definition liquidToCSS :: "string \<Rightarrow> (string, gstate) run" where
  "liquidToCSS text0 =
     bindE (replace_allE True REGEX_liquidBlock
              (\<lambda>m. with_cache (\<lambda>st. executeLiquidBlock st (grp' m 1))) text0) (\<lambda>text1.
     bindE (reading (\<lambda>st. replace_all True REGEX_forScheme (firstIteration st) text1)) (\<lambda>text2.
     bindE (with_cache (\<lambda>st. processConditionalBlocks st
              (replace_all_str False REGEX_assign 0 [] text2))) (\<lambda>text4.
     bindE (replace_allE False REGEX_schemeSettings
              (\<lambda>m. with_append (''{{ scheme.settings.'' @ grp' m 1 @ '' }}'') m)
              (replace_all True REGEX_ifBlock (\<lambda>m. grp' m 1) text4)) (\<lambda>text6.
     bindE (replace_allE False REGEX_settings
              (\<lambda>m. with_append (''{{ settings.'' @ grp' m 1 @ '' }}'') m) text6) (\<lambda>text7.
       let text8 = replace_all_str False REGEX_variable 1 ''0.15'' text7;
           text9 = replace_all_str False REGEX_liquidTags 0 [] text8
       in returns (replace_all_str False REGEX_liquidOutput 0 [] text9))))))"

subsection \<open>The registry\<close>

text \<open>\<open>cssVariables.has\<close>, \<open>cssVariables.get\<close> and \<open>cssVariables.set\<close> for a new
  name, which puts the entry last.\<close>

definition has_variable :: "gstate \<Rightarrow> string \<Rightarrow> bool" where
  "has_variable st name = (map_of (cssVariables st) name \<noteq> None)"

definition get_variable :: "gstate \<Rightarrow> string \<Rightarrow> cssVariableEntry option" where
  "get_variable st name = map_of (cssVariables st) name"

definition set_variable :: "string \<Rightarrow> cssVariableEntry \<Rightarrow> gstate \<Rightarrow> gstate" where
  "set_variable name entry st = st\<lparr>cssVariables := AList.update name entry (cssVariables st)\<rparr>"

text \<open>\<open>mediaQuery ? ... : ...\<close> on a parameter that is \<open>null\<close> or a string.\<close>

definition media_given :: "string option \<Rightarrow> bool" where
  "media_given mediaQuery = (case mediaQuery of None \<Rightarrow> False | Some q \<Rightarrow> q \<noteq> [])"

subsection \<open>\<open>parseVariablesInBlock\<close>, \<open>parseMediaBlocks\<close> and \<open>parseRootBlocks\<close>\<close>

text \<open>The body of the loop of \<open>parseVariablesInBlock\<close>, for one match.
  \<open>varData.media.push\<close> throws when the entry has no \<open>media\<close>.\<close>

definition record_variable :: "string \<Rightarrow> string option \<Rightarrow> rmatch_result \<Rightarrow> gstate \<Rightarrow> gstate outcome" where
  "record_variable path mediaQuery varMatch st =
     (let varName = ''--'' @ grp' varMatch 1;
          varValue = trim (grp' varMatch 2)
      in if \<not> has_variable st varName then
           Done (set_variable varName
             \<lparr>value' = varValue, file' = basename path, filePath = path,
              media = Some (if media_given mediaQuery
                            then [\<lparr>query = the mediaQuery, mvalue = varValue\<rparr>] else [])\<rparr> st)
         else if media_given mediaQuery then
           (case get_variable st varName of
              None \<Rightarrow> Done st
            | Some varData \<Rightarrow>
                (case media varData of
                   None \<Rightarrow> Threw TypeError st
                 | Some variants \<Rightarrow>
                     Done (set_variable varName
                       (varData\<lparr>media :=
                          Some (variants @ [\<lparr>query = the mediaQuery, mvalue = varValue\<rparr>])\<rparr>) st)))
         else Done st)"

definition parseVariablesInBlock :: "string \<Rightarrow> string \<Rightarrow> string option \<Rightarrow> gstate \<Rightarrow> gstate outcome" where
  "parseVariablesInBlock content path mediaQuery st =
     for_each (record_variable path mediaQuery) (exec_all False REGEX_cssVariable content) st"

definition media_block :: "string \<Rightarrow> string \<Rightarrow> rmatch_result \<Rightarrow> gstate \<Rightarrow> gstate outcome" where
  "media_block content path mediaMatch st =
     (let mediaQuery = trim (grp' mediaMatch 1);
          startPos = index mediaMatch + length (matched mediaMatch)
      in case findMatchingBrace content startPos of
           None \<Rightarrow> Done st
         | Some endPos \<Rightarrow>
             parseVariablesInBlock (substring content startPos (endPos - 1)) path
               (Some mediaQuery) st)"

definition parseMediaBlocks :: "string \<Rightarrow> string \<Rightarrow> gstate \<Rightarrow> gstate outcome" where
  "parseMediaBlocks content path st =
     for_each (media_block content path) (exec_all False REGEX_mediaQuery content) st"

text \<open>The body of the loop of \<open>parseRootBlocks\<close>, for one match: \<open>exec\<close> has set
  \<open>lastIndex\<close> behind the match. \<open>root_content\<close> is what the body does with the text
  between the braces: the base scan over all of it, then the media blocks.\<close>

definition root_content :: "string \<Rightarrow> string \<Rightarrow> gstate \<Rightarrow> gstate outcome" where
  "root_content rootContent path st =
     and_then (parseVariablesInBlock rootContent path None st) (parseMediaBlocks rootContent path)"

definition root_block :: "string \<Rightarrow> string \<Rightarrow> rmatch_result \<Rightarrow> gstate \<Rightarrow> gstate outcome" where
  "root_block text path rootStartMatch st0 =
     (let st = st0\<lparr>rootBlockLastIndex := match_end rootStartMatch\<rparr>;
          startPos = index rootStartMatch + length (matched rootStartMatch)
      in case findMatchingBrace text startPos of
           None \<Rightarrow> Done st
         | Some endPos \<Rightarrow> root_content (substring text startPos (endPos - 1)) path st)"

text \<open>The loop starts at the \<open>lastIndex\<close> it finds: the line that would reset it is
  part of a comment in the source. A loop that runs to its end leaves \<open>lastIndex\<close> at
  0; an \<open>exec\<close> with \<open>lastIndex\<close> beyond the text finds nothing.\<close>

definition parseRootBlocks :: "string \<Rightarrow> string \<Rightarrow> gstate \<Rightarrow> gstate outcome" where
  "parseRootBlocks text path st =
     and_then
       (for_each (root_block text path)
          (if length text < rootBlockLastIndex st then []
           else hits (scan False REGEX_rootBlock (rootBlockLastIndex st) 0
                        (drop (rootBlockLastIndex st) text))) st)
       (\<lambda>st'. Done (st'\<lparr>rootBlockLastIndex := 0\<rparr>))"

subsection \<open>\<open>parseLiquidEchoVariables\<close> and \<open>parseClassBlocks\<close>\<close>

text \<open>\<open>/echo\s+['"]([^'"]*--[\w-]+\s*:[^'"]+)['"]/g\<close>, \<open>/--([\w-]+)\s*:\s*([^;]+)/g\<close>
  and \<open>/\[[\w-]+\]/g\<close>\<close>

definition echo_rx :: rx where
  "echo_rx =
     seq [lit ''echo'', ws1, quote_char,
          Grp 1 (seq [Star not_quote, lit ''--'', Plus word_or_dash, ws, Chr CHR '':'', Plus not_quote]),
          quote_char]"

definition echo_variable_rx :: rx where
  "echo_variable_rx =
     seq [lit ''--'', Grp 1 (Plus word_or_dash), ws, Chr CHR '':'', ws,
          Grp 2 (Plus (NotIn [CChar CHR '';'']))]"

definition interpolation_rx :: rx where
  "interpolation_rx = seq [Chr CHR ''['', Plus word_or_dash, Chr CHR '']'']"

text \<open>These entries are \<open>{value, file, filePath}\<close>: they have no \<open>media\<close>.\<close>

definition record_echo_variable :: "string \<Rightarrow> rmatch_result \<Rightarrow> gstate \<Rightarrow> gstate" where
  "record_echo_variable path varMatch st =
     (let varName = ''--'' @ grp' varMatch 1;
          varValue = replace_all_str False interpolation_rx 0 ''...'' (trim (grp' varMatch 2))
      in if \<not> has_variable st varName then
           set_variable varName
             \<lparr>value' = varValue, file' = basename path, filePath = path, media = None\<rparr> st
         else st)"

definition parseLiquidEchoVariables :: "string \<Rightarrow> string \<Rightarrow> gstate \<Rightarrow> gstate" where
  "parseLiquidEchoVariables text path st =
     foldl (\<lambda>s echoMatch.
              foldl (\<lambda>s' varMatch. record_echo_variable path varMatch s') s
                (exec_all False echo_variable_rx (grp' echoMatch 1)))
       st (exec_all False echo_rx text)"

text \<open>\<open>/\.[\w-]+\s*\{/gi\<close>\<close>

definition classStart_rx :: rx where
  "classStart_rx = seq [Chr CHR ''.'', Plus word_or_dash, ws, Chr CHR ''{'']"

definition record_class_variable :: "string \<Rightarrow> rmatch_result \<Rightarrow> gstate \<Rightarrow> gstate" where
  "record_class_variable path varMatch st =
     (let varName = ''--'' @ grp' varMatch 1;
          varValue = trim (grp' varMatch 2)
      in if \<not> has_variable st varName then
           set_variable varName
             \<lparr>value' = varValue, file' = basename path, filePath = path, media = Some []\<rparr> st
         else st)"

definition class_line :: "string \<Rightarrow> gstate \<Rightarrow> string \<Rightarrow> gstate" where
  "class_line path st line =
     (if startsWith (trim line) ''/*'' \<or> startsWith (trim line) ''@media'' then st
      else foldl (\<lambda>s varMatch. record_class_variable path varMatch s) st
             (exec_all False REGEX_cssVariable line))"

definition class_block :: "string \<Rightarrow> string \<Rightarrow> gstate \<Rightarrow> rmatch_result \<Rightarrow> gstate" where
  "class_block text path st classStartMatch =
     (let startPos = index classStartMatch + length (matched classStartMatch)
      in case findMatchingBrace text startPos of
           None \<Rightarrow> st
         | Some endPos \<Rightarrow>
             foldl (class_line path) st
               (split (substring text startPos (endPos - 1)) [CHR 0x0A]))"

definition parseClassBlocks :: "string \<Rightarrow> string \<Rightarrow> gstate \<Rightarrow> gstate" where
  "parseClassBlocks text path st =
     foldl (class_block text path) st (exec_all True classStart_rx text)"

subsection \<open>\<open>parseCssVariables\<close>\<close>

text \<open>\<open>/{%\s*style\s*%}([\s\S]*?){%\s*endstyle\s*%}/gi\<close>,
  \<open>/{%\s*stylesheet\s*%}([\s\S]*?){%\s*endstylesheet\s*%}/gi\<close> and
  \<open>/<style[^>]*>([\s\S]*?)<\/style>/gi\<close>\<close>

definition liquidStyle_rx :: rx where
  "liquidStyle_rx =
     seq [lit ''{%'', ws, lit ''style'', ws, lit ''%}'', Grp 1 (LStar Anything),
          lit ''{%'', ws, lit ''endstyle'', ws, lit ''%}'']"

definition liquidSheet_rx :: rx where
  "liquidSheet_rx =
     seq [lit ''{%'', ws, lit ''stylesheet'', ws, lit ''%}'', Grp 1 (LStar Anything),
          lit ''{%'', ws, lit ''endstylesheet'', ws, lit ''%}'']"

definition htmlStyle_rx :: rx where
  "htmlStyle_rx =
     seq [lit ''<style'', Star (NotIn [CChar CHR ''>'']), Chr CHR ''>'', Grp 1 (LStar Anything),
          lit ''</style>'']"

text \<open>The style blocks of a text, \<open>{type, content, start}\<close> without the type, which
  nothing reads: those that contain \<open>:root\<close>, ordered by where they start.\<close>

definition blocks_of :: "rx \<Rightarrow> string \<Rightarrow> (string \<times> nat) list" where
  "blocks_of r text =
     map (\<lambda>m. (grp' m 1, index m))
       (filter (\<lambda>m. str_includes (grp' m 1) '':root'') (exec_all True r text))"

definition styleBlocks :: "string \<Rightarrow> (string \<times> nat) list" where
  "styleBlocks text =
     sort_by (\<lambda>a b. int (snd a) - int (snd b))
       (blocks_of liquidStyle_rx text @ blocks_of liquidSheet_rx text @ blocks_of htmlStyle_rx text)"

text \<open>The body of the loop over the style blocks.\<close>

definition style_block :: "extensionConfig \<Rightarrow> string \<Rightarrow> (string \<times> nat) \<Rightarrow> gstate \<Rightarrow> gstate outcome" where
  "style_block config path block st =
     (case liquidToCSS (fst block) st of
        (Inl e, st1) \<Rightarrow> Threw e st1
      | (Inr cleanCSS, st1) \<Rightarrow>
          if \<not> str_includes cleanCSS '':root'' then Done st1
          else and_then (parseRootBlocks cleanCSS path (parseLiquidEchoVariables cleanCSS path st1))
                 (\<lambda>st'. Done (if \<not> onlyRoot config then parseClassBlocks cleanCSS path st'
                              else st')))"

definition parseCssVariables :: "string \<Rightarrow> string \<Rightarrow> gstate \<Rightarrow> gstate outcome" where
  "parseCssVariables text path st =
     (if text = [] \<or> length text < 50 \<or> \<not> str_includes text '':root'' then Done st
      else let (config, st1) = getExtensionConfig st in
        if styleBlocks text = [] then Done st1
        else for_each (style_block config path) (styleBlocks text) st1)"

subsection \<open>\<open>scanLiquidFiles\<close>\<close>

text \<open>
  What the host hands to a scan: the two settings documents as \<open>loadShopifySettings\<close>
  and \<open>loadShopifySettingsSchema\<close> return them (\<open>Null\<close> when there is none), whether
  the workspace has folders, and the files that match the patterns, path and text, in
  the order in which their reads complete. An error of a file's callback is caught and
  logged; the scan goes on with the next file. The result is the number of variables.
\<close>

record scanInput =
  loadedSettings :: jsval
  loadedSchema :: jsval
  hasWorkspaceFolders :: bool
  liquidFiles :: "(string \<times> string) list"

definition scan_file :: "gstate \<Rightarrow> string \<times> string \<Rightarrow> gstate" where
  "scan_file st f =
     (if str_includes (snd f) '':root'' then state_of (parseCssVariables (snd f) (fst f) st)
      else st)"

text \<open>The first two statements of \<open>scanLiquidFiles\<close>.\<close>

definition scan_start :: "gstate \<Rightarrow> gstate" where
  "scan_start st = st\<lparr>cssVariables := [], settingValueCache := []\<rparr>"

definition scanLiquidFiles :: "scanInput \<Rightarrow> gstate \<Rightarrow> nat \<times> gstate" where
  "scanLiquidFiles inp st =
     (let st1 = (scan_start st)\<lparr>shopifySettings := loadedSettings inp,
                                 shopifySettingsSchema := loadedSchema inp\<rparr>
      in if \<not> hasWorkspaceFolders inp then (0, st1)
         else let st2 = foldl scan_file (snd (getExtensionConfig st1)) (liquidFiles inp)
              in (length (cssVariables st2), st2))"

subsection \<open>The state of a freshly loaded module\<close>

text \<open>The module as its top-level declarations leave it, in a host with the default
  configuration and a collation that orders strings by their code units.\<close>

definition codeUnitCompare :: "string \<Rightarrow> string \<Rightarrow> int" where
  "codeUnitCompare a b = (if str_less a b then - 1 else if str_less b a then 1 else 0)"

definition initial_state :: gstate where
  "initial_state =
     \<lparr>cssVariables = [], shopifySettings = Null, shopifySettingsSchema = Null,
      cachedConfig = None, hexToRgbaCache = [], settingValueCache = [],
      rootBlockLastIndex = 0,
      workspaceConfig = \<lparr>remToPxConversion = True, baseFontSize = Fin 16, onlyRoot = True\<rparr>,
      localeCompare = codeUnitCompare\<rparr>"

subsection \<open>Notions of the statements\<close>

text \<open>What the registry fixes about a name when it first records it: the name, the
  base value and the source file. The registry grows from one state to another when
  the later one lists the same names with the same base data, in the same order, then
  possibly more names.\<close>

definition base_of :: "string \<times> cssVariableEntry \<Rightarrow> string \<times> string \<times> string \<times> string" where
  "base_of p = (fst p, value' (snd p), file' (snd p), filePath (snd p))"

definition base_entries :: "gstate \<Rightarrow> (string \<times> string \<times> string \<times> string) list" where
  "base_entries st = map base_of (cssVariables st)"

definition grows :: "gstate \<Rightarrow> gstate \<Rightarrow> bool" where
  "grows st st' = prefix (base_entries st) (base_entries st')"

text \<open>Two states that differ in the two caches at most, the later one with every
  conversion that the earlier one has memoized.\<close>

definition only_caches :: "gstate \<Rightarrow> gstate \<Rightarrow> bool" where
  "only_caches st st' =
     (st'\<lparr>settingValueCache := [], hexToRgbaCache := []\<rparr>
        = st\<lparr>settingValueCache := [], hexToRgbaCache := []\<rparr>
      \<and> (\<forall>k v. map_of (hexToRgbaCache st) k = Some v \<longrightarrow> map_of (hexToRgbaCache st') k = Some v))"

text \<open>The declarations that the scan of \<open>parseVariablesInBlock\<close> finds in a text, name
  and trimmed value, and the media blocks that \<open>parseMediaBlocks\<close> finds in it, query
  and content, those with a closing brace.\<close>

definition declarations :: "string \<Rightarrow> (string \<times> string) list" where
  "declarations content =
     map (\<lambda>m. (''--'' @ grp' m 1, trim (grp' m 2))) (exec_all False REGEX_cssVariable content)"



text \<open>The names of a list that have an entry have one with a list of media variants:
  true of the entries that \<open>parseVariablesInBlock\<close> and \<open>parseClassBlocks\<close> make, not
  of those of \<open>parseLiquidEchoVariables\<close>. \<open>media_names\<close> are the names that the media
  blocks of a text declare.\<close>

definition listed :: "string list \<Rightarrow> gstate \<Rightarrow> bool" where
  "listed names st =
     list_all (\<lambda>n. case get_variable st n of None \<Rightarrow> True | Some d \<Rightarrow> media d \<noteq> None) names"


text \<open>The entry that the base scan makes for a new name declared with value \<open>v\<close>.\<close>

definition new_entry :: "string \<Rightarrow> string \<Rightarrow> cssVariableEntry" where
  "new_entry path v = \<lparr>value' = v, file' = basename path, filePath = path, media = Some []\<rparr>"

text \<open>The entry of a name after one more declaration of it with value \<open>v\<close>, from the
  entry before (\<open>None\<close> when the name is new), when that entry has its list; and after
  the declarations of a whole block, in order.\<close>

definition step_entry ::
  "string \<Rightarrow> string option \<Rightarrow> string \<Rightarrow> cssVariableEntry option \<Rightarrow> cssVariableEntry" where
  "step_entry path mq v old =
     (case old of
        None \<Rightarrow> \<lparr>value' = v, file' = basename path, filePath = path,
                 media = Some (if media_given mq then [\<lparr>query = the mq, mvalue = v\<rparr>] else [])\<rparr>
      | Some d \<Rightarrow> if media_given mq
                  then d\<lparr>media := Some (the (media d) @ [\<lparr>query = the mq, mvalue = v\<rparr>])\<rparr>
                  else d)"

fun fold_entry ::
  "string \<Rightarrow> string option \<Rightarrow> string \<Rightarrow> (string \<times> string) list \<Rightarrow> cssVariableEntry option
     \<Rightarrow> cssVariableEntry option" where
  "fold_entry path mq n [] old = old"
| "fold_entry path mq n (d # ds) old =
     fold_entry path mq n ds (if fst d = n then Some (step_entry path mq (snd d) old) else old)"



text \<open>Two entries with the same base value and source file; and what a run shows: the
  error it threw, if any, and the registry it left, each name with its base value and
  its media variants.\<close>

definition same_base :: "cssVariableEntry \<Rightarrow> cssVariableEntry \<Rightarrow> bool" where
  "same_base e e' = (value' e' = value' e \<and> file' e' = file' e \<and> filePath e' = filePath e)"



text \<open>The hexadecimal digits and their values, and the byte that two of them spell.\<close>

definition hex_table :: "(char \<times> nat) list" where
  "hex_table = zip ''0123456789abcdefABCDEF''
                 [0, 1, 2, 3, 4, 5, 6, 7, 8, 9, 10, 11, 12, 13, 14, 15, 10, 11, 12, 13, 14, 15]"

definition hex_digit :: "char \<Rightarrow> bool" where
  "hex_digit c = (map_of hex_table c \<noteq> None)"

definition hex_value :: "char \<Rightarrow> nat" where
  "hex_value c = the (map_of hex_table c)"

definition byte :: "char \<Rightarrow> char \<Rightarrow> number" where
  "byte c d = Fin (of_int (int (16 * hex_value c + hex_value d)))"

text \<open>
  The words of the conversions. \<open>frac_digits f n\<close> are the last \<open>f\<close> decimal digits
  of \<open>n\<close>, and \<open>strip_zeros\<close> removes the zeros at the end of a text. So
  \<open>decimal_text f n\<close> writes \<open>n / 10 ^ f\<close> with its fraction trimmed, and without the
  point when nothing is left of the fraction. \<open>rounded_text f x\<close> writes the multiple of
  \<open>1 / 10 ^ f\<close> nearest to \<open>x\<close>, the one farther from zero at a tie;
  \<open>truncated_text f x\<close> writes \<open>x\<close> cut after \<open>f\<close> decimals.
\<close>

primrec frac_digits :: "nat \<Rightarrow> nat \<Rightarrow> string" where
  "frac_digits 0 n = []"
| "frac_digits (Suc f) n = frac_digits f (n div 10) @ [digit_char (n mod 10)]"

definition strip_zeros :: "string \<Rightarrow> string" where
  "strip_zeros w = rev (dropWhile (\<lambda>c. c = CHR ''0'') (rev w))"

definition decimal_text :: "nat \<Rightarrow> nat \<Rightarrow> string" where
  "decimal_text f n =
     (let fp = strip_zeros (frac_digits f n) in
      if fp = [] then dec (n div 10 ^ f) else dec (n div 10 ^ f) @ ''.'' @ fp)"

definition rounded_text :: "nat \<Rightarrow> rat \<Rightarrow> string" where
  "rounded_text f x =
     (if x < 0 then ''-'' else []) @ decimal_text f (nat \<lfloor>\<bar>x\<bar> * 10 ^ f + 1 / 2\<rfloor>)"

definition truncated_text :: "nat \<Rightarrow> rat \<Rightarrow> string" where
  "truncated_text f x =
     (if x < 0 then ''-'' else []) @ decimal_text f (nat \<lfloor>\<bar>x\<bar> * 10 ^ f\<rfloor>)"

text \<open>What \<open>/\\.?0+$/\<close> asks of the text that is left at a position: zeros only, at
  least one (after the optional point); and the continuation that is \<open>$\<close>.\<close>

definition zeros_left :: "string \<Rightarrow> bool" where
  "zeros_left w = (w \<noteq> [] \<and> list_all (\<lambda>c. c = CHR ''0'') w)"

definition at_end :: cont where
  "at_end s = (if rest s = [] then Some s else None)"

text \<open>
  The words of the condition evaluator. \<open>operator_at\<close> is the first operator of a list
  that starts a text and has something after it, with what is after it.
  \<open>split_comparison\<close> cuts a condition at the shortest non-empty left part after which,
  white space skipped, such an operator stands: the left part, the operator and what
  follows the operator. \<open>compare_values\<close> is the comparison of two values by an operator:
  the ordering operators compare the two \<open>parseFloat\<close>s, \<open>==\<close> is loose equality; it
  is \<open>None\<close> for \<open>==\<close> between two objects, which JavaScript compares as references,
  of which the embedding has none. \<open>falsy_values\<close> are the values that \<open>!!\<close> takes to
  \<open>false\<close>.
\<close>

definition operators :: "string list" where
  "operators = [''>='', ''<='', ''>'', ''<'', ''=='']"

fun operator_at :: "string list \<Rightarrow> string \<Rightarrow> (string \<times> string) option" where
  "operator_at [] r = None"
| "operator_at (op # ops) r =
     (if startsWith r op \<and> length op < length r then Some (op, drop (length op) r)
      else operator_at ops r)"

fun split_after :: "string \<Rightarrow> string \<Rightarrow> (string \<times> string \<times> string) option" where
  "split_after left [] = None"
| "split_after left (x # xs) =
     (case operator_at operators (dropWhile is_space (x # xs)) of
        Some (op, t) \<Rightarrow> Some (left, op, t)
      | None \<Rightarrow> split_after (left @ [x]) xs)"

definition split_comparison :: "string \<Rightarrow> (string \<times> string \<times> string) option" where
  "split_comparison cond = (case cond of [] \<Rightarrow> None | x # xs \<Rightarrow> split_after [x] xs)"

definition compare_values :: "string \<Rightarrow> jsval \<Rightarrow> jsval \<Rightarrow> bool option" where
  "compare_values op l r =
     (if op = ''>='' then Some (num_le (parseFloat r) (parseFloat l))
      else if op = ''<='' then Some (num_le (parseFloat l) (parseFloat r))
      else if op = ''>'' then Some (num_less (parseFloat r) (parseFloat l))
      else if op = ''<'' then Some (num_less (parseFloat l) (parseFloat r))
      else if is_object l \<and> is_object r then None
      else Some (loose_eq l r))"

definition falsy_values :: "jsval list" where
  "falsy_values =
     [Undefined, Null, JBool False, Str [], Num (Fin 0), Num NegZero, Num NaN]"

text \<open>For the matcher on \<open>/(.+?)\\s*(>=|<=|>|<|==)\\s*(.+)/\<close>: a text without line
  terminators; the third group for what follows the operator (its last character when it
  is all white space); a state moved to the end of the text, and past a run of characters;
  and the continuations of the pattern after its first group, from the right.\<close>

definition no_terminator :: "string \<Rightarrow> bool" where
  "no_terminator w = list_all (\<lambda>c. \<not> is_line_terminator c) w"

definition group3 :: "string \<Rightarrow> string" where
  "group3 t = (if dropWhile is_space t = [] then [last t] else dropWhile is_space t)"

definition to_end :: "mstate \<Rightarrow> mstate" where
  "to_end s = s\<lparr>pos := pos s + length (rest s), rest := []\<rparr>"

definition skip_run :: "(char \<Rightarrow> bool) \<Rightarrow> mstate \<Rightarrow> mstate" where
  "skip_run P s = s\<lparr>pos := pos s + length (takeWhile P (rest s)), rest := dropWhile P (rest s)\<rparr>"

definition last_part :: cont where
  "last_part = rmatch False (Grp 3 (Plus Dot)) Some"

definition right_part :: cont where
  "right_part = rmatch False ws last_part"

definition op_part :: cont where
  "op_part =
     rmatch False (Grp 2 (alts [lit ''>='', lit ''<='', lit ''>'', lit ''<'', lit ''==''])) right_part"

definition tail_part :: cont where
  "tail_part = rmatch False ws op_part"

text \<open>For the caches across a scan: no entry of the cache of hex conversions is lost
  from one state to the other; what a scan leaves, the names of the registry with their
  values and the two caches; a colour record with alpha 1; and two workspaces of one
  file, one that reads a colour of the first colour scheme and one that asks for a
  setting.\<close>

definition hex_kept :: "gstate \<Rightarrow> gstate \<Rightarrow> bool" where
  "hex_kept st st' =
     (\<forall>k v. map_of (hexToRgbaCache st) k = Some v \<longrightarrow> map_of (hexToRgbaCache st') k = Some v)"

definition scan_view ::
  "nat \<times> gstate \<Rightarrow> (string \<times> string) list \<times> (string \<times> rgba) list \<times> (string \<times> jsval) list" where
  "scan_view r =
     (map (\<lambda>p. (fst p, value' (snd p))) (cssVariables (snd r)),
      hexToRgbaCache (snd r), settingValueCache (snd r))"

definition opaque :: "number \<Rightarrow> number \<Rightarrow> number \<Rightarrow> rgba" where
  "opaque r g b = \<lparr>rgba_r = r, rgba_g = g, rgba_b = b, rgba_a = Fin 1\<rparr>"

definition scheme_scan :: scanInput where
  "scheme_scan =
     \<lparr>loadedSettings =
        Obj [(''color_schemes'',
              Obj [(''scheme-1'', Obj [(''settings'', Obj [(''background'', Str ''#fff'')])])])],
      loadedSchema = Null, hasWorkspaceFolders = True,
      liquidFiles =
        [(''a.liquid'', ''<style>:root { --bg: {{ scheme.settings.background }}; }</style>'')]\<rparr>"

definition dark_scan :: "bool \<Rightarrow> scanInput" where
  "dark_scan b =
     \<lparr>loadedSettings = Obj [(''dark'', JBool b)], loadedSchema = Null, hasWorkspaceFolders = True,
      liquidFiles =
        [(''a.liquid'',
          ''<style>:root { {% if settings.dark %}--bg: black;{% else %}--bg: white;{% endif %} }</style>'')]\<rparr>"

section \<open>Properties\<close>

subsection \<open>Evaluating the matcher\<close>

text \<open>The equations that run the definitions on a concrete text.\<close>

lemmas char_class_defs =
  code_def is_space_def is_digit_def is_upper_def is_lower_def is_word_def
  is_line_terminator_def upcase_def same_char_def

declare ndigits.simps [simp del] dec.simps [simp del]

lemmas rx_defs =
  Plus_def LPlus_def Opt_def lit_def ws_def ws1_def Anything_def step1_def match_at_def
  rx_match_def rx_test_def exec_all_def replace_all_def grp_def grp'_def match_end_def

subsection \<open>The early exit of \<open>parseCssVariables\<close>\<close>

text \<open>
  C9. A text that is empty, shorter than 50 code units, or without the substring
  \<open>:root\<close> leaves the state, and with it the registry, exactly as it was; the call
  returns without throwing.
\<close>

theorem parseCssVariables_early_exit:
  "text = [] \<or> length text < 50 \<or> \<not> str_includes text '':root''
   \<Longrightarrow> parseCssVariables text path st = Done st"
  by (simp add: parseCssVariables_def)

theorem parseCssVariables_early_exit_witness:
  "length ''<style>:root{--a:1;}</style>'' < 50
   \<and> parseCssVariables ''<style>:root{--a:1;}</style>'' ''/theme/a.liquid'' initial_state
       = Done initial_state"
  using parseCssVariables_early_exit
    [of "''<style>:root{--a:1;}</style>''" "''/theme/a.liquid''" initial_state]
  by simp

subsection \<open>The registry only grows\<close>

lemma grows_refl: "grows st st"
  by (simp add: grows_def)

lemma grows_trans: "grows a b \<Longrightarrow> grows b c \<Longrightarrow> grows a c"
  unfolding grows_def by (rule prefix_order.trans)

lemma grows_same: "cssVariables st' = cssVariables st \<Longrightarrow> grows st st'"
  by (simp add: grows_def base_entries_def)

lemma update_absent: "map_of xs k = None \<Longrightarrow> AList.update k v xs = xs @ [(k, v)]"
  by (induction xs) (auto split: if_splits)

lemma update_present:
  "map_of xs k = Some d \<Longrightarrow> base_of (k, d') = base_of (k, d)
   \<Longrightarrow> map base_of (AList.update k d' xs) = map base_of xs"
  by (induction xs) (auto simp: base_of_def split: if_splits)

lemma grows_set_new: "\<not> has_variable st n \<Longrightarrow> grows st (set_variable n e st)"
  by (simp add: grows_def base_entries_def has_variable_def set_variable_def update_absent)

lemma grows_set_media:
  "get_variable st n = Some d \<Longrightarrow> grows st (set_variable n (d\<lparr>media := x\<rparr>) st)"
  by (simp add: grows_def base_entries_def get_variable_def set_variable_def
      update_present base_of_def)

lemma record_variable_grows: "grows st (state_of (record_variable path mq m st))"
  by (auto simp: record_variable_def Let_def grows_refl grows_set_new grows_set_media
      split: option.splits)

lemma for_each_grows:
  assumes "\<And>x s. grows s (state_of (f x s))"
  shows "grows st (state_of (for_each f xs st))"
proof (induction xs arbitrary: st)
  case Nil
  show ?case by (simp add: grows_refl)
next
  case (Cons x xs)
  show ?case
  proof (cases "f x st")
    case (Done s1)
    have "grows st s1" using assms [of st x] Done by simp
    moreover have "grows s1 (state_of (for_each f xs s1))" by (rule Cons.IH)
    ultimately show ?thesis using Done by (auto intro: grows_trans)
  next
    case (Threw e s1)
    then show ?thesis using assms [of st x] by simp
  qed
qed

lemma and_then_grows:
  assumes "grows st (state_of r)" and "\<And>s. grows s (state_of (f s))"
  shows "grows st (state_of (and_then r f))"
proof (cases r)
  case (Done s1)
  then show ?thesis using assms(1) assms(2) [of s1] by (auto intro: grows_trans)
next
  case (Threw e s1)
  then show ?thesis using assms(1) by simp
qed

lemma foldl_grows:
  assumes "\<And>x s. grows s (f s x)"
  shows "grows st (foldl f st xs)"
proof (induction xs arbitrary: st)
  case Nil
  show ?case by (simp add: grows_refl)
next
  case (Cons x xs)
  have "grows st (f st x)" by (rule assms)
  moreover have "grows (f st x) (foldl f (f st x) xs)" by (rule Cons.IH)
  ultimately show ?case by (auto intro: grows_trans)
qed

lemma parseVariablesInBlock_grows:
  "grows st (state_of (parseVariablesInBlock content path mq st))"
  unfolding parseVariablesInBlock_def by (rule for_each_grows) (rule record_variable_grows)

lemma media_block_grows: "grows st (state_of (media_block content path m st))"
  by (auto simp: media_block_def Let_def grows_refl parseVariablesInBlock_grows
      split: option.splits)

lemma parseMediaBlocks_grows: "grows st (state_of (parseMediaBlocks content path st))"
  unfolding parseMediaBlocks_def by (rule for_each_grows) (rule media_block_grows)

lemma root_block_grows: "grows st (state_of (root_block text path m st))"
proof -
  let ?st = "st\<lparr>rootBlockLastIndex := match_end m\<rparr>"
  have a: "grows st ?st" by (simp add: grows_same)
  show ?thesis
  proof (cases "findMatchingBrace text (index m + length (matched m))")
    case None
    then show ?thesis using a by (simp add: root_block_def Let_def)
  next
    case (Some endPos)
    let ?c = "substring text (index m + length (matched m)) (endPos - 1)"
    have "grows ?st (state_of (root_content ?c path ?st))"
      unfolding root_content_def
      by (rule and_then_grows) (rule parseVariablesInBlock_grows, rule parseMediaBlocks_grows)
    then show ?thesis using a Some by (auto simp: root_block_def Let_def intro: grows_trans)
  qed
qed

lemma parseRootBlocks_grows: "grows st (state_of (parseRootBlocks text path st))"
  unfolding parseRootBlocks_def
  by (rule and_then_grows) (rule for_each_grows, rule root_block_grows, simp add: grows_same)

lemma record_echo_variable_grows: "grows st (record_echo_variable path m st)"
  by (simp add: record_echo_variable_def Let_def grows_refl grows_set_new)

lemma parseLiquidEchoVariables_grows: "grows st (parseLiquidEchoVariables text path st)"
  unfolding parseLiquidEchoVariables_def
  by (rule foldl_grows) (rule foldl_grows, rule record_echo_variable_grows)

lemma record_class_variable_grows: "grows st (record_class_variable path m st)"
  by (simp add: record_class_variable_def Let_def grows_refl grows_set_new)

lemma class_line_grows: "grows st (class_line path st line)"
  by (auto simp: class_line_def grows_refl intro: foldl_grows record_class_variable_grows)

lemma class_block_grows: "grows st (class_block text path st m)"
  by (auto simp: class_block_def Let_def grows_refl split: option.splits
      intro: foldl_grows class_line_grows)

lemma parseClassBlocks_grows: "grows st (parseClassBlocks text path st)"
  unfolding parseClassBlocks_def by (rule foldl_grows) (rule class_block_grows)

text \<open>The transform changes nothing of the state but the two caches, and takes no
  entry out of the cache of hex conversions.\<close>

lemma only_caches_refl: "only_caches st st"
  by (simp add: only_caches_def)

lemma only_caches_trans: "only_caches a b \<Longrightarrow> only_caches b c \<Longrightarrow> only_caches a c"
  by (simp add: only_caches_def)

lemma returns_only: "only_caches s (snd (returns x s))"
  by (simp add: returns_def only_caches_refl)

lemma reading_only: "only_caches s (snd (reading f s))"
  by (simp add: reading_def only_caches_refl)

lemma bindE_only:
  assumes "\<And>s. only_caches s (snd (m s))" and "\<And>x s. only_caches s (snd (f x s))"
  shows "only_caches s (snd (bindE m f s))"
proof (cases "m s")
  case (Pair r s1)
  have a: "only_caches s s1" using assms(1) [of s] Pair by simp
  show ?thesis
  proof (cases r)
    case (Inl e)
    then show ?thesis using a Pair by (simp add: bindE_def)
  next
    case (Inr x)
    have "only_caches s1 (snd (f x s1))" by (rule assms(2))
    then show ?thesis using a Pair Inr by (auto simp: bindE_def intro: only_caches_trans)
  qed
qed

lemma with_cache_only: "only_caches s (snd (with_cache m s))"
  by (simp add: with_cache_def only_caches_def split: prod.splits)

lemma hexToRgba_only: "only_caches st (snd (hexToRgba v alpha st))"
  by (auto simp: hexToRgba_def Let_def only_caches_def update_conv' split: jsval.splits option.splits)

lemma resolveLiquidVariable_only: "only_caches st (snd (resolveLiquidVariable w st))"
proof -
  have h: "\<And>x a. hexToRgba x a st = (r, s1) \<Longrightarrow> only_caches st s1" for r s1
    using hexToRgba_only by (metis snd_conv)
  show ?thesis
    by (auto simp: resolveLiquidVariable_def Let_def only_caches_refl
        split: option.splits jsval.splits prod.splits dest: h)
qed

lemma with_append_only: "only_caches st (snd (with_append w m st))"
  using resolveLiquidVariable_only [of st w]
  by (cases "resolveLiquidVariable w st") (simp add: with_append_def)

lemma spliceE_only:
  assumes "\<And>m s. only_caches s (snd (f m s))"
  shows "only_caches s (snd (spliceE f segs s))"
proof (induction segs arbitrary: s)
  case Nil
  show ?case by (simp add: returns_only)
next
  case (Cons g segs)
  show ?case
  proof (cases g)
    case (Keep c)
    then show ?thesis by (simp add: bindE_only Cons.IH returns_only)
  next
    case (Hit m)
    then show ?thesis by (simp add: bindE_only Cons.IH returns_only assms)
  qed
qed

lemma liquidToCSS_only: "only_caches st (snd (liquidToCSS text st))"
  unfolding liquidToCSS_def replace_allE_def Let_def
  by (intro bindE_only spliceE_only with_cache_only with_append_only reading_only returns_only)

lemma style_block_grows: "grows st (state_of (style_block config path block st))"
proof (cases "liquidToCSS (fst block) st")
  case (Pair r st1)
  have "only_caches st st1" using liquidToCSS_only [of st "fst block"] Pair by simp
  then have "cssVariables st1 = cssVariables st"
    by (auto simp: only_caches_def dest: arg_cong [where f = cssVariables])
  then have g: "grows st st1" by (rule grows_same)
  show ?thesis
  proof (cases r)
    case (Inl e)
    then show ?thesis using Pair g by (simp add: style_block_def)
  next
    case (Inr cleanCSS)
    let ?s1 = "parseLiquidEchoVariables cleanCSS path st1"
    have "grows st1 ?s1" by (rule parseLiquidEchoVariables_grows)
    moreover have "grows ?s1 (state_of (and_then (parseRootBlocks cleanCSS path ?s1)
        (\<lambda>st'. Done (if \<not> onlyRoot config then parseClassBlocks cleanCSS path st' else st'))))"
      by (rule and_then_grows) (rule parseRootBlocks_grows, simp add: grows_refl parseClassBlocks_grows)
    ultimately show ?thesis using Pair Inr g
      by (auto simp: style_block_def intro: grows_trans)
  qed
qed

lemma getExtensionConfig_grows: "grows st (snd (getExtensionConfig st))"
  by (simp add: getExtensionConfig_def grows_same split: option.splits)

lemma parseCssVariables_grows: "grows st (state_of (parseCssVariables text path st))"
proof -
  obtain config st1 where c: "getExtensionConfig st = (config, st1)" by (cases "getExtensionConfig st")
  have a: "grows st st1" using getExtensionConfig_grows [of st] c by simp
  have "grows st1 (state_of (for_each (style_block config path) (styleBlocks text) st1))"
    by (rule for_each_grows) (rule style_block_grows)
  then show ?thesis using a c by (auto simp: parseCssVariables_def grows_refl intro: grows_trans)
qed

lemma scan_file_grows: "grows st (scan_file st f)"
  by (simp add: scan_file_def grows_refl parseCssVariables_grows)

lemma get_variable_grows:
  assumes "grows st st'" and "get_variable st n = Some e"
  shows "\<exists>e'. get_variable st' n = Some e' \<and> value' e' = value' e \<and> file' e' = file' e
              \<and> filePath e' = filePath e"
proof -
  have m: "map_of (map base_of xs) k = map_option (\<lambda>d. (value' d, file' d, filePath d)) (map_of xs k)" for xs k
    by (induction xs) (auto simp: base_of_def)
  obtain new where n: "base_entries st' = base_entries st @ new"
    using assms(1) by (auto simp: grows_def prefix_def)
  have "map_of (base_entries st) n = Some (value' e, file' e, filePath e)"
    using assms(2) by (simp add: base_entries_def m get_variable_def)
  then have "map_of (base_entries st') n = Some (value' e, file' e, filePath e)"
    by (simp add: n)
  then show ?thesis by (auto simp: base_entries_def m get_variable_def)
qed


lemma get_set_variable:
  "get_variable (set_variable k v st) n = (if n = k then Some v else get_variable st n)"
  by (simp add: get_variable_def set_variable_def update_conv')

lemma listed_iff:
  "listed N st \<longleftrightarrow> (\<forall>n \<in> set N. \<forall>d. get_variable st n = Some d \<longrightarrow> media d \<noteq> None)"
  by (auto simp: listed_def list_all_iff split: option.splits)

lemma record_variable_step:
  assumes "listed N st" and "media_given mq \<Longrightarrow> ''--'' @ grp' m 1 \<in> set N"
  shows "\<exists>st'. record_variable path mq m st = Done st' \<and> listed N st'
         \<and> (\<forall>k. get_variable st' k =
               (if k = ''--'' @ grp' m 1
                then Some (step_entry path mq (trim (grp' m 2)) (get_variable st k))
                else get_variable st k))"
proof (cases "get_variable st (''--'' @ grp' m 1)")
  case None
  then show ?thesis using assms(1)
    by (auto simp: record_variable_def Let_def has_variable_def get_variable_def [symmetric]
        step_entry_def get_set_variable listed_iff)
next
  case (Some d)
  show ?thesis
  proof (cases "media_given mq")
    case True
    then obtain ms where ms: "media d = Some ms"
      using assms Some by (auto simp: listed_iff)
    show ?thesis using True assms(1) Some ms
      by (auto simp: record_variable_def Let_def has_variable_def get_variable_def [symmetric]
          step_entry_def get_set_variable listed_iff)
  next
    case False
    then show ?thesis using assms(1) Some
      by (auto simp: record_variable_def Let_def has_variable_def get_variable_def [symmetric]
          step_entry_def)
  qed
qed

lemma for_each_record:
  assumes "listed N st" and "media_given mq \<Longrightarrow> \<forall>m \<in> set ms. ''--'' @ grp' m 1 \<in> set N"
  shows "\<exists>st'. for_each (record_variable path mq) ms st = Done st' \<and> listed N st'
         \<and> (\<forall>n. get_variable st' n =
               fold_entry path mq n (map (\<lambda>m. (''--'' @ grp' m 1, trim (grp' m 2))) ms)
                 (get_variable st n))"
  using assms
proof (induction ms arbitrary: st)
  case Nil
  then show ?case by simp
next
  case (Cons m ms)
  have hd_in: "media_given mq \<Longrightarrow> ''--'' @ grp' m 1 \<in> set N"
    and tl_in: "media_given mq \<Longrightarrow> \<forall>m \<in> set ms. ''--'' @ grp' m 1 \<in> set N"
    using Cons.prems(2) by simp_all
  obtain s1 where s1: "record_variable path mq m st = Done s1" "listed N s1"
    and g1: "\<And>k. get_variable s1 k =
               (if k = ''--'' @ grp' m 1
                then Some (step_entry path mq (trim (grp' m 2)) (get_variable st k))
                else get_variable st k)"
    using record_variable_step [OF Cons.prems(1) hd_in, where path = path] by blast
  obtain s2 where s2: "for_each (record_variable path mq) ms s1 = Done s2" "listed N s2"
    and g2: "\<And>n. get_variable s2 n =
               fold_entry path mq n (map (\<lambda>m. (''--'' @ grp' m 1, trim (grp' m 2))) ms)
                 (get_variable s1 n)"
    using Cons.IH [OF s1(2) tl_in] by blast
  show ?case using s1 s2 g1 g2 by auto
qed

lemma block_effect:
  assumes "listed N st" and "media_given mq \<Longrightarrow> set (map fst (declarations content)) \<subseteq> set N"
  shows "\<exists>st'. parseVariablesInBlock content path mq st = Done st' \<and> listed N st'
         \<and> (\<forall>n. get_variable st' n = fold_entry path mq n (declarations content) (get_variable st n))"
proof -
  have "media_given mq \<Longrightarrow>
        \<forall>m \<in> set (exec_all False REGEX_cssVariable content). ''--'' @ grp' m 1 \<in> set N"
    using assms(2) by (auto simp: declarations_def)
  from for_each_record [OF assms(1) this]
  show ?thesis unfolding parseVariablesInBlock_def declarations_def by blast
qed


lemma fold_entry_base:
  "fold_entry path None n ds old =
     (case old of
        Some e \<Rightarrow> Some e
      | None \<Rightarrow> map_option (new_entry path) (map_of ds n))"
proof (induction ds arbitrary: old)
  case Nil
  then show ?case by (simp split: option.splits)
next
  case (Cons d ds)
  then show ?case
    by (cases d) (auto simp: step_entry_def media_given_def new_entry_def split: option.splits)
qed

text \<open>
  C5. Within one scan the registry is append-only and first-write-wins. The base scan of
  a block (the scan without a media query) returns without throwing, leaves every entry
  it finds as it is, and records each new name with the value of its first declaration
  in the block: of \<open>--x: 1px; --x: 2px;\<close> it keeps \<open>1px\<close>. The entries that were there
  stay where they are, the new ones come after them. And whatever the scan processes
  later (a block with or without a media query, a whole file, the files that remain) an
  entry once recorded keeps its base value and its source file.
\<close>


theorem registry_first_write_wins:
  "(\<exists>st'. parseVariablesInBlock content path None st = Done st'
       \<and> prefix (base_entries st) (base_entries st')
       \<and> (\<forall>name. get_variable st' name =
            (case get_variable st name of
               Some e \<Rightarrow> Some e
             | None \<Rightarrow> map_option (new_entry path) (map_of (declarations content) name))))
   \<and> (\<forall>name e. get_variable st name = Some e \<longrightarrow>
         (\<exists>e'. get_variable (state_of (parseVariablesInBlock content path mq st)) name = Some e'
               \<and> same_base e e')
       \<and> (\<exists>e'. get_variable (state_of (parseCssVariables text path st)) name = Some e'
               \<and> same_base e e')
       \<and> (\<exists>e'. get_variable (foldl scan_file st files) name = Some e' \<and> same_base e e'))"
proof (intro conjI allI impI)
  obtain st' where a: "parseVariablesInBlock content path None st = Done st'"
    and b: "\<And>n. get_variable st' n = fold_entry path None n (declarations content) (get_variable st n)"
    using block_effect [where N = "[]" and mq = None and content = content and path = path and st = st]
    by (auto simp: listed_def media_given_def)
  have "grows st st'" using parseVariablesInBlock_grows [of st content path None] a by simp
  then show "\<exists>st'. parseVariablesInBlock content path None st = Done st'
       \<and> prefix (base_entries st) (base_entries st')
       \<and> (\<forall>name. get_variable st' name =
            (case get_variable st name of
               Some e \<Rightarrow> Some e
             | None \<Rightarrow> map_option (new_entry path) (map_of (declarations content) name)))"
    using a b by (auto simp: grows_def fold_entry_base)
next
  fix name e assume "get_variable st name = Some e"
  then show "\<exists>e'. get_variable (state_of (parseVariablesInBlock content path mq st)) name = Some e'
               \<and> same_base e e'"
    using get_variable_grows [OF parseVariablesInBlock_grows] by (simp add: same_base_def)
next
  fix name e assume "get_variable st name = Some e"
  then show "\<exists>e'. get_variable (state_of (parseCssVariables text path st)) name = Some e'
               \<and> same_base e e'"
    using get_variable_grows [OF parseCssVariables_grows] by (simp add: same_base_def)
next
  fix name e assume "get_variable st name = Some e"
  moreover have "grows st (foldl scan_file st files)"
    by (rule foldl_grows) (rule scan_file_grows)
  ultimately show "\<exists>e'. get_variable (foldl scan_file st files) name = Some e' \<and> same_base e e'"
    using get_variable_grows by (simp add: same_base_def)
qed

theorem registry_first_write_wins_witness:
  "get_variable
     (scan_file initial_state (''/theme/a.liquid'',
        ''<style>:root { --x: 1px; --x: 2px; }</style> <p>fifty code units</p>'')) ''--x''
     = Some (new_entry ''/theme/a.liquid'' ''1px'')
   \<and> (\<exists>e'. get_variable
          (foldl scan_file initial_state
             [(''/theme/a.liquid'',
               ''<style>:root { --x: 1px; --x: 2px; }</style> <p>fifty code units</p>''),
              (''/theme/b.liquid'',
               ''<style>:root { --x: 3px; --y: 4px; }</style> <p>fifty code units</p>'')])
          ''--x'' = Some e'
        \<and> value' e' = ''1px'' \<and> filePath e' = ''/theme/a.liquid'')
   \<and> map_of (declarations ''--x: 1px; --x: 2px;'') ''--x'' = Some ''1px''
   \<and> (\<exists>st'. parseVariablesInBlock ''--x: 1px; --x: 2px;'' ''/theme/a.liquid'' None initial_state
                = Done st'
          \<and> get_variable st' ''--x'' = Some (new_entry ''/theme/a.liquid'' ''1px''))"
proof -
  let ?a = "(''/theme/a.liquid'',
             ''<style>:root { --x: 1px; --x: 2px; }</style> <p>fifty code units</p>'')"
  let ?b = "(''/theme/b.liquid'',
             ''<style>:root { --x: 3px; --y: 4px; }</style> <p>fifty code units</p>'')"
  let ?st = "scan_file initial_state ?a"
  have h: "get_variable ?st ''--x'' = Some (new_entry ''/theme/a.liquid'' ''1px'')"
    by code_simp
  have d: "map_of (declarations ''--x: 1px; --x: 2px;'') ''--x'' = Some ''1px''"
    by code_simp
  have n: "get_variable initial_state ''--x'' = None"
    by (simp add: get_variable_def initial_state_def)
  from registry_first_write_wins [where st = ?st and files = "[?b]"] h
  have later: "\<exists>e'. get_variable (foldl scan_file ?st [?b]) ''--x'' = Some e'
                 \<and> same_base (new_entry ''/theme/a.liquid'' ''1px'') e'"
    by blast
  from registry_first_write_wins
    [where content = "''--x: 1px; --x: 2px;''" and path = "''/theme/a.liquid''"
       and st = initial_state, THEN conjunct1]
  obtain st' where
    r: "parseVariablesInBlock ''--x: 1px; --x: 2px;'' ''/theme/a.liquid'' None initial_state = Done st'"
    and g: "\<And>name. get_variable st' name =
              (case get_variable initial_state name of
                 Some e \<Rightarrow> Some e
               | None \<Rightarrow> map_option (new_entry ''/theme/a.liquid'')
                           (map_of (declarations ''--x: 1px; --x: 2px;'') name))"
    by blast
  have "get_variable st' ''--x'' = Some (new_entry ''/theme/a.liquid'' ''1px'')"
    by (simp only: g n d option.case option.map)
  then have first: "\<exists>st'. parseVariablesInBlock ''--x: 1px; --x: 2px;'' ''/theme/a.liquid'' None
                       initial_state = Done st'
                 \<and> get_variable st' ''--x'' = Some (new_entry ''/theme/a.liquid'' ''1px'')"
    using r by blast
  have all: "foldl scan_file initial_state [?a, ?b] = foldl scan_file ?st [?b]" by simp
  obtain e' where e: "get_variable (foldl scan_file ?st [?b]) ''--x'' = Some e'"
    "same_base (new_entry ''/theme/a.liquid'' ''1px'') e'"
    using later by blast
  have "value' e' = ''1px'' \<and> filePath e' = ''/theme/a.liquid''"
    using e(2) by (simp add: same_base_def new_entry_def)
  then have "\<exists>e'. get_variable (foldl scan_file initial_state [?a, ?b]) ''--x'' = Some e'
               \<and> value' e' = ''1px'' \<and> filePath e' = ''/theme/a.liquid''"
    using e(1) unfolding all by blast
  then show ?thesis using h d first by blast
qed

subsection \<open>Media blocks\<close>


















subsection \<open>The hex decoder\<close>

lemma hex_digit_cases:
  "hex_digit c \<Longrightarrow> c \<in> set ''0123456789abcdefABCDEF''"
  by (auto simp: hex_digit_def hex_table_def split: if_splits)

lemma hex_digit_val: "hex_digit c \<Longrightarrow> digit_val 16 c = Some (hex_value c) \<and> hex_value c < 16"
  by (drule hex_digit_cases) (auto simp: digit_val_def hex_value_def hex_table_def char_class_defs)

lemma hex_digit_plain:
  "hex_digit c \<Longrightarrow> \<not> is_space c \<and> c \<noteq> CHR ''-'' \<and> c \<noteq> CHR ''+'' \<and> c \<noteq> CHR ''#''
     \<and> c \<noteq> CHR ''x'' \<and> c \<noteq> CHR ''X''"
  by (drule hex_digit_cases) (auto simp: char_class_defs)

lemma ndigits_le: "n < 2 ^ j \<Longrightarrow> ndigits 2 n \<le> j"
proof (induction j arbitrary: n)
  case 0
  then show ?case by (simp add: ndigits.simps)
next
  case (Suc j)
  then have "n div 2 < 2 ^ j" by auto
  then have "ndigits 2 (n div 2) \<le> j" by (rule Suc.IH)
  then show ?case by (subst ndigits.simps) simp
qed

lemma ndigits_pos: "0 < n \<Longrightarrow> 0 < ndigits 2 n"
  by (subst ndigits.simps) simp

lemma round_half_even_int: "round_half_even (of_int z) = z"
  by (simp add: round_half_even_def)

lemma round_double_of_int:
  assumes "0 < n" and "n < 2 ^ 53"
  shows "round_double (of_int n) = Fin (of_int n)"
proof -
  define k where "k = ndigits 2 (nat n)"
  have "nat n < 2 ^ 53" using assms by (simp add: nat_less_iff)
  then have k53: "k \<le> 53" unfolding k_def by (rule ndigits_le)
  have k1: "0 < k" unfolding k_def using assms(1) by (simp add: ndigits_pos)
  have il: "ilog 2 (of_int n) = int k - 1"
    using assms(1) by (simp add: ilog_def k_def)
  define j where "j = 53 - k"
  have e: "max (int k - 1) (- 1022) - 52 = - int j" using k53 k1 by (simp add: j_def)
  have u: "pow2 (- int j) = 1 / 2 ^ j" by (cases "j = 0") (simp_all add: pow2_def)
  have q: "(of_int n :: rat) / (1 / 2 ^ j) = of_int (n * 2 ^ j)" by simp
  have r: "(of_int (n * 2 ^ j) :: rat) * (1 / 2 ^ j) = of_int n" by simp
  have small: "\<not> (1024 \<le> max (int k - 1) (- 1022) \<or> max (int k - 1) (- 1022) = 1023
                   \<and> n * 2 ^ j = 9007199254740992)"
    using k53 by simp
  have nz: "n * 2 ^ j \<noteq> 0" using assms(1) by simp
  have pos: "\<not> (of_int n :: rat) < 0" "(of_int n :: rat) \<noteq> 0" "\<bar>of_int n :: rat\<bar> = of_int n"
    using assms(1) by simp_all
  have "round_double (of_int n) = Fin (of_int (n * 2 ^ j) * (1 / 2 ^ j))"
    unfolding round_double_def Let_def pos il
    by (simp only: e u q round_half_even_int small nz pos if_False)
  then show ?thesis by (simp only: r)
qed

lemma round_double_nat: "n < 2 ^ 53 \<Longrightarrow> round_double (of_nat n) = Fin (of_nat n)"
proof (cases "n = 0")
  case True
  then show ?thesis by (simp add: round_double_def)
next
  case False
  assume "n < 2 ^ 53"
  then have "int n < 2 ^ 53" by (metis of_nat_less_iff of_nat_numeral of_nat_power)
  then have "round_double (of_int (int n)) = Fin (of_int (int n))"
    using False by (intro round_double_of_int) simp_all
  then show ?thesis by simp
qed

lemma parseInt_hex_pair:
  assumes "hex_digit c" and "hex_digit d"
  shows "parseInt_str [c, d] 16 = byte c d"
proof -
  have v: "digits_val 16 0 [c, d] = 16 * hex_value c + hex_value d"
    using hex_digit_val [OF assms(1)] hex_digit_val [OF assms(2)] by simp
  have b: "16 * hex_value c + hex_value d < 2 ^ 53"
    using hex_digit_val [OF assms(1)] hex_digit_val [OF assms(2)] by simp
  have t: "takeWhile (is_radix_digit 16) [c, d] = [c, d]"
    using hex_digit_val [OF assms(1)] hex_digit_val [OF assms(2)]
    by (simp add: is_radix_digit_def)
  have ts: "trimStart [c, d] = [c, d]"
    using hex_digit_plain [OF assms(1)] by (simp add: trimStart_def)
  have sw: "\<not> startsWith [c, d] ''0x''" "\<not> startsWith [c, d] ''0X''"
    using hex_digit_plain [OF assms(2)] by simp_all
  have sg: "c \<noteq> CHR ''-''" "c \<noteq> CHR ''+''" "d \<noteq> CHR ''x''" "d \<noteq> CHR ''X''"
    using hex_digit_plain [OF assms(1)] hex_digit_plain [OF assms(2)] by simp_all
  show ?thesis
    by (simp add: parseInt_str_def Let_def ts sw sg t v round_double_nat [OF b]
        apply_sign_def byte_def del: takeWhile.simps digits_val.simps of_nat_add of_nat_mult)
qed

lemma no_hash: "CHR ''#'' \<notin> set h \<Longrightarrow> indexOf_from i h ''#'' = None"
  by (induction h arbitrary: i) auto

lemma strip_hash:
  assumes "list_all hex_digit h" and "hex0 = h \<or> hex0 = CHR ''#'' # h"
  shows "replace_first_str ''#'' [] hex0 = h"
proof -
  have "CHR ''#'' \<notin> set h" using assms(1) hex_digit_plain by (auto simp: list_all_iff)
  then have n: "indexOf_from i h ''#'' = None" for i by (rule no_hash)
  show ?thesis using assms(2) by (auto simp: replace_first_str_def n)
qed

lemma len3: "length h = 3 \<Longrightarrow> \<exists>a b c. h = [a, b, c]"
  by (auto simp: length_Suc_conv numeral_3_eq_3)

lemma len6: "length h = 6 \<Longrightarrow> \<exists>a b c d e f. h = [a, b, c, d, e, f]"
  by (auto simp: length_Suc_conv eval_nat_numeral)

lemma len8: "length h = 8 \<Longrightarrow> \<exists>a b c d e f g i. h = [a, b, c, d, e, f, g, i]"
  by (auto simp: length_Suc_conv eval_nat_numeral)

text \<open>
  C4, amended. On a call that the cache does not answer: for a string of 3, 6 or 8
  hexadecimal digits, with or without a leading \<open>#\<close>, the decoder returns the record
  of the three bytes (each digit doubled for 3 digits); alpha is the alpha argument for
  3 and 6 digits and the fourth byte divided by 255 for 8. For every string that has
  another length once its first \<open>#\<close> is removed, it returns nothing. (Characters are
  not checked: a string of the right length with other characters is decoded too.)
\<close>

theorem hexToRgba_decodes:
  assumes "map_of (hexToRgbaCache st) (hex_cacheKey hex0 alpha) = None"
  shows "(list_all hex_digit h \<and> (hex0 = h \<or> hex0 = CHR ''#'' # h) \<longrightarrow>
            (length h = 3 \<longrightarrow> fst (hexToRgba (Str hex0) alpha st) =
               Some \<lparr>rgba_r = byte (h ! 0) (h ! 0), rgba_g = byte (h ! 1) (h ! 1),
                     rgba_b = byte (h ! 2) (h ! 2), rgba_a = alpha\<rparr>)
          \<and> (length h = 6 \<longrightarrow> fst (hexToRgba (Str hex0) alpha st) =
               Some \<lparr>rgba_r = byte (h ! 0) (h ! 1), rgba_g = byte (h ! 2) (h ! 3),
                     rgba_b = byte (h ! 4) (h ! 5), rgba_a = alpha\<rparr>)
          \<and> (length h = 8 \<longrightarrow> fst (hexToRgba (Str hex0) alpha st) =
               Some \<lparr>rgba_r = byte (h ! 0) (h ! 1), rgba_g = byte (h ! 2) (h ! 3),
                     rgba_b = byte (h ! 4) (h ! 5),
                     rgba_a = num_div (byte (h ! 6) (h ! 7)) (Fin 255)\<rparr>))
       \<and> (length (replace_first_str ''#'' [] hex0) \<notin> {3, 6, 8} \<longrightarrow>
            fst (hexToRgba (Str hex0) alpha st) = None)"
proof (intro conjI impI)
  assume "length (replace_first_str ''#'' [] hex0) \<notin> {3, 6, 8}"
  then show "fst (hexToRgba (Str hex0) alpha st) = None"
    using assms by (auto simp: hexToRgba_def Let_def)
next
  assume a: "list_all hex_digit h \<and> (hex0 = h \<or> hex0 = CHR ''#'' # h)" and l: "length h = 3"
  then have s: "replace_first_str ''#'' [] hex0 = h" by (simp add: strip_hash)
  obtain x y z where h: "h = [x, y, z]" using len3 [OF l] by blast
  have ne: "hex0 \<noteq> []" using a h by auto
  show "fst (hexToRgba (Str hex0) alpha st) =
          Some \<lparr>rgba_r = byte (h ! 0) (h ! 0), rgba_g = byte (h ! 1) (h ! 1),
                rgba_b = byte (h ! 2) (h ! 2), rgba_a = alpha\<rparr>"
    using a assms ne
    by (simp add: hexToRgba_def Let_def s) (simp add: h substring_def parseInt_hex_pair)
next
  assume a: "list_all hex_digit h \<and> (hex0 = h \<or> hex0 = CHR ''#'' # h)" and l: "length h = 6"
  then have s: "replace_first_str ''#'' [] hex0 = h" by (simp add: strip_hash)
  obtain x1 x2 x3 x4 x5 x6 where h: "h = [x1, x2, x3, x4, x5, x6]" using len6 [OF l] by blast
  have ne: "hex0 \<noteq> []" using a h by auto
  show "fst (hexToRgba (Str hex0) alpha st) =
          Some \<lparr>rgba_r = byte (h ! 0) (h ! 1), rgba_g = byte (h ! 2) (h ! 3),
                rgba_b = byte (h ! 4) (h ! 5), rgba_a = alpha\<rparr>"
    using a assms ne
    by (simp add: hexToRgba_def Let_def s) (simp add: h substring_def parseInt_hex_pair)
next
  assume a: "list_all hex_digit h \<and> (hex0 = h \<or> hex0 = CHR ''#'' # h)" and l: "length h = 8"
  then have s: "replace_first_str ''#'' [] hex0 = h" by (simp add: strip_hash)
  obtain x1 x2 x3 x4 x5 x6 x7 x8 where h: "h = [x1, x2, x3, x4, x5, x6, x7, x8]"
    using len8 [OF l] by blast
  have ne: "hex0 \<noteq> []" using a h by auto
  show "fst (hexToRgba (Str hex0) alpha st) =
          Some \<lparr>rgba_r = byte (h ! 0) (h ! 1), rgba_g = byte (h ! 2) (h ! 3),
                rgba_b = byte (h ! 4) (h ! 5),
                rgba_a = num_div (byte (h ! 6) (h ! 7)) (Fin 255)\<rparr>"
    using a assms ne
    by (simp add: hexToRgba_def Let_def s) (simp add: h substring_def parseInt_hex_pair)
qed

theorem hexToRgba_decodes_witness:
  "map_of (hexToRgbaCache initial_state) (hex_cacheKey ''#fff'' (Fin 1)) = None
   \<and> list_all hex_digit ''fff''
   \<and> fst (hexToRgba (Str ''#fff'') (Fin 1) initial_state)
       = Some \<lparr>rgba_r = Fin 255, rgba_g = Fin 255, rgba_b = Fin 255, rgba_a = Fin 1\<rparr>"
proof -
  have c: "map_of (hexToRgbaCache initial_state) (hex_cacheKey ''#fff'' (Fin 1)) = None"
    by (simp add: initial_state_def)
  have d: "list_all hex_digit ''fff''" by (simp add: hex_digit_def hex_table_def)
  have b: "byte CHR ''f'' CHR ''f'' = Fin 255" by (simp add: byte_def hex_value_def hex_table_def)
  from hexToRgba_decodes [OF c, of "''fff''"] d
  have "fst (hexToRgba (Str ''#fff'') (Fin 1) initial_state) =
          Some \<lparr>rgba_r = byte (''fff'' ! 0) (''fff'' ! 0), rgba_g = byte (''fff'' ! 1) (''fff'' ! 1),
                rgba_b = byte (''fff'' ! 2) (''fff'' ! 2), rgba_a = Fin 1\<rparr>"
    by simp
  then show ?thesis using c d b by simp
qed

theorem hexToRgba_non_hex_counterexample:
  "fst (hexToRgba (Str ''zzzzzz'') (Fin 1) initial_state)
     = Some \<lparr>rgba_r = NaN, rgba_g = NaN, rgba_b = NaN, rgba_a = Fin 1\<rparr>
   \<and> fst (hexToRgba (Str ''1g2h3i'') (Fin 1) initial_state)
     = Some \<lparr>rgba_r = Fin 1, rgba_g = Fin 2, rgba_b = Fin 3, rgba_a = Fin 1\<rparr>"
  by code_simp

subsection \<open>Expressions that throw\<close>

text \<open>
  C1. The claim is that evaluating an expression never raises. The code raises a
  \<open>TypeError\<close> on the empty expression (\<open>parts[0]\<close> is \<open>undefined\<close>, and
  \<open>value.startsWith\<close> throws) and on a \<open>replace\<close> filter without its argument
  (\<open>filterArg.match\<close> on \<open>undefined\<close>), whatever the state and the bindings.
\<close>

theorem evaluateLiquidExpression_throws:
  "evaluateLiquidExpression st [] vars c = (Inl TypeError, c)
   \<and> evaluateLiquidExpression st ''x | replace'' vars c = (Inl TypeError, c)"
  by code_simp

subsection \<open>A generic conditional\<close>

text \<open>
  C2. The claim is that \<open>{% if x > 5 %}A{% else %}B{% endif %}\<close> reduces to \<open>A\<close>.
  The reducer of settings conditions, which runs first, matches every \<open>if\<close> block; for a
  condition that names no setting it takes the \<open>else\<close> branch, so the transform yields
  \<open>B\<close>, whatever the settings. The step that keeps the \<open>then\<close> branch would yield
  \<open>A\<close> on the same text, but the block is gone when it runs.
\<close>

theorem liquidToCSS_generic_if:
  "fst (liquidToCSS ''{% if x > 5 %}A{% else %}B{% endif %}'' st) = Inr ''B''
   \<and> processConditionalBlocks st ''{% if x > 5 %}A{% else %}B{% endif %}'' c = (Inr ''B'', c)
   \<and> replace_all True REGEX_ifBlock (\<lambda>m. grp' m 1) ''{% if x > 5 %}A{% else %}B{% endif %}'' = ''A''"
  by code_simp

subsection \<open>\<open>remToPx\<close> and \<open>pxToRem\<close>\<close>

lemma dec_small: "n < 10 \<Longrightarrow> dec n = [digit_char n]"
  by (simp add: dec.simps)

lemma dec_big: "10 \<le> n \<Longrightarrow> dec n = dec (n div 10) @ [digit_char (n mod 10)]"
  by (subst dec.simps) simp

lemma dec_nonempty: "dec n \<noteq> []"
  by (subst dec.simps) simp

lemma digit_char_0: "digit_char 0 = CHR ''0''"
  by code_simp

lemma pad_left_snoc: "pad_left (Suc k) (w @ [c]) = pad_left k w @ [c]"
  by (simp add: pad_left_def)

lemma pad_left_dec_step:
  "pad_left (Suc (Suc f)) (dec n) = pad_left (Suc f) (dec (n div 10)) @ [digit_char (n mod 10)]"
proof (cases "n < 10")
  case True
  then show ?thesis
    by (simp add: dec_small pad_left_def digit_char_0 replicate_append_same)
next
  case False
  then show ?thesis by (simp add: dec_big pad_left_snoc)
qed

lemma pad_left_full: "pad_left (Suc 0) (dec n) = dec n"
  using dec_nonempty [of n] by (cases "dec n") (simp_all add: pad_left_def)

lemma pad_left_dec: "pad_left (Suc f) (dec n) = dec (n div 10 ^ f) @ frac_digits f n"
proof (induction f arbitrary: n)
  case 0
  show ?case by (simp add: pad_left_full)
next
  case (Suc f)
  have "(n div 10) div 10 ^ f = n div 10 ^ Suc f" by (simp add: div_mult2_eq)
  then show ?case by (simp add: pad_left_dec_step Suc.IH)
qed

lemma length_frac_digits: "length (frac_digits f n) = f"
  by (induction f arbitrary: n) simp_all

lemma fixed_digits_parts:
  "0 < f \<Longrightarrow> fixed_digits f x =
     dec (nat \<lfloor>x * 10 ^ f + 1 / 2\<rfloor> div 10 ^ f) @ CHR ''.'' # frac_digits f (nat \<lfloor>x * 10 ^ f + 1 / 2\<rfloor>)"
  by (simp add: fixed_digits_def Let_def pad_left_dec length_frac_digits)

lemma digit_char_code: "d < 10 \<Longrightarrow> (of_char (digit_char d) :: nat) = 48 + d"
  by (simp add: digit_char_def)

lemma digit_char_no_point: "d < 10 \<Longrightarrow> CHR ''.'' \<noteq> digit_char d"
proof
  assume "d < 10" and "CHR ''.'' = digit_char d"
  then have "(of_char (CHR ''.'') :: nat) = 48 + d" using digit_char_code [of d] by simp
  then show False by simp
qed

lemma dec_no_point: "CHR ''.'' \<notin> set (dec n)"
proof (induction n rule: dec.induct)
  case (1 n)
  show ?case
  proof (cases "n < 10")
    case True
    then show ?thesis by (simp add: dec_small digit_char_no_point)
  next
    case False
    then show ?thesis using 1 by (simp add: dec_big digit_char_no_point)
  qed
qed

lemma frac_digits_no_point: "CHR ''.'' \<notin> set (frac_digits f n)"
  by (induction f arbitrary: n) (simp_all add: digit_char_no_point)

lemma strip_zeros_Nil: "strip_zeros [] = []"
  by (simp add: strip_zeros_def)

lemma strip_zeros_Cons:
  "strip_zeros (x # xs) = (if list_all (\<lambda>c. c = CHR ''0'') (x # xs) then [] else x # strip_zeros xs)"
proof (cases "list_all (\<lambda>c. c = CHR ''0'') xs")
  case True
  then have "dropWhile (\<lambda>c. c = CHR ''0'') (rev xs) = []"
    by (simp add: list_all_iff)
  then show ?thesis using True
    by (simp add: strip_zeros_def dropWhile_append list_all_iff)
next
  case False
  then have "dropWhile (\<lambda>c. c = CHR ''0'') (rev xs) \<noteq> []"
    by (auto simp: list_all_iff)
  then show ?thesis using False
    by (auto simp: strip_zeros_def dropWhile_append list_all_iff)
qed

lemma strip_zeros_prefix: "take (length (strip_zeros w)) w = strip_zeros w"
  by (induction w) (simp_all add: strip_zeros_Nil strip_zeros_Cons)

lemma step1_Nil: "rest s = [] \<Longrightarrow> step1 P k s = None"
  by (simp add: step1_def)

lemma step1_Cons:
  "rest s = x # xs \<Longrightarrow>
   step1 P k s = (if P x then k (s\<lparr>pos := Suc (pos s), rest := xs\<rparr>) else None)"
  by (simp add: step1_def)

lemma rmatch_Chr: "rmatch False (Chr c) = step1 (\<lambda>x. x = c)"
  by (rule ext, rule ext) (simp add: same_char_def)

lemma rmatch_Eol: "rmatch False Eol Some = at_end"
  by (rule ext) (simp add: at_end_def)

lemma star_zeros:
  "length (rest s) \<le> n \<Longrightarrow>
   star_greedy n (step1 (\<lambda>x. x = CHR ''0'')) at_end s =
     (if list_all (\<lambda>c. c = CHR ''0'') (rest s)
      then Some (s\<lparr>pos := pos s + length (rest s), rest := []\<rparr>) else None)"
proof (induction n arbitrary: s)
  case 0
  then show ?case by (simp add: at_end_def)
next
  case (Suc n)
  show ?case
  proof (cases "rest s")
    case Nil
    then show ?thesis by (simp add: step1_Nil at_end_def)
  next
    case (Cons x xs)
    let ?s' = "s\<lparr>pos := Suc (pos s), rest := xs\<rparr>"
    have "length (rest ?s') \<le> n" using Suc.prems Cons by simp
    note IH = Suc.IH [OF this]
    show ?thesis using Cons
      by (simp add: step1_Cons [OF Cons] IH) (simp add: at_end_def)
  qed
qed

lemma match_at_trailing_zeros:
  "match_at False trailing_zeros p w =
     (if zeros_left w \<or> (\<exists>r. w = CHR ''.'' # r \<and> zeros_left r)
      then Some \<lparr>index = p, matched = w, groups = []\<rparr> else None)"
proof (cases w)
  case Nil
  then show ?thesis
    by (simp add: match_at_def trailing_zeros_def Opt_def Plus_def step1_def zeros_left_def)
next
  case (Cons x xs)
  show ?thesis
  proof (cases "x = CHR ''.''")
    case True
    then show ?thesis using Cons
      by (cases xs)
         (simp_all add: match_at_def trailing_zeros_def Opt_def Plus_def rmatch_Chr rmatch_Eol
            step1_Cons step1_Nil zeros_left_def star_zeros del: rmatch.simps(1) rmatch.simps(14))
  next
    case False
    then show ?thesis using Cons
      by (simp add: match_at_def trailing_zeros_def Opt_def Plus_def rmatch_Chr rmatch_Eol
            step1_Cons step1_Nil zeros_left_def star_zeros del: rmatch.simps(1) rmatch.simps(14))
  qed
qed

lemma exec_before_point:
  "CHR ''.'' \<notin> set pre \<Longrightarrow>
   exec_from False trailing_zeros p (pre @ CHR ''.'' # fp) =
     exec_from False trailing_zeros (p + length pre) (CHR ''.'' # fp)"
proof (induction pre arbitrary: p)
  case Nil
  show ?case by simp
next
  case (Cons c pre)
  have "\<not> zeros_left ((c # pre) @ CHR ''.'' # fp)" by (simp add: zeros_left_def)
  then have "match_at False trailing_zeros p ((c # pre) @ CHR ''.'' # fp) = None"
    using Cons.prems by (auto simp: match_at_trailing_zeros)
  then have "exec_from False trailing_zeros p ((c # pre) @ CHR ''.'' # fp) =
               exec_from False trailing_zeros (Suc p) (pre @ CHR ''.'' # fp)"
    by simp
  also have "\<dots> = exec_from False trailing_zeros (Suc p + length pre) (CHR ''.'' # fp)"
    using Cons.prems by (intro Cons.IH) simp
  finally show ?case by (simp del: exec_from.simps)
qed

lemma exec_in_fraction:
  "CHR ''.'' \<notin> set fp \<Longrightarrow>
   exec_from False trailing_zeros p fp =
     (if strip_zeros fp = fp then None
      else Some \<lparr>index = p + length (strip_zeros fp),
                matched = drop (length (strip_zeros fp)) fp, groups = []\<rparr>)"
proof (induction fp arbitrary: p)
  case Nil
  show ?case by (simp add: match_at_trailing_zeros zeros_left_def strip_zeros_Nil)
next
  case (Cons c fp)
  show ?case
  proof (cases "list_all (\<lambda>c. c = CHR ''0'') (c # fp)")
    case True
    then show ?thesis
      using Cons.prems by (simp add: match_at_trailing_zeros zeros_left_def strip_zeros_Cons)
  next
    case False
    then have "match_at False trailing_zeros p (c # fp) = None"
      using Cons.prems by (auto simp: match_at_trailing_zeros zeros_left_def)
    then show ?thesis
      using False Cons by (simp add: strip_zeros_Cons)
  qed
qed

lemma remove_trailing_zeros:
  assumes "CHR ''.'' \<notin> set pre" and "CHR ''.'' \<notin> set fp" and "fp \<noteq> []"
  shows "remove_first False trailing_zeros (pre @ CHR ''.'' # fp) =
           (if strip_zeros fp = [] then pre else pre @ CHR ''.'' # strip_zeros fp)"
proof (cases "list_all (\<lambda>c. c = CHR ''0'') fp")
  case True
  then have z: "strip_zeros fp = []"
    using assms(3) by (cases fp) (simp_all add: strip_zeros_Cons)
  have "match_at False trailing_zeros (length pre) (CHR ''.'' # fp) =
          Some \<lparr>index = length pre, matched = CHR ''.'' # fp, groups = []\<rparr>"
    using True assms(3) by (simp add: match_at_trailing_zeros zeros_left_def)
  then have "rx_match False trailing_zeros (pre @ CHR ''.'' # fp) =
          Some \<lparr>index = length pre, matched = CHR ''.'' # fp, groups = []\<rparr>"
    by (simp add: rx_match_def exec_before_point [OF assms(1)])
  then show ?thesis by (simp add: remove_first_def match_end_def z)
next
  case False
  then have nz: "strip_zeros fp \<noteq> []"
    using assms(3) by (cases fp) (simp_all add: strip_zeros_Cons)
  have "match_at False trailing_zeros (length pre) (CHR ''.'' # fp) = None"
    using False assms(2) by (auto simp: match_at_trailing_zeros zeros_left_def)
  then have e: "rx_match False trailing_zeros (pre @ CHR ''.'' # fp) =
          exec_from False trailing_zeros (Suc (length pre)) fp"
    by (simp add: rx_match_def exec_before_point [OF assms(1)])
  show ?thesis
  proof (cases "strip_zeros fp = fp")
    case True
    then show ?thesis using nz by (simp add: remove_first_def e exec_in_fraction [OF assms(2)])
  next
    case False
    have "length (strip_zeros fp) \<le> length fp"
      using length_dropWhile_le [of "\<lambda>c. c = CHR ''0''" "rev fp"] by (simp add: strip_zeros_def)
    then show ?thesis using False nz
      by (simp add: remove_first_def e exec_in_fraction [OF assms(2)] match_end_def
            strip_zeros_prefix)
  qed
qed

lemma toFixed_trimmed:
  assumes "0 < f" and "\<bar>x\<bar> < 10 ^ 21"
  shows "remove_first False trailing_zeros (toFixed (Fin x) f) = rounded_text f x"
proof -
  let ?n = "nat \<lfloor>\<bar>x\<bar> * 10 ^ f + 1 / 2\<rfloor>"
  let ?pre = "(if x < 0 then ''-'' else []) @ dec (?n div 10 ^ f)"
  have small: "\<not> 1000000000000000000000 \<le> \<bar>x\<bar>" using assms(2) by simp
  have t: "toFixed (Fin x) f = ?pre @ CHR ''.'' # frac_digits f ?n"
    using small assms(1) by (simp add: fixed_digits_parts abs_if)
  have p: "CHR ''.'' \<notin> set ?pre" using dec_no_point by simp
  have n: "frac_digits f ?n \<noteq> []"
    using assms(1) length_frac_digits [of f ?n] by (cases "frac_digits f ?n") simp_all
  show ?thesis
    unfolding t remove_trailing_zeros [OF p frac_digits_no_point n]
    by (simp add: rounded_text_def decimal_text_def Let_def)
qed

text \<open>
  C8, amended. Both conversions return nothing exactly when \<open>parseFloat\<close> of the input is
  \<open>NaN\<close>. Otherwise, when the product \<open>x\<close> of the parsed number and the base (for
  \<open>pxToRem\<close> the quotient \<open>y\<close>) is finite and below \<open>10 ^ 21\<close> in magnitude, the result
  is \<open>x\<close> rounded to the nearest multiple of 0.01 (of 0.0001 for \<open>pxToRem\<close>), a tie going
  away from zero, written with the zeros at the end of its fraction trimmed, and the point
  too when no fraction is left. The number is rounded, not truncated.
\<close>

theorem conversions_round:
  "(remToPx v b = None \<longleftrightarrow> parseFloat v = NaN)
   \<and> (pxToRem v b = None \<longleftrightarrow> parseFloat v = NaN)
   \<and> (parseFloat v \<noteq> NaN \<and> num_mul (parseFloat v) b = Fin x \<and> \<bar>x\<bar> < 10 ^ 21
        \<longrightarrow> remToPx v b = Some (rounded_text 2 x))
   \<and> (parseFloat v \<noteq> NaN \<and> num_div (parseFloat v) b = Fin y \<and> \<bar>y\<bar> < 10 ^ 21
        \<longrightarrow> pxToRem v b = Some (rounded_text 4 y))"
  by (simp add: remToPx_def pxToRem_def Let_def isNaN_def toFixed_trimmed del: toFixed.simps)

theorem conversions_truncate_counterexample:
  "remToPx (Str ''0.3125'') (Fin 10) = Some ''3.13''
   \<and> num_mul (parseFloat (Str ''0.3125'')) (Fin 10) = Fin (25 / 8)
   \<and> truncated_text 2 (25 / 8) = ''3.12''
   \<and> pxToRem (Str ''0.75'') (Fin 16) = Some ''0.0469''
   \<and> num_div (parseFloat (Str ''0.75'')) (Fin 16) = Fin (3 / 64)
   \<and> truncated_text 4 (3 / 64) = ''0.0468''"
  by code_simp

theorem conversions_round_witness:
  "parseFloat (Str ''abc'') = NaN
   \<and> remToPx (Str ''abc'') (Fin 16) = None \<and> pxToRem (Str ''abc'') (Fin 16) = None
   \<and> parseFloat (Str ''1.5'') \<noteq> NaN
   \<and> num_mul (parseFloat (Str ''1.5'')) (Fin 16) = Fin 24
   \<and> num_div (parseFloat (Str ''1.5'')) (Fin 16) = Fin (3 / 32)
   \<and> remToPx (Str ''1.5'') (Fin 16) = Some ''24''
   \<and> pxToRem (Str ''1.5'') (Fin 16) = Some ''0.0938''"
proof -
  have a: "parseFloat (Str ''abc'') = NaN" by code_simp
  have b: "parseFloat (Str ''1.5'') \<noteq> NaN" by code_simp
  have c: "num_mul (parseFloat (Str ''1.5'')) (Fin 16) = Fin 24" by code_simp
  have d: "num_div (parseFloat (Str ''1.5'')) (Fin 16) = Fin (3 / 32)" by code_simp
  have e: "rounded_text 2 24 = ''24''" by code_simp
  have f: "rounded_text 4 (3 / 32) = ''0.0938''" by code_simp
  from conversions_round [of "Str ''abc''" "Fin 16" 0 0]
       conversions_round [of "Str ''1.5''" "Fin 16" 24 "3 / 32"]
  show ?thesis using a b c d e f by simp
qed

subsection \<open>\<open>evaluateLiquidCondition\<close>\<close>

lemma rest_same: "rest s = w \<Longrightarrow> s\<lparr>rest := w\<rparr> = s"
  by auto

lemma to_end_Nil: "rest s = [] \<Longrightarrow> to_end s = s"
  by (simp add: to_end_def rest_same)

lemma rmatch_Dot: "rmatch ic Dot = step1 (\<lambda>x. \<not> is_line_terminator x)"
  by (rule ext, rule ext) simp

lemma rmatch_space: "rmatch ic (In [CSpace]) = step1 is_space"
  by (rule ext, rule ext) simp

text \<open>A greedy loop whose continuation accepts the end of the run.\<close>

lemma star_greedy_all:
  "length (rest s) \<le> n \<Longrightarrow> list_all P (rest s) \<Longrightarrow> k (to_end s) = Some r \<Longrightarrow>
   star_greedy n (step1 P) k s = Some r"
proof (induction n arbitrary: s)
  case 0
  then show ?case by (simp add: to_end_Nil)
next
  case (Suc n)
  show ?case
  proof (cases "rest s")
    case Nil
    then show ?thesis using Suc.prems(3) by (simp add: step1_Nil to_end_Nil)
  next
    case (Cons x xs)
    let ?s' = "s\<lparr>pos := Suc (pos s), rest := xs\<rparr>"
    have e: "to_end ?s' = to_end s" using Cons by (simp add: to_end_def)
    have "star_greedy n (step1 P) k ?s' = Some r"
      using Suc.prems Cons by (intro Suc.IH) (simp_all add: e)
    then show ?thesis using Cons Suc.prems(2) by (simp add: step1_Cons [OF Cons])
  qed
qed

text \<open>A greedy loop whose continuation refuses a text that starts with a character of
  the loop: nothing is given back.\<close>

lemma star_greedy_skip:
  assumes "\<And>s'. rest s' \<noteq> [] \<Longrightarrow> P (hd (rest s')) \<Longrightarrow> k s' = None"
  shows "length (rest s) \<le> n \<Longrightarrow> star_greedy n (step1 P) k s = k (skip_run P s)"
proof (induction n arbitrary: s)
  case 0
  then show ?case by (simp add: skip_run_def rest_same)
next
  case (Suc n)
  show ?case
  proof (cases "rest s")
    case Nil
    then show ?thesis by (simp add: step1_Nil skip_run_def rest_same)
  next
    case (Cons x xs)
    let ?s' = "s\<lparr>pos := Suc (pos s), rest := xs\<rparr>"
    show ?thesis
    proof (cases "P x")
      case True
      have e: "skip_run P ?s' = skip_run P s" using Cons True by (simp add: skip_run_def)
      have i: "star_greedy n (step1 P) k ?s' = k (skip_run P s)"
        using Suc.prems Cons Suc.IH [of ?s'] by (simp add: e)
      have "k s = None" using assms [of s] Cons True by simp
      then show ?thesis using Cons True i
        by (cases "k (skip_run P s)") (simp_all add: step1_Cons [OF Cons])
    next
      case False
      then show ?thesis using Cons by (simp add: step1_Cons [OF Cons] skip_run_def rest_same)
    qed
  qed
qed

text \<open>The third group and the end of the pattern, \<open>(.+)\<close>.\<close>

lemma last_group:
  assumes "no_terminator (rest s)"
  shows "last_part s =
           (if rest s = [] then None
            else Some ((to_end s)\<lparr>caps := (3, rest s) # caps s\<rparr>))"
proof (cases "rest s")
  case Nil
  then show ?thesis by (simp add: last_part_def Plus_def step1_Nil)
next
  case (Cons x xs)
  let ?s' = "s\<lparr>pos := Suc (pos s), rest := xs\<rparr>"
  let ?k = "\<lambda>s'. Some (s'\<lparr>caps := (3, take (pos s' - pos s) (rest s)) # caps s'\<rparr>)"
  have "star_greedy (length (rest ?s')) (step1 (\<lambda>x. \<not> is_line_terminator x)) ?k ?s' =
          Some ((to_end s)\<lparr>caps := (3, rest s) # caps s\<rparr>)"
    using assms Cons by (intro star_greedy_all) (simp_all add: no_terminator_def to_end_def)
  then show ?thesis using assms Cons
    by (simp add: last_part_def Plus_def rmatch_Dot step1_Cons [OF Cons] no_terminator_def
          del: rmatch.simps(2))
qed

text \<open>The white space before the third group, \<open>\\s*(.+)\<close>.\<close>

lemma group3_Cons_space:
  "is_space x \<Longrightarrow> xs \<noteq> [] \<Longrightarrow> group3 (x # xs) = group3 xs"
  by (simp add: group3_def)

lemma group3_single: "is_space x \<Longrightarrow> group3 [x] = [x]"
  by (simp add: group3_def)

lemma group3_Cons_other: "\<not> is_space x \<Longrightarrow> group3 (x # xs) = x # xs"
  by (simp add: group3_def)

lemma right_operand:
  "length (rest s) \<le> n \<Longrightarrow> no_terminator (rest s) \<Longrightarrow>
   star_greedy n (step1 is_space) last_part s =
     (if rest s = [] then None
      else Some ((to_end s)\<lparr>caps := (3, group3 (rest s)) # caps s\<rparr>))"
proof (induction n arbitrary: s)
  case 0
  then show ?case using last_group [of s] by simp
next
  case (Suc n)
  show ?case
  proof (cases "rest s")
    case Nil
    then show ?thesis using Suc.prems last_group [of s] by (simp add: step1_Nil)
  next
    case (Cons x xs)
    let ?s' = "s\<lparr>pos := Suc (pos s), rest := xs\<rparr>"
    have t: "no_terminator xs" using Suc.prems(2) Cons by (simp add: no_terminator_def)
    have IH: "star_greedy n (step1 is_space) last_part ?s' =
          (if xs = [] then None
           else Some ((to_end ?s')\<lparr>caps := (3, group3 xs) # caps s\<rparr>))"
      using Suc.IH [of ?s'] Suc.prems(1) Cons t by simp
    have e: "to_end ?s' = to_end s" using Cons by (simp add: to_end_def)
    have here: "last_part s = Some ((to_end s)\<lparr>caps := (3, x # xs) # caps s\<rparr>)"
      using last_group [OF Suc.prems(2)] Cons by simp
    show ?thesis
    proof (cases "is_space x")
      case True
      show ?thesis
      proof (cases "xs = []")
        case True
        with \<open>is_space x\<close> show ?thesis using Cons IH here
          by (simp add: step1_Cons [OF Cons] group3_single)
      next
        case False
        with \<open>is_space x\<close> show ?thesis using Cons IH
          by (simp add: step1_Cons [OF Cons] group3_Cons_space e)
      qed
    next
      case False
      then show ?thesis using Cons here
        by (simp add: step1_Cons [OF Cons] group3_Cons_other)
    qed
  qed
qed

lemma right_part_eq:
  "no_terminator (rest s) \<Longrightarrow>
   right_part s =
     (if rest s = [] then None
      else Some ((to_end s)\<lparr>caps := (3, group3 (rest s)) # caps s\<rparr>))"
  by (simp add: right_part_def ws_def rmatch_space right_operand del: rmatch.simps(3))

text \<open>The operator, \<open>(>=|<=|>|<|==)\<close>, and what follows it.\<close>

lemma no_terminator_Cons: "no_terminator (x # xs) \<Longrightarrow> no_terminator xs"
  by (simp add: no_terminator_def)

lemma op_part_eq:
  assumes "no_terminator (rest s)"
  shows "op_part s =
     (case operator_at operators (rest s) of
        None \<Rightarrow> None
      | Some (op, t) \<Rightarrow> Some ((to_end s)\<lparr>caps := (3, group3 t) # (2, op) # caps s\<rparr>))"
proof (cases "rest s")
  case Nil
  then show ?thesis
    by (simp add: op_part_def lit_def step1_Nil operators_def)
next
  case (Cons a r1)
  note A = Cons
  have t1: "no_terminator r1" using assms A by (simp add: no_terminator_def)
  show ?thesis
  proof (cases r1)
    case Nil
    then show ?thesis using A
      by (simp add: op_part_def lit_def step1_def same_char_def operators_def
            right_part_eq no_terminator_def)
  next
    case (Cons b r2)
    have t2: "no_terminator r2" using t1 Cons by (simp add: no_terminator_def)
    show ?thesis using A Cons t1 t2
      by (simp add: op_part_def lit_def step1_def same_char_def operators_def
            right_part_eq to_end_def no_terminator_def is_line_terminator_def)
  qed
qed

text \<open>The white space before the operator: an operator does not start with white
  space, so the loop gives nothing back.\<close>

lemma op_part_space:
  assumes "rest s \<noteq> []" and "is_space (hd (rest s))"
  shows "op_part s = None"
proof -
  obtain x xs where r: "rest s = x # xs" using assms(1) by (cases "rest s") auto
  have "x \<noteq> CHR ''>''" "x \<noteq> CHR ''<''" "x \<noteq> CHR ''=''"
    using assms(2) r by (auto simp: is_space_def code_def)
  then show ?thesis using r
    by (simp add: op_part_def lit_def step1_def same_char_def)
qed

lemma no_terminator_dropWhile: "no_terminator w \<Longrightarrow> no_terminator (dropWhile P w)"
  by (induction w) (simp_all add: no_terminator_def)

lemma tail_part_eq:
  assumes "no_terminator (rest s)"
  shows "tail_part s =
     (case operator_at operators (dropWhile is_space (rest s)) of
        None \<Rightarrow> None
      | Some (op, t) \<Rightarrow> Some ((to_end s)\<lparr>caps := (3, group3 t) # (2, op) # caps s\<rparr>))"
proof -
  have "tail_part s = op_part (skip_run is_space s)"
    using star_greedy_skip [of is_space op_part s "length (rest s)"] op_part_space
    by (simp add: tail_part_def ws_def rmatch_space del: rmatch.simps(3))
  moreover have "no_terminator (rest (skip_run is_space s))"
    using assms by (simp add: skip_run_def no_terminator_dropWhile)
  moreover have "to_end (skip_run is_space s) = to_end s"
    using takeWhile_dropWhile_id [of is_space "rest s"]
    by (simp add: to_end_def skip_run_def)
       (metis add.assoc length_append takeWhile_dropWhile_id)
  moreover have "caps (skip_run is_space s) = caps s" "rest (skip_run is_space s) = dropWhile is_space (rest s)"
    by (simp_all add: skip_run_def)
  ultimately show ?thesis by (simp add: op_part_eq split: option.splits)
qed

text \<open>The first group, \<open>(.+?)\<close>: the shortest text after which the rest of the pattern
  matches.\<close>

lemma operator_at_Nil: "operator_at ops [] = None"
  by (induction ops) simp_all

lemma lazy_left:
  "rest s0 = left @ rest s \<Longrightarrow> pos s = pos s0 + length left \<Longrightarrow>
   no_terminator (rest s) \<Longrightarrow> length (rest s) \<le> n \<Longrightarrow>
   star_lazy n (step1 (\<lambda>x. \<not> is_line_terminator x))
     (\<lambda>s'. tail_part (s'\<lparr>caps := (1, take (pos s' - pos s0) (rest s0)) # caps s'\<rparr>)) s =
     (case split_after left (rest s) of
        None \<Rightarrow> None
      | Some (l, op, t) \<Rightarrow>
          Some ((to_end s)\<lparr>caps := (3, group3 t) # (2, op) # (1, l) # caps s\<rparr>))"
proof (induction n arbitrary: s left)
  case 0
  then show ?case by (simp add: tail_part_eq operator_at_Nil)
next
  case (Suc n)
  let ?k = "\<lambda>s'. tail_part (s'\<lparr>caps := (1, take (pos s' - pos s0) (rest s0)) # caps s'\<rparr>)"
  have here: "?k s =
     (case operator_at operators (dropWhile is_space (rest s)) of
        None \<Rightarrow> None
      | Some (op, t) \<Rightarrow> Some ((to_end s)\<lparr>caps := (3, group3 t) # (2, op) # (1, left) # caps s\<rparr>))"
    using Suc.prems by (simp add: tail_part_eq to_end_def split: option.splits)
  show ?case
  proof (cases "rest s")
    case Nil
    then show ?thesis using here by (simp add: step1_Nil operator_at_Nil)
  next
    case (Cons x xs)
    let ?s' = "s\<lparr>pos := Suc (pos s), rest := xs\<rparr>"
    have x: "\<not> is_line_terminator x" and t: "no_terminator xs"
      using Suc.prems(3) Cons by (simp_all add: no_terminator_def)
    have IH0: "star_lazy n (step1 (\<lambda>x. \<not> is_line_terminator x)) ?k ?s' =
      (case split_after (left @ [x]) (rest ?s') of
         None \<Rightarrow> None
       | Some (l, op, t) \<Rightarrow>
           Some ((to_end ?s')\<lparr>caps := (3, group3 t) # (2, op) # (1, l) # caps ?s'\<rparr>))"
      by (rule Suc.IH) (use Suc.prems Cons t in simp_all)
    have e: "to_end ?s' = to_end s" using Cons by (simp add: to_end_def)
    have c: "caps ?s' = caps s" "rest ?s' = xs" by simp_all
    note IH = IH0 [unfolded e c]
    show ?thesis
    proof (cases "operator_at operators (dropWhile is_space (rest s))")
      case None
      then show ?thesis using here IH Cons x
        by (simp add: step1_Cons [OF Cons] del: dropWhile.simps)
    next
      case (Some r)
      then show ?thesis using here Cons
        by (cases r) (simp del: dropWhile.simps)
    qed
  qed
qed

text \<open>The whole pattern at one position, and the search for the position.\<close>

lemma rmatch_Cat: "rmatch ic (Cat a b) k = rmatch ic a (rmatch ic b k)"
  by (rule ext) simp

lemma comparison_rx_parts:
  "rmatch False comparison_rx Some = rmatch False (Grp 1 (LPlus Dot)) tail_part"
  by (simp only: comparison_rx_def seq.simps rmatch_Cat tail_part_def op_part_def
        right_part_def last_part_def)

lemma match_at_comparison:
  assumes "no_terminator cond"
  shows "match_at False comparison_rx p cond =
     (case split_comparison cond of
        None \<Rightarrow> None
      | Some (l, op, t) \<Rightarrow>
          Some \<lparr>index = p, matched = cond, groups = [(3, group3 t), (2, op), (1, l)]\<rparr>)"
proof (cases cond)
  case Nil
  then show ?thesis
    by (simp add: match_at_def comparison_rx_parts LPlus_def step1_def split_comparison_def)
next
  case (Cons x xs)
  let ?s0 = "\<lparr>pos = p, rest = cond, caps = []\<rparr>"
  let ?s1 = "\<lparr>pos = Suc p, rest = xs, caps = []\<rparr>"
  let ?k = "\<lambda>s'. tail_part (s'\<lparr>caps := (1, take (pos s' - pos ?s0) (rest ?s0)) # caps s'\<rparr>)"
  have x: "\<not> is_line_terminator x" and t: "no_terminator xs"
    using assms Cons by (simp_all add: no_terminator_def)
  have L: "star_lazy (length (rest ?s1)) (step1 (\<lambda>x. \<not> is_line_terminator x)) ?k ?s1 =
     (case split_after [x] (rest ?s1) of
        None \<Rightarrow> None
      | Some (l, op, t) \<Rightarrow>
          Some ((to_end ?s1)\<lparr>caps := (3, group3 t) # (2, op) # (1, l) # caps ?s1\<rparr>))"
    by (rule lazy_left) (use Cons t in simp_all)
  have "rmatch False comparison_rx Some ?s0 =
          star_lazy (length (rest ?s1)) (step1 (\<lambda>x. \<not> is_line_terminator x)) ?k ?s1"
    using Cons x
    by (simp add: comparison_rx_parts LPlus_def rmatch_Dot step1_def del: rmatch.simps(2))
  then show ?thesis using L Cons
    by (simp add: match_at_def split_comparison_def to_end_def split: option.splits)
qed

lemma split_after_None: "split_after l r = None \<Longrightarrow> split_after l' r = None"
  by (induction r arbitrary: l l') (auto split: option.splits simp del: dropWhile.simps)

lemma exec_none:
  "no_terminator r \<Longrightarrow> split_after l r = None \<Longrightarrow>
   exec_from False comparison_rx p r = None"
proof (induction r arbitrary: l p)
  case Nil
  then show ?case by (simp add: match_at_comparison split_comparison_def)
next
  case (Cons y ys)
  have a: "split_after (l @ [y]) ys = None"
    using Cons.prems(2) by (auto split: option.splits simp del: dropWhile.simps)
  then have "split_after [y] ys = None" by (rule split_after_None)
  then have "match_at False comparison_rx p (y # ys) = None"
    using Cons.prems(1) by (simp add: match_at_comparison split_comparison_def)
  moreover have "exec_from False comparison_rx (Suc p) ys = None"
    using Cons.prems(1) a by (intro Cons.IH) (simp_all add: no_terminator_def)
  ultimately show ?case by simp
qed

lemma rx_match_comparison:
  assumes "no_terminator cond"
  shows "rx_match False comparison_rx cond =
     (case split_comparison cond of
        None \<Rightarrow> None
      | Some (l, op, t) \<Rightarrow>
          Some \<lparr>index = 0, matched = cond, groups = [(3, group3 t), (2, op), (1, l)]\<rparr>)"
proof (cases cond)
  case Nil
  then show ?thesis using match_at_comparison [OF assms, of 0] by (simp add: rx_match_def)
next
  case (Cons x xs)
  show ?thesis
  proof (cases "split_comparison cond")
    case None
    then have "split_after [x] xs = None" using Cons by (simp add: split_comparison_def)
    then have "exec_from False comparison_rx (Suc 0) xs = None"
      using assms Cons by (intro exec_none) (simp_all add: no_terminator_def)
    then show ?thesis
      using None Cons match_at_comparison [OF assms, of 0] by (simp add: rx_match_def)
  next
    case (Some r)
    then show ?thesis
      using Cons match_at_comparison [OF assms, of 0] by (cases r) (simp add: rx_match_def)
  qed
qed

lemma trim_group3:
  assumes "t \<noteq> []"
  shows "trim (group3 t) = trim t"
proof (cases "dropWhile is_space t = []")
  case True
  then have a: "\<forall>c \<in> set t. is_space c" by (simp add: dropWhile_eq_Nil_conv)
  then have "is_space (last t)" using assms by simp
  then have "trim [last t] = []" by (simp add: trim_def)
  moreover have "group3 t = [last t]" unfolding group3_def True by simp
  moreover have "trim t = []" unfolding trim_def True by simp
  ultimately show ?thesis by simp
next
  case False
  have "group3 t = dropWhile is_space t" unfolding group3_def using False by (simp only: if_False)
  then show ?thesis by (simp add: trim_def)
qed

lemma operator_at_rest: "operator_at ops r = Some (op, t) \<Longrightarrow> t \<noteq> []"
  by (induction ops) (auto split: if_splits)

lemma split_after_rest: "split_after left r = Some (l, op, t) \<Longrightarrow> t \<noteq> []"
proof (induction r arbitrary: left)
  case Nil
  then show ?case by simp
next
  case (Cons x xs)
  show ?case
  proof (cases "operator_at operators (dropWhile is_space (x # xs))")
    case None
    then show ?thesis using Cons by (simp del: dropWhile.simps)
  next
    case (Some r)
    then show ?thesis using Cons.prems operator_at_rest [of operators _ op t]
      by (cases r) (auto simp del: dropWhile.simps)
  qed
qed

lemma split_comparison_rest: "split_comparison cond = Some (l, op, t) \<Longrightarrow> t \<noteq> []"
  by (cases cond) (auto simp: split_comparison_def dest: split_after_rest)

text \<open>The pieces of \<open>split\<close> when the separator occurs.\<close>

lemma split_at_nonempty: "split_at sep cur xs k \<noteq> []"
  by (induction sep cur xs k rule: split_at.induct) auto

lemma split_at_two:
  "indexOf_from i xs sep \<noteq> None \<Longrightarrow> sep \<noteq> [] \<Longrightarrow> 2 \<le> length (split_at sep cur xs 0)"
proof (induction xs arbitrary: i cur)
  case Nil
  then show ?case by simp
next
  case (Cons x xs)
  show ?case
  proof (cases "startsWith (x # xs) sep")
    case True
    then show ?thesis using split_at_nonempty [of sep "[]" xs "length sep - 1"]
      by (cases "split_at sep [] xs (length sep - 1)") simp_all
  next
    case False
    then show ?thesis using Cons by simp
  qed
qed

lemma split_two: "str_includes w sep \<Longrightarrow> sep \<noteq> [] \<Longrightarrow> 2 \<le> length (split w sep)"
  by (simp add: str_includes_def split_def split_at_two)

lemma truthy_falsy: "truthy v \<longleftrightarrow> v \<notin> set falsy_values"
proof (cases v)
  case (Num a)
  then show ?thesis
    by (cases a) (auto simp: falsy_values_def isNaN_def is_zero_def)
qed (auto simp: falsy_values_def)

text \<open>
  C7, amended. For a condition without line terminators: if it contains \<open> contains \<close>
  the result is the substring test on the texts of the two evaluated pieces. Otherwise,
  if \<open>split_comparison\<close> cuts it, the left part and what follows the operator are
  evaluated, in this order, an error of either is the error of the condition, and the
  result is the comparison of the two values: of their \<open>parseFloat\<close>s for an ordering
  operator, loose equality for \<open>==\<close> (two objects apart). Otherwise the result is the
  truthiness of the evaluated condition: \<open>undefined\<close>, \<open>null\<close>, \<open>false\<close>, the empty
  string, \<open>0\<close>, \<open>-0\<close> and \<open>NaN\<close> are falsy, every other value is truthy. An operator
  with nothing before it, or nothing after it, does not cut the condition.
\<close>

theorem evaluateLiquidCondition_cases:
  assumes "no_terminator cond"
  shows
   "(str_includes cond '' contains '' \<longrightarrow>
       evaluateLiquidCondition st cond vars =
         bindE (evaluateLiquidExpression st (trim (split cond '' contains '' ! 0)) vars) (\<lambda>lv.
         bindE (evaluateLiquidExpression st (trim (split cond '' contains '' ! 1)) vars) (\<lambda>rv.
           returns (str_includes (toStr lv) (toStr rv)))))
    \<and> (\<not> str_includes cond '' contains '' \<and> split_comparison cond = None \<longrightarrow>
       evaluateLiquidCondition st cond vars =
         bindE (evaluateLiquidExpression st cond vars) (\<lambda>v. returns (v \<notin> set falsy_values)))
    \<and> (\<not> str_includes cond '' contains '' \<and> split_comparison cond = Some (l, op, t) \<longrightarrow>
         (evaluateLiquidExpression st (trim l) vars c = (Inl e, c1) \<longrightarrow>
            evaluateLiquidCondition st cond vars c = (Inl e, c1))
       \<and> (evaluateLiquidExpression st (trim l) vars c = (Inr lv, c1)
            \<and> evaluateLiquidExpression st (trim t) vars c1 = (Inl e, c2) \<longrightarrow>
            evaluateLiquidCondition st cond vars c = (Inl e, c2))
       \<and> (evaluateLiquidExpression st (trim l) vars c = (Inr lv, c1)
            \<and> evaluateLiquidExpression st (trim t) vars c1 = (Inr rv, c2)
            \<and> compare_values op lv rv = Some b \<longrightarrow>
            evaluateLiquidCondition st cond vars c = (Inr b, c2)))"
proof (intro conjI impI)
  assume c: "str_includes cond '' contains ''"
  have "2 \<le> length (split cond '' contains '')" using c by (intro split_two) simp_all
  then have "map trim (split cond '' contains '') ! 0 = trim (split cond '' contains '' ! 0)"
    "map trim (split cond '' contains '') ! 1 = trim (split cond '' contains '' ! 1)"
    by (simp_all only: nth_map [where f = trim] flip: One_nat_def)
  then show "evaluateLiquidCondition st cond vars =
         bindE (evaluateLiquidExpression st (trim (split cond '' contains '' ! 0)) vars) (\<lambda>lv.
         bindE (evaluateLiquidExpression st (trim (split cond '' contains '' ! 1)) vars) (\<lambda>rv.
           returns (str_includes (toStr lv) (toStr rv))))"
    using c by (simp add: evaluateLiquidCondition_def Let_def)
next
  assume "\<not> str_includes cond '' contains '' \<and> split_comparison cond = None"
  then show "evaluateLiquidCondition st cond vars =
         bindE (evaluateLiquidExpression st cond vars) (\<lambda>v. returns (v \<notin> set falsy_values))"
    by (simp add: evaluateLiquidCondition_def rx_match_comparison [OF assms] truthy_falsy)
next
  assume a: "\<not> str_includes cond '' contains '' \<and> split_comparison cond = Some (l, op, t)"
  then have t: "trim (group3 t) = trim t" using split_comparison_rest trim_group3 by blast
  have m: "evaluateLiquidCondition st cond vars =
     bindE (evaluateLiquidExpression st (trim l) vars) (\<lambda>leftVal.
     bindE (evaluateLiquidExpression st (trim t) vars) (\<lambda>rightVal.
       returns (if op = ''>='' then num_le (parseFloat rightVal) (parseFloat leftVal)
            else if op = ''<='' then num_le (parseFloat leftVal) (parseFloat rightVal)
            else if op = ''>'' then num_less (parseFloat rightVal) (parseFloat leftVal)
            else if op = ''<'' then num_less (parseFloat leftVal) (parseFloat rightVal)
            else loose_eq leftVal rightVal)))"
    using a by (simp add: evaluateLiquidCondition_def rx_match_comparison [OF assms] Let_def
        grp'_def grp_def t)
  {
    assume "evaluateLiquidExpression st (trim l) vars c = (Inl e, c1)"
    then show "evaluateLiquidCondition st cond vars c = (Inl e, c1)"
      by (simp add: m bindE_def)
  next
    assume "evaluateLiquidExpression st (trim l) vars c = (Inr lv, c1)
            \<and> evaluateLiquidExpression st (trim t) vars c1 = (Inl e, c2)"
    then show "evaluateLiquidCondition st cond vars c = (Inl e, c2)"
      by (simp add: m bindE_def)
  next
    assume "evaluateLiquidExpression st (trim l) vars c = (Inr lv, c1)
            \<and> evaluateLiquidExpression st (trim t) vars c1 = (Inr rv, c2)
            \<and> compare_values op lv rv = Some b"
    then show "evaluateLiquidCondition st cond vars c = (Inr b, c2)"
      by (auto simp: m bindE_def returns_def compare_values_def split: if_splits)
  }
qed

text \<open>
  The claim has every condition with an operator compared. \<open>> 5\<close> and \<open>7 >\<close> contain
  \<open>>\<close> and are not cut: each is evaluated as a whole, to its own text, which is truthy,
  while a comparison with the missing operand would be false.
\<close>

theorem evaluateLiquidCondition_counterexample:
  "str_includes ''> 5'' ''>'' \<and> \<not> str_includes ''> 5'' '' contains ''
   \<and> split_comparison ''> 5'' = None
   \<and> rx_match False comparison_rx ''> 5'' = None
   \<and> evaluateLiquidExpression initial_state ''> 5'' (\<lambda>n. Undefined) [] = (Inr (Str ''> 5''), [])
   \<and> evaluateLiquidCondition initial_state ''> 5'' (\<lambda>n. Undefined) [] = (Inr True, [])
   \<and> str_includes ''7 >'' ''>''
   \<and> rx_match False comparison_rx ''7 >'' = None
   \<and> evaluateLiquidCondition initial_state ''7 >'' (\<lambda>n. Undefined) [] = (Inr True, [])
   \<and> compare_values ''>'' (Str ''7'') (Str []) = Some False"
  by code_simp

theorem evaluateLiquidCondition_cases_witness:
  "no_terminator ''x contains b'' \<and> str_includes ''x contains b'' '' contains ''
   \<and> evaluateLiquidCondition initial_state ''x contains b''
         ((\<lambda>n. Undefined)(''x'' := Str ''abc'')) [] = (Inr True, [])
   \<and> no_terminator ''x'' \<and> \<not> str_includes ''x'' '' contains '' \<and> split_comparison ''x'' = None
   \<and> evaluateLiquidCondition initial_state ''x'' ((\<lambda>n. Undefined)(''x'' := Num (Fin 0))) []
       = (Inr False, [])
   \<and> no_terminator ''5 > 3'' \<and> \<not> str_includes ''5 > 3'' '' contains ''
   \<and> split_comparison ''5 > 3'' = Some (''5'', ''>'', '' 3'')
   \<and> evaluateLiquidCondition initial_state ''5 > 3'' (\<lambda>n. Undefined) [] = (Inr True, [])
   \<and> split_comparison '' > 5'' = Some ('' '', ''>'', '' 5'')
   \<and> evaluateLiquidCondition initial_state '' > 5'' (\<lambda>n. Undefined) [] = (Inl TypeError, [])
   \<and> split_comparison ''a > '' = Some (''a'', ''>'', '' '')
   \<and> evaluateLiquidCondition initial_state ''a > '' (\<lambda>n. Undefined) [] = (Inl TypeError, [])"
proof -
  let ?V = "\<lambda>n::string. Undefined"
  let ?c = "[] :: scache"
  have t1: "no_terminator ''x contains b''" "no_terminator ''x''" "no_terminator ''5 > 3''"
    "no_terminator '' > 5''" "no_terminator ''a > ''"
    by (simp_all add: no_terminator_def is_line_terminator_def)
  have c1: "str_includes ''x contains b'' '' contains ''" by code_simp
  have r1: "bindE (evaluateLiquidExpression initial_state
                    (trim (split ''x contains b'' '' contains '' ! 0)) (?V(''x'' := Str ''abc'')))
              (\<lambda>lv. bindE (evaluateLiquidExpression initial_state
                    (trim (split ''x contains b'' '' contains '' ! 1)) (?V(''x'' := Str ''abc'')))
              (\<lambda>rv. returns (str_includes (toStr lv) (toStr rv)))) ?c = (Inr True, [])"
    by code_simp
  have c2: "\<not> str_includes ''x'' '' contains ''" "split_comparison ''x'' = None" by code_simp+
  have r2: "bindE (evaluateLiquidExpression initial_state ''x'' (?V(''x'' := Num (Fin 0))))
              (\<lambda>v. returns (v \<notin> set falsy_values)) ?c = (Inr False, [])"
    by code_simp
  have c3: "\<not> str_includes ''5 > 3'' '' contains ''"
    "split_comparison ''5 > 3'' = Some (''5'', ''>'', '' 3'')" by code_simp+
  have r3: "evaluateLiquidExpression initial_state (trim ''5'') ?V ?c = (Inr (Str ''5''), [])"
    "evaluateLiquidExpression initial_state (trim '' 3'') ?V ?c = (Inr (Str ''3''), [])"
    "compare_values ''>'' (Str ''5'') (Str ''3'') = Some True" by code_simp+
  have c4: "\<not> str_includes '' > 5'' '' contains ''"
    "split_comparison '' > 5'' = Some ('' '', ''>'', '' 5'')" by code_simp+
  have r4: "evaluateLiquidExpression initial_state (trim '' '') ?V ?c = (Inl TypeError, [])"
    by code_simp
  have c5: "\<not> str_includes ''a > '' '' contains ''"
    "split_comparison ''a > '' = Some (''a'', ''>'', '' '')" by code_simp+
  have r5: "evaluateLiquidExpression initial_state (trim ''a'') ?V ?c = (Inr (Str ''a''), [])"
    "evaluateLiquidExpression initial_state (trim '' '') ?V ?c = (Inl TypeError, [])" by code_simp+
  have a1: "evaluateLiquidCondition initial_state ''x contains b'' (?V(''x'' := Str ''abc'')) ?c
              = (Inr True, [])"
    using evaluateLiquidCondition_cases [OF t1(1), of initial_state "?V(''x'' := Str ''abc'')"] c1 r1
    by simp
  have a2: "evaluateLiquidCondition initial_state ''x'' (?V(''x'' := Num (Fin 0))) ?c
              = (Inr False, [])"
    using evaluateLiquidCondition_cases [OF t1(2), of initial_state "?V(''x'' := Num (Fin 0))"] c2 r2
    by simp
  have a3: "evaluateLiquidCondition initial_state ''5 > 3'' ?V ?c = (Inr True, [])"
    using evaluateLiquidCondition_cases [OF t1(3), where st = initial_state and vars = ?V
        and l = "''5''" and op = "''>''" and t = "'' 3''" and lv = "Str ''5''" and rv = "Str ''3''"
        and b = True and c = ?c and ?c1.0 = ?c and ?c2.0 = ?c] c3 r3
    by simp
  have a4: "evaluateLiquidCondition initial_state '' > 5'' ?V ?c = (Inl TypeError, [])"
    using evaluateLiquidCondition_cases [OF t1(4), where st = initial_state and vars = ?V
        and l = "'' ''" and op = "''>''" and t = "'' 5''" and e = TypeError
        and c = ?c and ?c1.0 = ?c] c4 r4
    by simp
  have a5: "evaluateLiquidCondition initial_state ''a > '' ?V ?c = (Inl TypeError, [])"
    using evaluateLiquidCondition_cases [OF t1(5), where st = initial_state and vars = ?V
        and l = "''a''" and op = "''>''" and t = "'' ''" and e = TypeError and lv = "Str ''a''"
        and c = ?c and ?c1.0 = ?c and ?c2.0 = ?c]
      c5 r5
    by simp
  show ?thesis using t1 c1 c2 c3 c4 c5 a1 a2 a3 a4 a5 by simp
qed

subsection \<open>The caches across a scan\<close>

text \<open>No step of a scan takes an entry out of the cache of hex conversions.\<close>

lemma hex_kept_refl: "hex_kept st st"
  by (simp add: hex_kept_def)

lemma hex_kept_trans: "hex_kept a b \<Longrightarrow> hex_kept b c \<Longrightarrow> hex_kept a c"
  by (simp add: hex_kept_def)

lemma hex_kept_same: "hexToRgbaCache st' = hexToRgbaCache st \<Longrightarrow> hex_kept st st'"
  by (simp add: hex_kept_def)

lemma for_each_hex:
  assumes "\<And>x s. hex_kept s (state_of (f x s))"
  shows "hex_kept st (state_of (for_each f xs st))"
proof (induction xs arbitrary: st)
  case Nil
  show ?case by (simp add: hex_kept_refl)
next
  case (Cons x xs)
  show ?case
  proof (cases "f x st")
    case (Done s1)
    have "hex_kept st s1" using assms [of st x] Done by simp
    moreover have "hex_kept s1 (state_of (for_each f xs s1))" by (rule Cons.IH)
    ultimately show ?thesis using Done by (auto intro: hex_kept_trans)
  next
    case (Threw e s1)
    then show ?thesis using assms [of st x] by simp
  qed
qed

lemma and_then_hex:
  assumes "hex_kept st (state_of r)" and "\<And>s. hex_kept s (state_of (f s))"
  shows "hex_kept st (state_of (and_then r f))"
proof (cases r)
  case (Done s1)
  then show ?thesis using assms(1) assms(2) [of s1] by (auto intro: hex_kept_trans)
next
  case (Threw e s1)
  then show ?thesis using assms(1) by simp
qed

lemma foldl_hex:
  assumes "\<And>x s. hex_kept s (f s x)"
  shows "hex_kept st (foldl f st xs)"
proof (induction xs arbitrary: st)
  case Nil
  show ?case by (simp add: hex_kept_refl)
next
  case (Cons x xs)
  have "hex_kept st (f st x)" by (rule assms)
  moreover have "hex_kept (f st x) (foldl f (f st x) xs)" by (rule Cons.IH)
  ultimately show ?case by (auto intro: hex_kept_trans)
qed

lemma set_variable_hex: "hex_kept st (set_variable n e st)"
  by (simp add: hex_kept_def set_variable_def)

lemma record_variable_hex: "hex_kept st (state_of (record_variable path mq m st))"
  by (auto simp: record_variable_def Let_def hex_kept_refl set_variable_hex
      split: option.splits)

lemma parseVariablesInBlock_hex:
  "hex_kept st (state_of (parseVariablesInBlock content path mq st))"
  unfolding parseVariablesInBlock_def by (rule for_each_hex) (rule record_variable_hex)

lemma media_block_hex: "hex_kept st (state_of (media_block content path m st))"
  by (auto simp: media_block_def Let_def hex_kept_refl parseVariablesInBlock_hex
      split: option.splits)

lemma parseMediaBlocks_hex: "hex_kept st (state_of (parseMediaBlocks content path st))"
  unfolding parseMediaBlocks_def by (rule for_each_hex) (rule media_block_hex)

lemma root_block_hex: "hex_kept st (state_of (root_block text path m st))"
proof -
  let ?st = "st\<lparr>rootBlockLastIndex := match_end m\<rparr>"
  have a: "hex_kept st ?st" by (simp add: hex_kept_same)
  show ?thesis
  proof (cases "findMatchingBrace text (index m + length (matched m))")
    case None
    then show ?thesis using a by (simp add: root_block_def Let_def)
  next
    case (Some endPos)
    let ?c = "substring text (index m + length (matched m)) (endPos - 1)"
    have "hex_kept ?st (state_of (root_content ?c path ?st))"
      unfolding root_content_def
      by (rule and_then_hex) (rule parseVariablesInBlock_hex, rule parseMediaBlocks_hex)
    then show ?thesis using a Some by (auto simp: root_block_def Let_def intro: hex_kept_trans)
  qed
qed

lemma parseRootBlocks_hex: "hex_kept st (state_of (parseRootBlocks text path st))"
  unfolding parseRootBlocks_def
  by (rule and_then_hex) (rule for_each_hex, rule root_block_hex, simp add: hex_kept_same)

lemma record_echo_variable_hex: "hex_kept st (record_echo_variable path m st)"
  by (simp add: record_echo_variable_def Let_def hex_kept_refl set_variable_hex)

lemma parseLiquidEchoVariables_hex: "hex_kept st (parseLiquidEchoVariables text path st)"
  unfolding parseLiquidEchoVariables_def
  by (rule foldl_hex) (rule foldl_hex, rule record_echo_variable_hex)

lemma record_class_variable_hex: "hex_kept st (record_class_variable path m st)"
  by (simp add: record_class_variable_def Let_def hex_kept_refl set_variable_hex)

lemma class_line_hex: "hex_kept st (class_line path st line)"
  by (auto simp: class_line_def hex_kept_refl intro: foldl_hex record_class_variable_hex)

lemma class_block_hex: "hex_kept st (class_block text path st m)"
  by (auto simp: class_block_def Let_def hex_kept_refl split: option.splits
      intro: foldl_hex class_line_hex)

lemma parseClassBlocks_hex: "hex_kept st (parseClassBlocks text path st)"
  unfolding parseClassBlocks_def by (rule foldl_hex) (rule class_block_hex)

lemma style_block_hex: "hex_kept st (state_of (style_block config path block st))"
proof (cases "liquidToCSS (fst block) st")
  case (Pair r st1)
  have "only_caches st st1" using liquidToCSS_only [of st "fst block"] Pair by simp
  then have g: "hex_kept st st1" by (simp add: only_caches_def hex_kept_def)
  show ?thesis
  proof (cases r)
    case (Inl e)
    then show ?thesis using Pair g by (simp add: style_block_def)
  next
    case (Inr cleanCSS)
    let ?s1 = "parseLiquidEchoVariables cleanCSS path st1"
    have "hex_kept st1 ?s1" by (rule parseLiquidEchoVariables_hex)
    moreover have "hex_kept ?s1 (state_of (and_then (parseRootBlocks cleanCSS path ?s1)
        (\<lambda>st'. Done (if \<not> onlyRoot config then parseClassBlocks cleanCSS path st' else st'))))"
      by (rule and_then_hex) (rule parseRootBlocks_hex, simp add: hex_kept_refl parseClassBlocks_hex)
    ultimately show ?thesis using Pair Inr g
      by (auto simp: style_block_def intro: hex_kept_trans)
  qed
qed

lemma getExtensionConfig_hex: "hex_kept st (snd (getExtensionConfig st))"
  by (simp add: getExtensionConfig_def hex_kept_same split: option.splits)

lemma parseCssVariables_hex: "hex_kept st (state_of (parseCssVariables text path st))"
proof -
  obtain config st1 where c: "getExtensionConfig st = (config, st1)" by (cases "getExtensionConfig st")
  have a: "hex_kept st st1" using getExtensionConfig_hex [of st] c by simp
  have "hex_kept st1 (state_of (for_each (style_block config path) (styleBlocks text) st1))"
    by (rule for_each_hex) (rule style_block_hex)
  then show ?thesis using a c by (auto simp: parseCssVariables_def hex_kept_refl intro: hex_kept_trans)
qed

lemma scan_file_hex: "hex_kept st (scan_file st f)"
  by (simp add: scan_file_def hex_kept_refl parseCssVariables_hex)

lemma scanLiquidFiles_hex: "hex_kept st (snd (scanLiquidFiles inp st))"
proof -
  let ?st1 = "(scan_start st)\<lparr>shopifySettings := loadedSettings inp,
                                 shopifySettingsSchema := loadedSchema inp\<rparr>"
  have a: "hex_kept st ?st1" by (simp add: hex_kept_same scan_start_def)
  have b: "hex_kept ?st1 (snd (getExtensionConfig ?st1))" by (rule getExtensionConfig_hex)
  have c: "hex_kept (snd (getExtensionConfig ?st1))
             (foldl scan_file (snd (getExtensionConfig ?st1)) (liquidFiles inp))"
    by (rule foldl_hex) (rule scan_file_hex)
  show ?thesis using a hex_kept_trans [OF a hex_kept_trans [OF b c]]
    by (simp add: scanLiquidFiles_def Let_def)
qed

text \<open>
  C3, amended. A scan starts by emptying the registry and the cache of setting lookups:
  what the scan returns and the state it leaves are the same whatever the registry and
  that cache held before, so no setting memoized before the scan is served in it. The
  scan does not empty the cache of hex conversions: every entry that the cache holds when
  the scan starts is there when the scan ends, and a conversion with the entry's key
  returns the memoized record. \<open>invalidateConfigCache\<close>, which runs when the
  configuration changes, empties both caches.
\<close>

theorem rescan_caches:
  "scanLiquidFiles inp (st\<lparr>cssVariables := r, settingValueCache := c\<rparr>) = scanLiquidFiles inp st
   \<and> (map_of (hexToRgbaCache st) k = Some v \<longrightarrow>
        map_of (hexToRgbaCache (snd (scanLiquidFiles inp st))) k = Some v)
   \<and> (hex \<noteq> [] \<and> map_of (hexToRgbaCache st) (hex_cacheKey hex alpha) = Some w \<longrightarrow>
        hexToRgba (Str hex) alpha (snd (scanLiquidFiles inp st))
          = (Some w, snd (scanLiquidFiles inp st)))
   \<and> hexToRgbaCache (invalidateConfigCache st) = []
   \<and> settingValueCache (invalidateConfigCache st) = []"
proof (intro conjI impI)
  show "scanLiquidFiles inp (st\<lparr>cssVariables := r, settingValueCache := c\<rparr>) = scanLiquidFiles inp st"
    by (simp add: scanLiquidFiles_def scan_start_def)
next
  assume "map_of (hexToRgbaCache st) k = Some v"
  then show "map_of (hexToRgbaCache (snd (scanLiquidFiles inp st))) k = Some v"
    using scanLiquidFiles_hex [of st inp] by (simp add: hex_kept_def)
next
  assume "hex \<noteq> [] \<and> map_of (hexToRgbaCache st) (hex_cacheKey hex alpha) = Some w"
  then have "hex \<noteq> []"
    "map_of (hexToRgbaCache (snd (scanLiquidFiles inp st))) (hex_cacheKey hex alpha) = Some w"
    using scanLiquidFiles_hex [of st inp] by (simp_all add: hex_kept_def)
  then show "hexToRgba (Str hex) alpha (snd (scanLiquidFiles inp st))
          = (Some w, snd (scanLiquidFiles inp st))"
    by (simp add: hexToRgba_def)
qed (simp_all add: invalidateConfigCache_def)

text \<open>
  The claim has both caches emptied at the start of a scan. A scan of a file that reads
  a colour of the first colour scheme memoizes the conversion of \<open>#fff\<close>. A scan that
  starts with an entry under that key ends with the entry, and the variable's value is
  read from it: with another record in the entry's place, the registry shows that
  record's numbers.
\<close>

theorem rescan_caches_counterexample:
  "scan_view (scanLiquidFiles scheme_scan initial_state)
     = ([(''--bg'', ''255, 255, 255, 1'')],
        [(''#fff-1'', opaque (Fin 255) (Fin 255) (Fin 255))], [])
   \<and> scan_view (scanLiquidFiles scheme_scan
        (initial_state\<lparr>hexToRgbaCache := [(''#fff-1'', opaque (Fin 1) (Fin 2) (Fin 3))]\<rparr>))
     = ([(''--bg'', ''1, 2, 3, 1'')], [(''#fff-1'', opaque (Fin 1) (Fin 2) (Fin 3))], [])"
  by code_simp

theorem rescan_caches_witness:
  "scan_view (scanLiquidFiles (dark_scan False)
      (initial_state\<lparr>cssVariables := [(''--bg'', new_entry ''a.liquid'' ''black'')],
                      settingValueCache := [(''dark'', JBool True)]\<rparr>))
     = ([(''--bg'', ''white'')], [], [(''dark'', JBool False)])
   \<and> ''#fff'' \<noteq> [] \<and> hex_cacheKey ''#fff'' (Fin 1) = ''#fff-1''
   \<and> map_of (hexToRgbaCache
        (initial_state\<lparr>hexToRgbaCache := [(''#fff-1'', opaque (Fin 255) (Fin 255) (Fin 255))]\<rparr>))
        ''#fff-1'' = Some (opaque (Fin 255) (Fin 255) (Fin 255))
   \<and> map_of (hexToRgbaCache (snd (scanLiquidFiles (dark_scan False)
        (initial_state\<lparr>hexToRgbaCache := [(''#fff-1'', opaque (Fin 255) (Fin 255) (Fin 255))]\<rparr>))))
        ''#fff-1'' = Some (opaque (Fin 255) (Fin 255) (Fin 255))
   \<and> fst (hexToRgba (Str ''#fff'') (Fin 1) (snd (scanLiquidFiles (dark_scan False)
        (initial_state\<lparr>hexToRgbaCache := [(''#fff-1'', opaque (Fin 255) (Fin 255) (Fin 255))]\<rparr>))))
       = Some (opaque (Fin 255) (Fin 255) (Fin 255))"
proof -
  let ?w = "opaque (Fin 255) (Fin 255) (Fin 255)"
  let ?st = "initial_state\<lparr>hexToRgbaCache := [(''#fff-1'', ?w)]\<rparr>"
  have k: "hex_cacheKey ''#fff'' (Fin 1) = ''#fff-1''" by code_simp
  have h: "map_of (hexToRgbaCache ?st) ''#fff-1'' = Some ?w" by simp
  have v: "scan_view (scanLiquidFiles (dark_scan False) initial_state)
             = ([(''--bg'', ''white'')], [], [(''dark'', JBool False)])"
    by code_simp
  have a: "scanLiquidFiles (dark_scan False)
      (initial_state\<lparr>cssVariables := [(''--bg'', new_entry ''a.liquid'' ''black'')],
                      settingValueCache := [(''dark'', JBool True)]\<rparr>)
     = scanLiquidFiles (dark_scan False) initial_state"
    using rescan_caches [where inp = "dark_scan False" and st = initial_state
        and r = "[(''--bg'', new_entry ''a.liquid'' ''black'')]" and c = "[(''dark'', JBool True)]"]
    by simp
  have b: "map_of (hexToRgbaCache (snd (scanLiquidFiles (dark_scan False) ?st))) ''#fff-1'' = Some ?w"
    using rescan_caches [where inp = "dark_scan False" and st = ?st and k = "''#fff-1''" and v = ?w] h
    by simp
  have c: "fst (hexToRgba (Str ''#fff'') (Fin 1) (snd (scanLiquidFiles (dark_scan False) ?st))) = Some ?w"
    using rescan_caches [where inp = "dark_scan False" and st = ?st and hex = "''#fff''"
        and alpha = "Fin 1" and w = ?w] h k
    by simp
  show ?thesis using a b c h k v by simp
qed

end
